theory Spec2Isabelle
  imports Complex_Main "HOL-Library.AList" "HOL-Library.Sublist"
begin

section \<open>Values\<close>

text \<open>
  The tool handlers of \<^verbatim>\<open>app/tools/*.py\<close> build a Python \<^verbatim>\<open>dict\<close> of query
  parameters, hand it to \<^verbatim>\<open>httpx.AsyncClient.get\<close> and return the decoded JSON body.
  Python integers are unbounded (\<^typ>\<open>int\<close>). Floats are never computed with inside a
  handler; they are carried as rationals. A \<^verbatim>\<open>dict\<close> keeps insertion order, so it is an
  association list with distinct keys: \<^const>\<open>map_of\<close> reads it and
  \<^const>\<open>AList.update\<close> is \<^verbatim>\<open>d[k] = v\<close> (replace in place, or append a new key).
\<close>

datatype pval = PInt int | PStr string | PBool bool | PFloat rat | PList "string list"

type_synonym pdict = "(string \<times> pval) list"

datatype json =
    JNull
  | JBool bool
  | JInt int
  | JFloat rat
  | JStr string
  | JList "json list"
  | JDict "(string \<times> json) list"

text \<open>Python truthiness, as used by \<^verbatim>\<open>if value\<close> and \<^verbatim>\<open>if include:\<close>.\<close>

fun truthy :: "pval \<Rightarrow> bool" where
  "truthy (PInt i) = (i \<noteq> 0)"
| "truthy (PStr s) = (s \<noteq> [])"
| "truthy (PBool b) = b"
| "truthy (PFloat x) = (x \<noteq> 0)"
| "truthy (PList xs) = (xs \<noteq> [])"

subsection \<open>Exceptions\<close>

text \<open>
  An exception object is its class and its \<^verbatim>\<open>args\<close>: either a message, or (for
  \<^verbatim>\<open>ValueError(e)\<close>) another exception object.
\<close>

datatype exn_class =
    ValueError | HTTPStatusError | RequestError | InvalidURL
  | JSONDecodeError | AttributeError | TypeError

datatype pyexn = Exn exn_class string | ExnOf exn_class pyexn

fun class_of :: "pyexn \<Rightarrow> exn_class" where
  "class_of (Exn c m) = c"
| "class_of (ExnOf c e) = c"

text \<open>\<^verbatim>\<open>str(e)\<close>: with a single argument, the \<^verbatim>\<open>str\<close> of that argument.\<close>

fun str_exn :: "pyexn \<Rightarrow> string" where
  "str_exn (Exn c m) = m"
| "str_exn (ExnOf c e) = str_exn e"

subsection \<open>Formatting\<close>

definition digit_char :: "nat \<Rightarrow> char" where
  "digit_char d = char_of (48 + d)"

fun str_nat :: "nat \<Rightarrow> string" where
  "str_nat n = (if n < 10 then [digit_char n] else str_nat (n div 10) @ [digit_char (n mod 10)])"

declare str_nat.simps [simp del]

definition str_int :: "int \<Rightarrow> string" where
  "str_int i = (if i < 0 then CHR ''-'' # str_nat (nat (- i)) else str_nat (nat i))"

text \<open>\<^verbatim>\<open>f"{i:02d}"\<close>: zero-padded to width two; a sign counts towards the width.\<close>

definition fmt_02d :: "int \<Rightarrow> string" where
  "fmt_02d i = (let s = str_int i in if length s < 2 then CHR ''0'' # s else s)"

text \<open>\<^verbatim>\<open>f"{x}"\<close> of a \<^verbatim>\<open>str | None\<close>.\<close>

definition str_opt :: "string option \<Rightarrow> string" where
  "str_opt x = (case x of None \<Rightarrow> ''None'' | Some s \<Rightarrow> s)"

definition quoted :: "string \<Rightarrow> string" where
  "quoted s = CHR 0x27 # s @ [CHR 0x27]"

section \<open>Configuration (\<^verbatim>\<open>app/config.py\<close>)\<close>

record config =
  host :: string
  mcp_port :: int
  openstates_log_level :: string
  openstates_debug :: bool
  environment :: string
  openstates_base_url :: string
  openstates_api_key :: "string option"
  openstates_timeout :: int
  openstates_connect_timeout :: int
  openstates_read_timeout :: int
  openstates_rate_limit :: int
  openstates_cache_ttl :: int
  openstates_max_retries :: int
  openstates_retry_delay :: rat

definition default_config :: config where
  "default_config =
     \<lparr> host = ''0.0.0.0'', mcp_port = 8795,
       openstates_log_level = ''INFO'', openstates_debug = False,
       environment = ''production'',
       openstates_base_url = ''https://v3.openstates.org'',
       openstates_api_key = None,
       openstates_timeout = 30, openstates_connect_timeout = 10,
       openstates_read_timeout = 30, openstates_rate_limit = 50,
       openstates_cache_ttl = 300, openstates_max_retries = 3,
       openstates_retry_delay = 1 \<rparr>"

section \<open>The world a handler acts on\<close>

text \<open>
  A handler has two effects: it writes log lines (to the per-call \<^verbatim>\<open>Context\<close> when one is
  given, otherwise to the process-wide \<^verbatim>\<open>logger\<close>), and it calls \<^verbatim>\<open>client.get\<close>.
  Both are recorded, in order. What \<^verbatim>\<open>client.get\<close> does with a request is the
  parameter \<open>upstream\<close> of every handler: it raises, or it returns a response with a
  status code, the text \<^verbatim>\<open>raise_for_status\<close> would put in its exception, and a body that
  \<^verbatim>\<open>response.json()\<close> decodes or rejects.
\<close>

datatype mcp_context = Context

datatype sink = ToContext | ToLogger

datatype level = INFO | ERROR

type_synonym log_entry = "sink \<times> level \<times> string"

record request =
  http_method :: string
  url :: string
  params :: pdict
  headers :: "(string \<times> string) list"
  timeout :: rat

record response =
  status_code :: nat
  status_error_text :: string
  body :: "string + json"

datatype http_outcome = Raises pyexn | Responds response

record world =
  logged :: "log_entry list"
  get_calls :: "request list"

type_synonym 'a result = "(pyexn + 'a) \<times> world"

definition sink_of :: "mcp_context option \<Rightarrow> sink" where
  "sink_of ctx = (case ctx of Some c \<Rightarrow> ToContext | None \<Rightarrow> ToLogger)"

section \<open>Helpers shared by the five tool modules\<close>

text \<open>
  \<^verbatim>\<open>_validate_api_key\<close>, \<^verbatim>\<open>_log_info\<close>, \<^verbatim>\<open>_log_error\<close> and \<^verbatim>\<open>_handle_api_error\<close> are
  defined, with the same text, in each of \<^verbatim>\<open>bills.py\<close>, \<^verbatim>\<open>people.py\<close>,
  \<^verbatim>\<open>committees.py\<close>, \<^verbatim>\<open>events.py\<close> and \<^verbatim>\<open>jurisdictions.py\<close>.
\<close>

definition validate_api_key :: "config \<Rightarrow> pyexn + string" where
  "validate_api_key cfg =
     (case openstates_api_key cfg of
        None \<Rightarrow> Inl (Exn ValueError ''OPENSTATES_API_KEY not found in environment variables'')
      | Some k \<Rightarrow>
          if k = [] then Inl (Exn ValueError ''OPENSTATES_API_KEY not found in environment variables'')
          else Inr k)"

definition log_info :: "mcp_context option \<Rightarrow> string \<Rightarrow> world \<Rightarrow> world" where
  "log_info ctx message w = w\<lparr>logged := logged w @ [(sink_of ctx, INFO, message)]\<rparr>"

definition log_error :: "mcp_context option \<Rightarrow> string \<Rightarrow> world \<Rightarrow> world" where
  "log_error ctx message w = w\<lparr>logged := logged w @ [(sink_of ctx, ERROR, message)]\<rparr>"

text \<open>\<^verbatim>\<open>_handle_api_error\<close> never returns: it logs and raises its argument.\<close>

definition handle_api_error :: "mcp_context option \<Rightarrow> pyexn \<Rightarrow> world \<Rightarrow> 'a result" where
  "handle_api_error ctx error w =
     (let error_msg =
            (if class_of error = HTTPStatusError then ''HTTP error: '' @ str_exn error
             else ''API error: '' @ str_exn error)
      in (Inl error, log_error ctx error_msg w))"

subsection \<open>Building the query parameters\<close>

text \<open>
  \<^verbatim>\<open>params.setdefault(k, []).append(item)\<close>: a missing key is bound to a new list; the
  list under the key grows by one. On a value that is not a list, \<^verbatim>\<open>append\<close> is an
  \<^verbatim>\<open>AttributeError\<close>.
\<close>

definition pval_type_name :: "pval \<Rightarrow> string" where
  "pval_type_name v =
     (case v of PInt i \<Rightarrow> ''int'' | PStr s \<Rightarrow> ''str'' | PBool b \<Rightarrow> ''bool''
      | PFloat x \<Rightarrow> ''float'' | PList xs \<Rightarrow> ''list'')"

definition setdefault_append :: "string \<Rightarrow> string \<Rightarrow> pdict \<Rightarrow> pyexn + pdict" where
  "setdefault_append k item d =
     (case map_of d k of
        None \<Rightarrow> Inr (d @ [(k, PList [item])])
      | Some (PList l) \<Rightarrow> Inr (AList.update k (PList (l @ [item])) d)
      | Some v \<Rightarrow>
          Inl (Exn AttributeError
                 (quoted (pval_type_name v) @ '' object has no attribute '' @ quoted ''append'')))"

text \<open>\<^verbatim>\<open>for item in xs: params.setdefault(k, []).append(item)\<close>\<close>

fun append_items :: "string \<Rightarrow> string list \<Rightarrow> pdict \<Rightarrow> pyexn + pdict" where
  "append_items k [] d = Inr d"
| "append_items k (item # items) d =
     (case setdefault_append k item d of
        Inl e \<Rightarrow> Inl e
      | Inr d' \<Rightarrow> append_items k items d')"

text \<open>\<^verbatim>\<open>if xs: for item in xs: ...\<close> for a \<^verbatim>\<open>list[str] | None\<close>.\<close>

definition add_list_param :: "string \<Rightarrow> string list option \<Rightarrow> pdict \<Rightarrow> pyexn + pdict" where
  "add_list_param k xs d =
     (case xs of
        None \<Rightarrow> Inr d
      | Some l \<Rightarrow> if l = [] then Inr d else append_items k l d)"

text \<open>\<^verbatim>\<open>{key: value for key, value in param_fields.items() if value}\<close>\<close>

fun items_if_truthy :: "(string \<times> pval option) list \<Rightarrow> pdict" where
  "items_if_truthy [] = []"
| "items_if_truthy ((k, None) # fs) = items_if_truthy fs"
| "items_if_truthy ((k, Some v) # fs) =
     (if truthy v then (k, v) # items_if_truthy fs else items_if_truthy fs)"

text \<open>\<^verbatim>\<open>{key: value for key, value in param_fields.items() if value is not None}\<close>\<close>

fun items_if_not_none :: "(string \<times> pval option) list \<Rightarrow> pdict" where
  "items_if_not_none [] = []"
| "items_if_not_none ((k, None) # fs) = items_if_not_none fs"
| "items_if_not_none ((k, Some v) # fs) = (k, v) # items_if_not_none fs"

text \<open>\<^verbatim>\<open>params.update(d)\<close>: the items of \<open>d\<close> are stored in order.\<close>

definition dict_update :: "pdict \<Rightarrow> pdict \<Rightarrow> pdict" where
  "dict_update d new = fold (\<lambda>(k, v). AList.update k v) new d"

definition opt_str :: "string option \<Rightarrow> pval option" where
  "opt_str x = map_option PStr x"

subsection \<open>The request\<close>

text \<open>
  \<^verbatim>\<open>await client.get(url, params=params, headers=headers, timeout=30.0)\<close>: one call,
  recorded, answered by \<open>upstream\<close>.
\<close>

definition client_get ::
  "(request \<Rightarrow> http_outcome) \<Rightarrow> string \<Rightarrow> pdict \<Rightarrow> (string \<times> string) list \<Rightarrow> rat \<Rightarrow>
   world \<Rightarrow> http_outcome \<times> world" where
  "client_get upstream u ps hs t w =
     (let req = \<lparr> http_method = ''GET'', url = u, params = ps, headers = hs, timeout = t \<rparr>
      in (upstream req, w\<lparr>get_calls := get_calls w @ [req]\<rparr>))"

text \<open>\<^verbatim>\<open>response.raise_for_status()\<close> raises unless the status is 2xx.\<close>

definition is_success :: "nat \<Rightarrow> bool" where
  "is_success code = (200 \<le> code \<and> code \<le> 299)"

definition json_type_name :: "json \<Rightarrow> string" where
  "json_type_name v =
     (case v of JNull \<Rightarrow> ''NoneType'' | JBool b \<Rightarrow> ''bool'' | JInt i \<Rightarrow> ''int''
      | JFloat x \<Rightarrow> ''float'' | JStr s \<Rightarrow> ''str'' | JList xs \<Rightarrow> ''list''
      | JDict kvs \<Rightarrow> ''dict'')"

text \<open>\<^verbatim>\<open>data.get('results', [])\<close>: only a \<^verbatim>\<open>dict\<close> has \<^verbatim>\<open>get\<close>.\<close>

definition results_of :: "json \<Rightarrow> pyexn + json" where
  "results_of data =
     (case data of
        JDict kvs \<Rightarrow> (case map_of kvs ''results'' of None \<Rightarrow> Inr (JList []) | Some v \<Rightarrow> Inr v)
      | _ \<Rightarrow>
          Inl (Exn AttributeError
                 (quoted (json_type_name data) @ '' object has no attribute '' @ quoted ''get'')))"

text \<open>
  A \<^verbatim>\<open>str\<close> is held as its UTF-8 bytes, one \<^typ>\<open>char\<close> each. Python counts the
  code points of a \<^verbatim>\<open>str\<close>: the bytes that are not continuation bytes (\<^verbatim>\<open>0x80\<close> to
  \<^verbatim>\<open>0xBF\<close>).
\<close>

definition code_points :: "string \<Rightarrow> nat" where
  "code_points s =
     length (filter (\<lambda>c. \<not> (128 \<le> (of_char c :: nat) \<and> (of_char c :: nat) < 192)) s)"

text \<open>\<^verbatim>\<open>len(v)\<close>: lists, dicts and strings have a length.\<close>

definition py_len :: "json \<Rightarrow> pyexn + nat" where
  "py_len v =
     (case v of
        JList xs \<Rightarrow> Inr (length xs)
      | JDict kvs \<Rightarrow> Inr (length kvs)
      | JStr s \<Rightarrow> Inr (code_points s)
      | _ \<Rightarrow>
          Inl (Exn TypeError
                 (''object of type '' @ quoted (json_type_name v) @ '' has no len()'')))"

text \<open>
  The \<^verbatim>\<open>try\<close> block of the five search handlers (for example lines 211 to 226 of
  \<^verbatim>\<open>bills.py\<close>): get, \<^verbatim>\<open>raise_for_status\<close>, decode, log the number of results, return
  the decoded body; any exception goes to \<^verbatim>\<open>_handle_api_error\<close>. The handlers differ in
  the URL and in the noun of the log line.
\<close>

definition get_and_count ::
  "(request \<Rightarrow> http_outcome) \<Rightarrow> mcp_context option \<Rightarrow> string \<Rightarrow> pdict \<Rightarrow>
   (string \<times> string) list \<Rightarrow> string \<Rightarrow> world \<Rightarrow> json result" where
  "get_and_count upstream ctx u ps hs noun w =
     (case client_get upstream u ps hs 30 w of
        (Raises e, w1) \<Rightarrow> handle_api_error ctx e w1
      | (Responds r, w1) \<Rightarrow>
          if \<not> is_success (status_code r)
          then handle_api_error ctx (Exn HTTPStatusError (status_error_text r)) w1
          else (case body r of
                  Inl m \<Rightarrow> handle_api_error ctx (Exn JSONDecodeError m) w1
                | Inr data \<Rightarrow>
                    (case results_of data of
                       Inl e \<Rightarrow> handle_api_error ctx e w1
                     | Inr rs \<Rightarrow>
                         (case py_len rs of
                            Inl e \<Rightarrow> handle_api_error ctx e w1
                          | Inr n \<Rightarrow>
                              (Inr data,
                               log_info ctx (''Found '' @ str_nat n @ '' '' @ noun) w1)))))"

text \<open>
  The \<^verbatim>\<open>try\<close> block of the six get handlers (for example lines 271 to 285 of
  \<^verbatim>\<open>bills.py\<close>): get, \<^verbatim>\<open>raise_for_status\<close>, log success, then decode and return.
\<close>

definition get_and_return ::
  "(request \<Rightarrow> http_outcome) \<Rightarrow> mcp_context option \<Rightarrow> string \<Rightarrow> pdict \<Rightarrow>
   (string \<times> string) list \<Rightarrow> string \<Rightarrow> world \<Rightarrow> json result" where
  "get_and_return upstream ctx u ps hs success_msg w =
     (case client_get upstream u ps hs 30 w of
        (Raises e, w1) \<Rightarrow> handle_api_error ctx e w1
      | (Responds r, w1) \<Rightarrow>
          if \<not> is_success (status_code r)
          then handle_api_error ctx (Exn HTTPStatusError (status_error_text r)) w1
          else (let w2 = log_info ctx success_msg w1
                in case body r of
                     Inl m \<Rightarrow> handle_api_error ctx (Exn JSONDecodeError m) w2
                   | Inr data \<Rightarrow> (Inr data, w2)))"

text \<open>\<^verbatim>\<open>params = {}; if include: params["include"] = include\<close>\<close>

definition include_params :: "string list option \<Rightarrow> pdict" where
  "include_params include =
     (case include of
        None \<Rightarrow> []
      | Some l \<Rightarrow> if l = [] then [] else [(''include'', PList l)])"

section \<open>Bills (\<^verbatim>\<open>app/tools/bills.py\<close>)\<close>

text \<open>Lines 178 to 208 of \<^verbatim>\<open>search_bills\<close>: the query parameters.\<close>

definition search_bills_params ::
  "string option \<Rightarrow> string option \<Rightarrow> string option \<Rightarrow> string list option \<Rightarrow>
   string option \<Rightarrow> string list option \<Rightarrow> string option \<Rightarrow> string option \<Rightarrow>
   string option \<Rightarrow> string \<Rightarrow> string option \<Rightarrow> string option \<Rightarrow> string option \<Rightarrow>
   string list option \<Rightarrow> int \<Rightarrow> int \<Rightarrow> pyexn + pdict" where
  "search_bills_params jurisdiction session chamber identifier classification subject
       updated_since created_since action_since sort_order sponsor sponsor_classification q
       include page per_page =
     (let params0 = [(''page'', PInt page), (''per_page'', PInt (min per_page 100))];
          param_fields =
            [(''jurisdiction'', opt_str jurisdiction),
             (''session'', opt_str session),
             (''chamber'', opt_str chamber),
             (''classification'', opt_str classification),
             (''updated_since'', opt_str updated_since),
             (''created_since'', opt_str created_since),
             (''action_since'', opt_str action_since),
             (''sort'', Some (PStr sort_order)),
             (''sponsor'', opt_str sponsor),
             (''sponsor_classification'', opt_str sponsor_classification),
             (''q'', opt_str q)]
      in case add_list_param ''identifier'' identifier params0 of
           Inl e \<Rightarrow> Inl e
         | Inr params1 \<Rightarrow>
        (case add_list_param ''subject'' subject params1 of
           Inl e \<Rightarrow> Inl e
         | Inr params2 \<Rightarrow>
        (case add_list_param ''include'' include params2 of
           Inl e \<Rightarrow> Inl e
         | Inr params3 \<Rightarrow> Inr (dict_update params3 (items_if_truthy param_fields)))))"

definition search_bills ::
  "config \<Rightarrow> (request \<Rightarrow> http_outcome) \<Rightarrow>
   string option \<Rightarrow> string option \<Rightarrow> string option \<Rightarrow> string list option \<Rightarrow>
   string option \<Rightarrow> string list option \<Rightarrow> string option \<Rightarrow> string option \<Rightarrow>
   string option \<Rightarrow> string \<Rightarrow> string option \<Rightarrow> string option \<Rightarrow> string option \<Rightarrow>
   string list option \<Rightarrow> int \<Rightarrow> int \<Rightarrow> mcp_context option \<Rightarrow> world \<Rightarrow> json result" where
  "search_bills cfg upstream jurisdiction session chamber identifier classification subject
       updated_since created_since action_since sort_order sponsor sponsor_classification q
       include page per_page ctx w =
     (let w1 = log_info ctx
                 (''Searching bills with jurisdiction: '' @ str_opt jurisdiction
                  @ '', query: '' @ str_opt q) w
      in case validate_api_key cfg of
           Inl e \<Rightarrow> (Inl e, log_error ctx (str_exn e) w1)
         | Inr api_key \<Rightarrow>
             (case search_bills_params jurisdiction session chamber identifier classification
                     subject updated_since created_since action_since sort_order sponsor
                     sponsor_classification q include page per_page of
                Inl e \<Rightarrow> (Inl e, w1)
              | Inr ps \<Rightarrow>
                  get_and_count upstream ctx ''https://v3.openstates.org/bills'' ps
                    [(''x-api-key'', api_key)] ''bills'' w1))"

definition get_bill_by_id ::
  "config \<Rightarrow> (request \<Rightarrow> http_outcome) \<Rightarrow> string \<Rightarrow> string list option \<Rightarrow>
   mcp_context option \<Rightarrow> world \<Rightarrow> json result" where
  "get_bill_by_id cfg upstream bill_uuid include ctx w =
     (let w1 = log_info ctx (''Getting bill by UUID: '' @ bill_uuid) w
      in case validate_api_key cfg of
           Inl e \<Rightarrow> (Inl e, log_error ctx (str_exn e) w1)
         | Inr api_key \<Rightarrow>
             get_and_return upstream ctx
               (''https://v3.openstates.org/bills/ocd-bill/'' @ bill_uuid)
               (include_params include) [(''x-api-key'', api_key)]
               (''Successfully retrieved bill '' @ bill_uuid) w1)"

definition get_bill_details ::
  "config \<Rightarrow> (request \<Rightarrow> http_outcome) \<Rightarrow> string \<Rightarrow> string \<Rightarrow> string \<Rightarrow>
   string list option \<Rightarrow> mcp_context option \<Rightarrow> world \<Rightarrow> json result" where
  "get_bill_details cfg upstream jurisdiction session bill_id include ctx w =
     (let w1 = log_info ctx
                 (''Getting bill details: '' @ jurisdiction @ ''/'' @ session @ ''/'' @ bill_id) w
      in case validate_api_key cfg of
           Inl e \<Rightarrow> (Inl e, log_error ctx (str_exn e) w1)
         | Inr api_key \<Rightarrow>
             get_and_return upstream ctx
               (''https://v3.openstates.org/bills/'' @ jurisdiction @ ''/'' @ session
                @ ''/'' @ bill_id)
               (include_params include) [(''x-api-key'', api_key)]
               (''Successfully retrieved bill '' @ jurisdiction @ ''/'' @ session
                @ ''/'' @ bill_id) w1)"

section \<open>People (\<^verbatim>\<open>app/tools/people.py\<close>)\<close>

text \<open>
  Lines 132 to 152 of \<^verbatim>\<open>search_people\<close>. The argument \<^verbatim>\<open>id\<close> is written
  \<open>id_filter\<close> here.
\<close>

definition search_people_params ::
  "string option \<Rightarrow> string option \<Rightarrow> string list option \<Rightarrow> string option \<Rightarrow>
   string option \<Rightarrow> string list option \<Rightarrow> int \<Rightarrow> int \<Rightarrow> pyexn + pdict" where
  "search_people_params jurisdiction name id_filter org_classification district include
       page per_page =
     (let params0 = [(''page'', PInt page), (''per_page'', PInt (min per_page 100))];
          param_fields =
            [(''jurisdiction'', opt_str jurisdiction),
             (''name'', opt_str name),
             (''org_classification'', opt_str org_classification),
             (''district'', opt_str district)]
      in case add_list_param ''id'' id_filter params0 of
           Inl e \<Rightarrow> Inl e
         | Inr params1 \<Rightarrow>
        (case add_list_param ''include'' include params1 of
           Inl e \<Rightarrow> Inl e
         | Inr params2 \<Rightarrow> Inr (dict_update params2 (items_if_truthy param_fields))))"

definition search_people ::
  "config \<Rightarrow> (request \<Rightarrow> http_outcome) \<Rightarrow>
   string option \<Rightarrow> string option \<Rightarrow> string list option \<Rightarrow> string option \<Rightarrow>
   string option \<Rightarrow> string list option \<Rightarrow> int \<Rightarrow> int \<Rightarrow> mcp_context option \<Rightarrow> world \<Rightarrow>
   json result" where
  "search_people cfg upstream jurisdiction name id_filter org_classification district include
       page per_page ctx w =
     (let w1 = log_info ctx
                 (''Searching people with jurisdiction: '' @ str_opt jurisdiction
                  @ '', name: '' @ str_opt name) w
      in case validate_api_key cfg of
           Inl e \<Rightarrow> (Inl e, log_error ctx (str_exn e) w1)
         | Inr api_key \<Rightarrow>
             (case search_people_params jurisdiction name id_filter org_classification
                     district include page per_page of
                Inl e \<Rightarrow> (Inl e, w1)
              | Inr ps \<Rightarrow>
                  get_and_count upstream ctx ''https://v3.openstates.org/people'' ps
                    [(''x-api-key'', api_key)] ''people'' w1))"

text \<open>
  \<^verbatim>\<open>get_legislators_by_location\<close> prints its two floats in the first log line. How
  Python prints a float is not modelled: it is the parameter \<open>float_str\<close>.
\<close>

definition get_legislators_by_location ::
  "(rat \<Rightarrow> string) \<Rightarrow> config \<Rightarrow> (request \<Rightarrow> http_outcome) \<Rightarrow> rat \<Rightarrow> rat \<Rightarrow>
   mcp_context option \<Rightarrow> world \<Rightarrow> json result" where
  "get_legislators_by_location float_str cfg upstream latitude longitude ctx w =
     (let w1 = log_info ctx
                 (''Getting legislators for location: '' @ float_str latitude @ '', ''
                  @ float_str longitude) w
      in case validate_api_key cfg of
           Inl e \<Rightarrow> (Inl e, log_error ctx (str_exn e) w1)
         | Inr api_key \<Rightarrow>
             get_and_return upstream ctx ''https://v3.openstates.org/people.geo''
               [(''lat'', PFloat latitude), (''lng'', PFloat longitude)]
               [(''x-api-key'', api_key)]
               ''Successfully retrieved legislators for location'' w1)"

section \<open>Committees (\<^verbatim>\<open>app/tools/committees.py\<close>)\<close>

definition search_committees_params ::
  "string option \<Rightarrow> string option \<Rightarrow> string option \<Rightarrow> string option \<Rightarrow>
   string list option \<Rightarrow> int \<Rightarrow> int \<Rightarrow> pyexn + pdict" where
  "search_committees_params jurisdiction classification parent chamber include page per_page =
     (let params0 = [(''page'', PInt page), (''per_page'', PInt (min per_page 100))];
          param_fields =
            [(''jurisdiction'', opt_str jurisdiction),
             (''classification'', opt_str classification),
             (''parent'', opt_str parent),
             (''chamber'', opt_str chamber)]
      in case add_list_param ''include'' include params0 of
           Inl e \<Rightarrow> Inl e
         | Inr params1 \<Rightarrow> Inr (dict_update params1 (items_if_truthy param_fields)))"

text \<open>
  In \<^verbatim>\<open>search_committees\<close> the handler of the missing key ends with
  \<^verbatim>\<open>raise ValueError(e)\<close> (line 124), where the ten other handlers have a bare
  \<^verbatim>\<open>raise\<close>.
\<close>

definition search_committees ::
  "config \<Rightarrow> (request \<Rightarrow> http_outcome) \<Rightarrow>
   string option \<Rightarrow> string option \<Rightarrow> string option \<Rightarrow> string option \<Rightarrow>
   string list option \<Rightarrow> int \<Rightarrow> int \<Rightarrow> mcp_context option \<Rightarrow> world \<Rightarrow> json result" where
  "search_committees cfg upstream jurisdiction classification parent chamber include
       page per_page ctx w =
     (let w1 = log_info ctx
                 (''Searching committees for jurisdiction: '' @ str_opt jurisdiction) w
      in case validate_api_key cfg of
           Inl e \<Rightarrow> (Inl (ExnOf ValueError e), log_error ctx (str_exn e) w1)
         | Inr api_key \<Rightarrow>
             (case search_committees_params jurisdiction classification parent chamber
                     include page per_page of
                Inl e \<Rightarrow> (Inl e, w1)
              | Inr ps \<Rightarrow>
                  get_and_count upstream ctx ''https://v3.openstates.org/committees'' ps
                    [(''x-api-key'', api_key)] ''committees'' w1))"

definition get_committee_details ::
  "config \<Rightarrow> (request \<Rightarrow> http_outcome) \<Rightarrow> string \<Rightarrow> string list option \<Rightarrow>
   mcp_context option \<Rightarrow> world \<Rightarrow> json result" where
  "get_committee_details cfg upstream committee_id include ctx w =
     (let w1 = log_info ctx (''Getting committee details for: '' @ committee_id) w
      in case validate_api_key cfg of
           Inl e \<Rightarrow> (Inl e, log_error ctx (str_exn e) w1)
         | Inr api_key \<Rightarrow>
             get_and_return upstream ctx
               (''https://v3.openstates.org/committees/'' @ committee_id)
               (include_params include) [(''x-api-key'', api_key)]
               (''Successfully retrieved committee '' @ committee_id) w1)"

section \<open>Events (\<^verbatim>\<open>app/tools/events.py\<close>)\<close>

text \<open>
  \<^verbatim>\<open>search_events\<close> keeps every field that \<^verbatim>\<open>is not None\<close> (lines 147 to 149); its two
  flags \<^verbatim>\<open>deleted\<close> and \<^verbatim>\<open>require_bills\<close> are of type \<^verbatim>\<open>bool\<close>, never \<^verbatim>\<open>None\<close>.
\<close>

definition search_events_params ::
  "string option \<Rightarrow> bool \<Rightarrow> string option \<Rightarrow> string option \<Rightarrow> bool \<Rightarrow>
   string list option \<Rightarrow> int \<Rightarrow> int \<Rightarrow> pyexn + pdict" where
  "search_events_params jurisdiction deleted before after require_bills include page per_page =
     (let params0 = [(''page'', PInt page), (''per_page'', PInt (min per_page 100))];
          param_fields =
            [(''jurisdiction'', opt_str jurisdiction),
             (''deleted'', Some (PBool deleted)),
             (''before'', opt_str before),
             (''after'', opt_str after),
             (''require_bills'', Some (PBool require_bills))]
      in case add_list_param ''include'' include params0 of
           Inl e \<Rightarrow> Inl e
         | Inr params1 \<Rightarrow> Inr (dict_update params1 (items_if_not_none param_fields)))"

definition search_events ::
  "config \<Rightarrow> (request \<Rightarrow> http_outcome) \<Rightarrow>
   string option \<Rightarrow> bool \<Rightarrow> string option \<Rightarrow> string option \<Rightarrow> bool \<Rightarrow>
   string list option \<Rightarrow> int \<Rightarrow> int \<Rightarrow> mcp_context option \<Rightarrow> world \<Rightarrow> json result" where
  "search_events cfg upstream jurisdiction deleted before after require_bills include
       page per_page ctx w =
     (let w1 = log_info ctx
                 (''Searching events for jurisdiction: '' @ str_opt jurisdiction) w
      in case validate_api_key cfg of
           Inl e \<Rightarrow> (Inl e, log_error ctx (str_exn e) w1)
         | Inr api_key \<Rightarrow>
             (case search_events_params jurisdiction deleted before after require_bills
                     include page per_page of
                Inl e \<Rightarrow> (Inl e, w1)
              | Inr ps \<Rightarrow>
                  get_and_count upstream ctx ''https://v3.openstates.org/events'' ps
                    [(''x-api-key'', api_key)] ''events'' w1))"

definition get_event_details ::
  "config \<Rightarrow> (request \<Rightarrow> http_outcome) \<Rightarrow> string \<Rightarrow> string list option \<Rightarrow>
   mcp_context option \<Rightarrow> world \<Rightarrow> json result" where
  "get_event_details cfg upstream event_id include ctx w =
     (let w1 = log_info ctx (''Getting event details for: '' @ event_id) w
      in case validate_api_key cfg of
           Inl e \<Rightarrow> (Inl e, log_error ctx (str_exn e) w1)
         | Inr api_key \<Rightarrow>
             get_and_return upstream ctx
               (''https://v3.openstates.org/events/'' @ event_id)
               (include_params include) [(''x-api-key'', api_key)]
               (''Successfully retrieved event '' @ event_id) w1)"

section \<open>Jurisdictions (\<^verbatim>\<open>app/tools/jurisdictions.py\<close>)\<close>

definition get_jurisdictions_params ::
  "string option \<Rightarrow> string list option \<Rightarrow> int \<Rightarrow> int \<Rightarrow> pyexn + pdict" where
  "get_jurisdictions_params classification include page per_page =
     (let params0 = [(''page'', PInt page), (''per_page'', PInt (min per_page 100))];
          param_fields = [(''classification'', opt_str classification)]
      in case add_list_param ''include'' include params0 of
           Inl e \<Rightarrow> Inl e
         | Inr params1 \<Rightarrow> Inr (dict_update params1 (items_if_truthy param_fields)))"

definition get_jurisdictions ::
  "config \<Rightarrow> (request \<Rightarrow> http_outcome) \<Rightarrow> string option \<Rightarrow> string list option \<Rightarrow>
   int \<Rightarrow> int \<Rightarrow> mcp_context option \<Rightarrow> world \<Rightarrow> json result" where
  "get_jurisdictions cfg upstream classification include page per_page ctx w =
     (let w1 = log_info ctx
                 (''Getting list of jurisdictions with classification: ''
                  @ str_opt classification) w
      in case validate_api_key cfg of
           Inl e \<Rightarrow> (Inl e, log_error ctx (str_exn e) w1)
         | Inr api_key \<Rightarrow>
             (case get_jurisdictions_params classification include page per_page of
                Inl e \<Rightarrow> (Inl e, w1)
              | Inr ps \<Rightarrow>
                  get_and_count upstream ctx ''https://v3.openstates.org/jurisdictions'' ps
                    [(''x-api-key'', api_key)] ''jurisdictions'' w1))"

definition get_jurisdiction_details ::
  "config \<Rightarrow> (request \<Rightarrow> http_outcome) \<Rightarrow> string \<Rightarrow> string list option \<Rightarrow>
   mcp_context option \<Rightarrow> world \<Rightarrow> json result" where
  "get_jurisdiction_details cfg upstream jurisdiction_id include ctx w =
     (let w1 = log_info ctx (''Getting jurisdiction details for: '' @ jurisdiction_id) w
      in case validate_api_key cfg of
           Inl e \<Rightarrow> (Inl e, log_error ctx (str_exn e) w1)
         | Inr api_key \<Rightarrow>
             get_and_return upstream ctx
               (''https://v3.openstates.org/jurisdictions/'' @ jurisdiction_id)
               (include_params include) [(''x-api-key'', api_key)]
               (''Successfully retrieved jurisdiction '' @ jurisdiction_id) w1)"

section \<open>The server (\<^verbatim>\<open>app/server.py\<close>)\<close>

text \<open>
  \<^verbatim>\<open>status\<close> reads the process and the file system through \<^verbatim>\<open>psutil\<close>,
  \<^verbatim>\<open>datetime\<close>, \<^verbatim>\<open>pathlib\<close> and \<^verbatim>\<open>tomllib\<close>. The readings are the fields of
  \<open>process_env\<close>; each is taken as the library returns it. Instants are whole
  microseconds since the epoch, the resolution of \<^verbatim>\<open>datetime\<close>. A reading that raises
  (a denied \<^verbatim>\<open>psutil\<close> call, an unreadable \<^verbatim>\<open>/proc/1/cgroup\<close>) is outside the model.
\<close>

record process_env =
  process_create_time :: int
  clock_now :: int
  clock_now_iso :: string
  memory_rss :: nat
  cpu_percent_reading :: rat
  dockerenv_exists :: bool
  proc_cgroup :: "string list option"
  pyproject_toml :: "(string \<times> json) list option"
  python_version :: string

text \<open>\<^verbatim>\<open>int(x)\<close> of a float truncates towards zero.\<close>

definition py_int :: "rat \<Rightarrow> int" where
  "py_int x = (if 0 \<le> x then \<lfloor>x\<rfloor> else \<lceil>x\<rceil>)"

text \<open>\<^verbatim>\<open>divmod(a, b)\<close> on integers: floor division, as \<open>div\<close> and \<open>mod\<close> on \<^typ>\<open>int\<close>.\<close>

definition py_divmod :: "int \<Rightarrow> int \<Rightarrow> int \<times> int" where
  "py_divmod a b = (a div b, a mod b)"

text \<open>\<^verbatim>\<open>round(x, 1)\<close>: to one decimal, ties to the even neighbour.\<close>

definition round_half_even :: "rat \<Rightarrow> int" where
  "round_half_even x =
     (let f = \<lfloor>x\<rfloor>; d = x - of_int f
      in if d < 1 / 2 then f
         else if 1 / 2 < d then f + 1
         else if even f then f else f + 1)"

definition py_round1 :: "rat \<Rightarrow> rat" where
  "py_round1 x = of_int (round_half_even (x * 10)) / 10"

text \<open>\<^verbatim>\<open>needle in line\<close> on strings.\<close>

fun str_contains :: "string \<Rightarrow> string \<Rightarrow> bool" where
  "str_contains needle [] = (needle = [])"
| "str_contains needle (c # cs) = (prefix needle (c # cs) \<or> str_contains needle cs)"

definition is_docker :: "process_env \<Rightarrow> bool" where
  "is_docker env =
     (dockerenv_exists env \<or>
      (case proc_cgroup env of
         None \<Rightarrow> False
       | Some lines \<Rightarrow> list_ex (str_contains ''docker'') lines))"

text \<open>
  \<^verbatim>\<open>get_version\<close>: \<^verbatim>\<open>data.get("project", {}).get("version", "unknown")\<close>, and
  \<^verbatim>\<open>"unknown"\<close> on any exception (the file cannot be read or parsed, or
  \<^verbatim>\<open>project\<close> is not a table).
\<close>

definition get_version :: "process_env \<Rightarrow> json" where
  "get_version env =
     (case pyproject_toml env of
        None \<Rightarrow> JStr ''unknown''
      | Some data \<Rightarrow>
          (case map_of data ''project'' of
             None \<Rightarrow> JStr ''unknown''
           | Some (JDict project) \<Rightarrow>
               (case map_of project ''version'' of
                  None \<Rightarrow> JStr ''unknown''
                | Some v \<Rightarrow> v)
           | Some other \<Rightarrow> JStr ''unknown''))"

definition status :: "config \<Rightarrow> process_env \<Rightarrow> world \<Rightarrow> json result" where
  "status cfg env w =
     (let w1 = w\<lparr>logged := logged w @ [(ToLogger, INFO, ''Status check requested'')]\<rparr>;
          uptime_seconds = of_int (clock_now env - process_create_time env) / 1000000;
          (hours, remainder) = py_divmod (py_int uptime_seconds) 3600;
          (minutes, seconds) = py_divmod remainder 60;
          uptime = fmt_02d hours @ '':'' @ fmt_02d minutes @ '':'' @ fmt_02d seconds;
          docker_info = is_docker env;
          runtime_name = (if docker_info then ''docker'' else ''native'')
      in (Inr (JDict
            [(''status'', JStr ''healthy''),
             (''service'', JStr ''OpenStates MCP Server''),
             (''version'', get_version env),
             (''timestamp'', JStr (clock_now_iso env)),
             (''environment'', JDict
                [(''runtime'', JStr runtime_name),
                 (''docker'', JBool docker_info),
                 (''python_version'', JStr (python_version env))]),
             (''system'', JDict
                [(''process_uptime'', JStr uptime),
                 (''memory_mb'', JFloat (py_round1 (of_nat (memory_rss env) / 1024 / 1024))),
                 (''cpu_percent'', JFloat (py_round1 (cpu_percent_reading env)))]),
             (''server'', JDict
                [(''tools_available'',
                    JList [JStr ''bills'', JStr ''people'', JStr ''committees'',
                           JStr ''events'', JStr ''jurisdictions'']),
                 (''transport'', JStr ''streamable-http''),
                 (''api_base'', JStr ''https://v3.openstates.org''),
                 (''host'', JStr (host cfg)),
                 (''port'', JInt (mcp_port cfg)),
                 (''api_configured'',
                    JBool (case openstates_api_key cfg of None \<Rightarrow> False | Some k \<Rightarrow> k \<noteq> []))])]),
          w1))"

subsection \<open>The registered tools\<close>

text \<open>
  \<^verbatim>\<open>setup\<close> imports the five tool servers under the prefixes \<^verbatim>\<open>bills\<close>,
  \<^verbatim>\<open>people\<close>, \<^verbatim>\<open>committees\<close>, \<^verbatim>\<open>events\<close> and \<^verbatim>\<open>jurisdictions\<close>; with
  \<^verbatim>\<open>status\<close> they are the twelve tools a client can call. A call is a tool with
  its arguments, in the order of the handler's signature.
\<close>

datatype tool_call =
    Bills_search_bills
      "string option" "string option" "string option" "string list option"
      "string option" "string list option" "string option" "string option"
      "string option" string "string option" "string option" "string option"
      "string list option" int int
  | Bills_get_bill_by_id string "string list option"
  | Bills_get_bill_details string string string "string list option"
  | People_search_people
      "string option" "string option" "string list option" "string option"
      "string option" "string list option" int int
  | People_get_legislators_by_location rat rat
  | Committees_search_committees
      "string option" "string option" "string option" "string option"
      "string list option" int int
  | Committees_get_committee_details string "string list option"
  | Events_search_events
      "string option" bool "string option" "string option" bool
      "string list option" int int
  | Events_get_event_details string "string list option"
  | Jurisdictions_get_jurisdictions "string option" "string list option" int int
  | Jurisdictions_get_jurisdiction_details string "string list option"
  | Status

fun call_tool ::
  "(rat \<Rightarrow> string) \<Rightarrow> config \<Rightarrow> (request \<Rightarrow> http_outcome) \<Rightarrow> process_env \<Rightarrow>
   tool_call \<Rightarrow> mcp_context option \<Rightarrow> world \<Rightarrow> json result" where
  "call_tool fs cfg up env
     (Bills_search_bills jurisdiction session chamber identifier classification subject
        updated_since created_since action_since sort_order sponsor sponsor_classification q
        include page per_page) ctx w =
     search_bills cfg up jurisdiction session chamber identifier classification subject
       updated_since created_since action_since sort_order sponsor sponsor_classification q
       include page per_page ctx w"
| "call_tool fs cfg up env (Bills_get_bill_by_id bill_uuid include) ctx w =
     get_bill_by_id cfg up bill_uuid include ctx w"
| "call_tool fs cfg up env (Bills_get_bill_details jurisdiction session bill_id include) ctx w =
     get_bill_details cfg up jurisdiction session bill_id include ctx w"
| "call_tool fs cfg up env
     (People_search_people jurisdiction name id_filter org_classification district include
        page per_page) ctx w =
     search_people cfg up jurisdiction name id_filter org_classification district include
       page per_page ctx w"
| "call_tool fs cfg up env (People_get_legislators_by_location latitude longitude) ctx w =
     get_legislators_by_location fs cfg up latitude longitude ctx w"
| "call_tool fs cfg up env
     (Committees_search_committees jurisdiction classification parent chamber include
        page per_page) ctx w =
     search_committees cfg up jurisdiction classification parent chamber include
       page per_page ctx w"
| "call_tool fs cfg up env (Committees_get_committee_details committee_id include) ctx w =
     get_committee_details cfg up committee_id include ctx w"
| "call_tool fs cfg up env
     (Events_search_events jurisdiction deleted before after require_bills include
        page per_page) ctx w =
     search_events cfg up jurisdiction deleted before after require_bills include
       page per_page ctx w"
| "call_tool fs cfg up env (Events_get_event_details event_id include) ctx w =
     get_event_details cfg up event_id include ctx w"
| "call_tool fs cfg up env
     (Jurisdictions_get_jurisdictions classification include page per_page) ctx w =
     get_jurisdictions cfg up classification include page per_page ctx w"
| "call_tool fs cfg up env
     (Jurisdictions_get_jurisdiction_details jurisdiction_id include) ctx w =
     get_jurisdiction_details cfg up jurisdiction_id include ctx w"
| "call_tool fs cfg up env Status ctx w = status cfg env w"

text \<open>
  The list operations are the five handlers that take \<^verbatim>\<open>page\<close> and \<^verbatim>\<open>per_page\<close>
  and log the number of results: \<^verbatim>\<open>search_bills\<close>, \<^verbatim>\<open>search_people\<close>,
  \<^verbatim>\<open>search_committees\<close>, \<^verbatim>\<open>search_events\<close> and \<^verbatim>\<open>get_jurisdictions\<close>.
\<close>

fun is_list_operation :: "tool_call \<Rightarrow> bool" where
  "is_list_operation (Bills_search_bills jurisdiction session chamber identifier classification
      subject updated_since created_since action_since sort_order sponsor
      sponsor_classification q include page per_page) = True"
| "is_list_operation (People_search_people jurisdiction name id_filter org_classification
      district include page per_page) = True"
| "is_list_operation (Committees_search_committees jurisdiction classification parent chamber
      include page per_page) = True"
| "is_list_operation (Events_search_events jurisdiction deleted before after require_bills
      include page per_page) = True"
| "is_list_operation (Jurisdictions_get_jurisdictions classification include page per_page) =
     True"
| "is_list_operation c = False"

text \<open>
  A stub of the upstream for concrete runs, as a test would configure it: \<^verbatim>\<open>client.get\<close>
  has the same outcome whatever the request.
\<close>

definition upstream_always :: "http_outcome \<Rightarrow> request \<Rightarrow> http_outcome" where
  "upstream_always outcome req = outcome"

text \<open>
  Further inputs for concrete runs: a world in which nothing has happened yet, a
  configuration with a key, a stand-in for the printing of floats, and the readings of a
  process that was created at second 1000 of the epoch and is asked for its status
  3725.5 seconds later, with 50 MiB resident.
\<close>

definition empty_world :: world where
  "empty_world = \<lparr> logged = [], get_calls = [] \<rparr>"

definition keyed_config :: config where
  "keyed_config = default_config \<lparr> openstates_api_key := Some ''secret'' \<rparr>"

definition float_str_stub :: "rat \<Rightarrow> string" where
  "float_str_stub x = ''<float>''"

definition example_env :: process_env where
  "example_env =
     \<lparr> process_create_time = 1000000000,
       clock_now = 4725500000,
       clock_now_iso = ''1970-01-01T01:18:45.500000+00:00'',
       memory_rss = 52428800,
       cpu_percent_reading = 0,
       dockerenv_exists = False,
       proc_cgroup = Some [''0::/init.scope''],
       pyproject_toml = Some [(''project'', JDict [(''version'', JStr ''0.1.0'')])],
       python_version = ''3.12.3'' \<rparr>"

text \<open>
  The same readings after the clock has been set back: the process was created at second
  10 and the clock reads second 5.
\<close>

definition skewed_env :: process_env where
  "skewed_env = example_env \<lparr> process_create_time := 10000000, clock_now := 5000000,
     clock_now_iso := ''1970-01-01T00:00:05+00:00'' \<rparr>"

section \<open>Dictionaries\<close>

lemma map_of_dict_update:
  "map_of (dict_update d new) = map_of d ++ map_of (rev new)"
  unfolding dict_update_def
  by (induction new arbitrary: d) (auto simp: update_conv' fun_eq_iff map_add_def split: option.splits)

lemma map_of_rev_distinct:
  "distinct (map fst xs) \<Longrightarrow> map_of (rev xs) = map_of xs"
proof (induction xs)
  case Nil show ?case by simp
next
  case (Cons x xs)
  obtain k v where x: "x = (k, v)" by (cases x)
  have none: "map_of xs k = None" using Cons.prems x by (simp add: map_of_eq_None_iff)
  have ih: "map_of (rev xs) = map_of xs" using Cons by simp
  show ?case
    using none by (auto simp: x ih map_add_def fun_eq_iff split: option.splits)
qed

lemma keys_items_if_truthy: "k \<in> fst ` set (items_if_truthy fs) \<Longrightarrow> k \<in> fst ` set fs"
  by (induction fs rule: items_if_truthy.induct) (auto split: if_splits)

lemma distinct_items_if_truthy:
  "distinct (map fst fs) \<Longrightarrow> distinct (map fst (items_if_truthy fs))"
proof (induction fs rule: items_if_truthy.induct)
  case 1 show ?case by simp
next
  case (2 k fs) then show ?case by simp
next
  case (3 k v fs)
  have "k \<notin> fst ` set (items_if_truthy fs)"
    using "3.prems" keys_items_if_truthy[of k fs] by auto
  then show ?case using 3 by auto
qed

lemma map_of_items_if_truthy:
  "distinct (map fst fs) \<Longrightarrow>
   map_of (items_if_truthy fs) k =
     (case map_of fs k of Some (Some v) \<Rightarrow> if truthy v then Some v else None | _ \<Rightarrow> None)"
proof (induction fs rule: items_if_truthy.induct)
  case 1 show ?case by simp
next
  case (2 k' fs)
  have "map_of fs k' = None" using "2.prems" by (simp add: map_of_eq_None_iff)
  then show ?case using 2 by simp
next
  case (3 k' v fs)
  have a: "map_of fs k' = None" using "3.prems" by (simp add: map_of_eq_None_iff)
  have b: "map_of (items_if_truthy fs) k' = None"
    using "3.prems" keys_items_if_truthy[of k' fs] by (auto simp: map_of_eq_None_iff)
  have d: "distinct (map fst fs)" using "3.prems" by simp
  show ?case
  proof (cases "truthy v")
    case True then show ?thesis using a "3.IH"(1)[OF True d] by simp
  next
    case False then show ?thesis using a b "3.IH"(2)[OF False d] by simp
  qed
qed

lemma keys_items_if_not_none: "k \<in> fst ` set (items_if_not_none fs) \<Longrightarrow> k \<in> fst ` set fs"
  by (induction fs rule: items_if_not_none.induct) (auto split: if_splits)

lemma distinct_items_if_not_none:
  "distinct (map fst fs) \<Longrightarrow> distinct (map fst (items_if_not_none fs))"
proof (induction fs rule: items_if_not_none.induct)
  case 1 show ?case by simp
next
  case (2 k fs) then show ?case by simp
next
  case (3 k v fs)
  have "k \<notin> fst ` set (items_if_not_none fs)"
    using "3.prems" keys_items_if_not_none[of k fs] by auto
  then show ?case using 3 by auto
qed

lemma map_of_items_if_not_none:
  "distinct (map fst fs) \<Longrightarrow>
   map_of (items_if_not_none fs) k = (case map_of fs k of Some (Some v) \<Rightarrow> Some v | _ \<Rightarrow> None)"
proof (induction fs rule: items_if_not_none.induct)
  case 1 show ?case by simp
next
  case (2 k' fs)
  have "map_of fs k' = None" using "2.prems" by (simp add: map_of_eq_None_iff)
  then show ?case using 2 by simp
next
  case (3 k' v fs)
  have "map_of fs k' = None" using "3.prems" by (simp add: map_of_eq_None_iff)
  then show ?case using 3 by simp
qed

lemma setdefault_append_new:
  "map_of d k = None \<Longrightarrow> setdefault_append k item d = Inr (d @ [(k, PList [item])])"
  by (simp add: setdefault_append_def)

lemma update_snoc:
  "map_of d k = None \<Longrightarrow> AList.update k v (d @ [(k, v0)]) = d @ [(k, v)]"
  by (induction d) (auto split: if_splits)

lemma append_items_grow:
  "map_of d k = None \<Longrightarrow>
   append_items k items (d @ [(k, PList l)]) = Inr (d @ [(k, PList (l @ items))])"
proof (induction items arbitrary: l)
  case Nil show ?case by simp
next
  case (Cons item items)
  have "setdefault_append k item (d @ [(k, PList l)]) = Inr (d @ [(k, PList (l @ [item]))])"
    using Cons.prems by (simp add: setdefault_append_def update_snoc map_add_def)
  then show ?case using Cons.IH[OF Cons.prems, of "l @ [item]"] by simp
qed

lemma append_items_new:
  assumes "map_of d k = None" and "l \<noteq> []"
  shows "append_items k l d = Inr (d @ [(k, PList l)])"
proof -
  obtain x xs where l: "l = x # xs" using assms(2) by (cases l) auto
  show ?thesis
    using append_items_grow[OF assms(1), of xs "[x]"]
    by (simp add: l setdefault_append_new[OF assms(1)])
qed

lemma add_list_param_new:
  "map_of d k = None \<Longrightarrow>
   add_list_param k xs d =
     Inr (d @ (case xs of None \<Rightarrow> [] | Some l \<Rightarrow> if l = [] then [] else [(k, PList l)]))"
  by (auto simp: add_list_param_def append_items_new split: option.splits)

lemma map_of_update_truthy:
  assumes "distinct (map fst fs)"
  shows "map_of (dict_update d (items_if_truthy fs)) k =
     (case map_of fs k of
        Some (Some v) \<Rightarrow> if truthy v then Some v else map_of d k
      | _ \<Rightarrow> map_of d k)"
  using assms
  by (simp add: map_of_dict_update map_of_rev_distinct distinct_items_if_truthy
        map_add_def map_of_items_if_truthy split: option.splits)

lemma map_of_update_not_none:
  assumes "distinct (map fst fs)"
  shows "map_of (dict_update d (items_if_not_none fs)) k =
     (case map_of fs k of Some (Some v) \<Rightarrow> Some v | _ \<Rightarrow> map_of d k)"
  using assms
  by (simp add: map_of_dict_update map_of_rev_distinct distinct_items_if_not_none
        map_add_def map_of_items_if_not_none split: option.splits)

lemma add_list_param_include:
  "map_of d ''include'' = None \<Longrightarrow>
   add_list_param ''include'' xs d = Inr (d @ include_params xs)"
  by (simp add: add_list_param_new include_params_def)

lemma map_of_include_params:
  "map_of (include_params xs) k =
     (if k = ''include'' then (case xs of None \<Rightarrow> None | Some l \<Rightarrow> if l = [] then None else Some (PList l)) else None)"
  by (simp add: include_params_def split: option.splits)

section \<open>The query parameters of the five search handlers\<close>

lemma search_bills_params_eq:
  "search_bills_params jurisdiction session chamber identifier classification subject
       updated_since created_since action_since sort_order sponsor sponsor_classification q
       include page per_page =
   Inr (dict_update
          ([(''page'', PInt page), (''per_page'', PInt (min per_page 100))]
           @ (case identifier of None \<Rightarrow> [] | Some l \<Rightarrow> if l = [] then [] else [(''identifier'', PList l)])
           @ (case subject of None \<Rightarrow> [] | Some l \<Rightarrow> if l = [] then [] else [(''subject'', PList l)])
           @ include_params include)
          (items_if_truthy
            [(''jurisdiction'', opt_str jurisdiction),
             (''session'', opt_str session),
             (''chamber'', opt_str chamber),
             (''classification'', opt_str classification),
             (''updated_since'', opt_str updated_since),
             (''created_since'', opt_str created_since),
             (''action_since'', opt_str action_since),
             (''sort'', Some (PStr sort_order)),
             (''sponsor'', opt_str sponsor),
             (''sponsor_classification'', opt_str sponsor_classification),
             (''q'', opt_str q)]))"
proof -
  let ?p0 = "[(''page'', PInt page), (''per_page'', PInt (min per_page 100))]"
  let ?e1 = "(case identifier of None \<Rightarrow> [] | Some l \<Rightarrow> if l = [] then [] else [(''identifier'', PList l)])"
  let ?e2 = "(case subject of None \<Rightarrow> [] | Some l \<Rightarrow> if l = [] then [] else [(''subject'', PList l)])"
  have 1: "add_list_param ''identifier'' identifier ?p0 = Inr (?p0 @ ?e1)"
    by (rule add_list_param_new) simp
  have 2: "add_list_param ''subject'' subject (?p0 @ ?e1) = Inr ((?p0 @ ?e1) @ ?e2)"
    by (rule add_list_param_new) (simp split: option.splits)
  have 3: "add_list_param ''include'' include ((?p0 @ ?e1) @ ?e2) = Inr (((?p0 @ ?e1) @ ?e2) @ include_params include)"
    by (rule add_list_param_include) (simp split: option.splits)
  show ?thesis
    unfolding search_bills_params_def Let_def 1 sum.case 2 3 by simp
qed

lemma search_people_params_eq:
  "search_people_params jurisdiction name id_filter org_classification district include
       page per_page =
   Inr (dict_update
          ([(''page'', PInt page), (''per_page'', PInt (min per_page 100))]
           @ (case id_filter of None \<Rightarrow> [] | Some l \<Rightarrow> if l = [] then [] else [(''id'', PList l)])
           @ include_params include)
          (items_if_truthy
            [(''jurisdiction'', opt_str jurisdiction),
             (''name'', opt_str name),
             (''org_classification'', opt_str org_classification),
             (''district'', opt_str district)]))"
proof -
  let ?p0 = "[(''page'', PInt page), (''per_page'', PInt (min per_page 100))]"
  let ?e1 = "(case id_filter of None \<Rightarrow> [] | Some l \<Rightarrow> if l = [] then [] else [(''id'', PList l)])"
  have 1: "add_list_param ''id'' id_filter ?p0 = Inr (?p0 @ ?e1)"
    by (rule add_list_param_new) simp
  have 2: "add_list_param ''include'' include (?p0 @ ?e1) = Inr ((?p0 @ ?e1) @ include_params include)"
    by (rule add_list_param_include) (simp split: option.splits)
  show ?thesis
    unfolding search_people_params_def Let_def 1 sum.case 2 by simp
qed

lemma search_committees_params_eq:
  "search_committees_params jurisdiction classification parent chamber include page per_page =
   Inr (dict_update
          ([(''page'', PInt page), (''per_page'', PInt (min per_page 100))]
           @ include_params include)
          (items_if_truthy
            [(''jurisdiction'', opt_str jurisdiction),
             (''classification'', opt_str classification),
             (''parent'', opt_str parent),
             (''chamber'', opt_str chamber)]))"
proof -
  let ?p0 = "[(''page'', PInt page), (''per_page'', PInt (min per_page 100))]"
  have 1: "add_list_param ''include'' include ?p0 = Inr (?p0 @ include_params include)"
    by (rule add_list_param_include) simp
  show ?thesis
    unfolding search_committees_params_def Let_def 1 sum.case by simp
qed

lemma search_events_params_eq:
  "search_events_params jurisdiction deleted before after require_bills include page per_page =
   Inr (dict_update
          ([(''page'', PInt page), (''per_page'', PInt (min per_page 100))]
           @ include_params include)
          (items_if_not_none
            [(''jurisdiction'', opt_str jurisdiction),
             (''deleted'', Some (PBool deleted)),
             (''before'', opt_str before),
             (''after'', opt_str after),
             (''require_bills'', Some (PBool require_bills))]))"
proof -
  let ?p0 = "[(''page'', PInt page), (''per_page'', PInt (min per_page 100))]"
  have 1: "add_list_param ''include'' include ?p0 = Inr (?p0 @ include_params include)"
    by (rule add_list_param_include) simp
  show ?thesis
    unfolding search_events_params_def Let_def 1 sum.case by simp
qed

lemma get_jurisdictions_params_eq:
  "get_jurisdictions_params classification include page per_page =
   Inr (dict_update
          ([(''page'', PInt page), (''per_page'', PInt (min per_page 100))]
           @ include_params include)
          (items_if_truthy [(''classification'', opt_str classification)]))"
proof -
  let ?p0 = "[(''page'', PInt page), (''per_page'', PInt (min per_page 100))]"
  have 1: "add_list_param ''include'' include ?p0 = Inr (?p0 @ include_params include)"
    by (rule add_list_param_include) simp
  show ?thesis
    unfolding get_jurisdictions_params_def Let_def 1 sum.case by simp
qed

section \<open>Pagination\<close>

lemma search_bills_per_page:
  "\<exists>ps. search_bills_params jurisdiction session chamber identifier classification subject
          updated_since created_since action_since sort_order sponsor sponsor_classification q
          include page per_page = Inr ps
        \<and> map_of ps ''per_page'' = Some (PInt (min per_page 100))"
  by (simp add: search_bills_params_eq map_of_update_truthy map_of_include_params
        split: option.splits)

lemma search_people_per_page:
  "\<exists>ps. search_people_params jurisdiction name id_filter org_classification district include
          page per_page = Inr ps
        \<and> map_of ps ''per_page'' = Some (PInt (min per_page 100))"
  by (simp add: search_people_params_eq map_of_update_truthy map_of_include_params
        split: option.splits)

lemma search_committees_per_page:
  "\<exists>ps. search_committees_params jurisdiction classification parent chamber include
          page per_page = Inr ps
        \<and> map_of ps ''per_page'' = Some (PInt (min per_page 100))"
  by (simp add: search_committees_params_eq map_of_update_truthy map_of_include_params
        split: option.splits)

lemma search_events_per_page:
  "\<exists>ps. search_events_params jurisdiction deleted before after require_bills include
          page per_page = Inr ps
        \<and> map_of ps ''per_page'' = Some (PInt (min per_page 100))"
  by (simp add: search_events_params_eq map_of_update_not_none map_of_include_params
        split: option.splits)

lemma get_jurisdictions_per_page:
  "\<exists>ps. get_jurisdictions_params classification include page per_page = Inr ps
        \<and> map_of ps ''per_page'' = Some (PInt (min per_page 100))"
  by (simp add: get_jurisdictions_params_eq map_of_update_truthy map_of_include_params
        split: option.splits)

section \<open>List-valued filters\<close>

text \<open>A non-empty list filter is bound, under its key, to the caller's list.\<close>

lemma list_filters_in_params:
  "xs \<noteq> [] \<longrightarrow>
     (\<exists>ps. search_bills_params jurisdiction session chamber (Some xs) classification subject
          updated_since created_since action_since sort_order sponsor sponsor_classification q
          inc page per_page = Inr ps
        \<and> map_of ps ''identifier'' = Some (PList xs))
   \<and> (\<exists>ps. search_bills_params jurisdiction session chamber identifier classification (Some xs)
          updated_since created_since action_since sort_order sponsor sponsor_classification q
          inc page per_page = Inr ps
        \<and> map_of ps ''subject'' = Some (PList xs))
   \<and> (\<exists>ps. search_bills_params jurisdiction session chamber identifier classification subject
          updated_since created_since action_since sort_order sponsor sponsor_classification q
          (Some xs) page per_page = Inr ps
        \<and> map_of ps ''include'' = Some (PList xs))
   \<and> (\<exists>ps. search_people_params jurisdiction name (Some xs) org_classification district
          inc page per_page = Inr ps
        \<and> map_of ps ''id'' = Some (PList xs))
   \<and> (\<exists>ps. search_people_params jurisdiction name id_filter org_classification district
          (Some xs) page per_page = Inr ps
        \<and> map_of ps ''include'' = Some (PList xs))
   \<and> (\<exists>ps. search_committees_params jurisdiction classification parent chamber (Some xs)
          page per_page = Inr ps
        \<and> map_of ps ''include'' = Some (PList xs))
   \<and> (\<exists>ps. search_events_params jurisdiction deleted before after require_bills (Some xs)
          page per_page = Inr ps
        \<and> map_of ps ''include'' = Some (PList xs))
   \<and> (\<exists>ps. get_jurisdictions_params classification (Some xs) page per_page = Inr ps
        \<and> map_of ps ''include'' = Some (PList xs))"
  by (simp add: search_bills_params_eq search_people_params_eq search_committees_params_eq
        search_events_params_eq get_jurisdictions_params_eq map_of_update_truthy
        map_of_update_not_none map_of_include_params split: option.splits)

section \<open>Omitted and empty filters\<close>

lemma items_if_truthy_alike:
  assumes "list_all2 (\<lambda>a b. fst a = fst b \<and>
              Option.bind (snd a) (\<lambda>x. if truthy x then Some x else None)
              = Option.bind (snd b) (\<lambda>x. if truthy x then Some x else None)) fs fs'"
  shows "items_if_truthy fs = items_if_truthy fs'"
  using assms
proof (induction fs fs' rule: list_all2_induct)
  case Nil show ?case by simp
next
  case (Cons a fs b fs')
  obtain k v where a: "a = (k, v)" by (cases a)
  obtain k' v' where b: "b = (k', v')" by (cases b)
  show ?case using Cons a b
    by (cases v; cases v') (auto split: if_splits)
qed

lemma search_bills_empty_as_omitted:
  "search_bills_params jurisdiction session chamber identifier classification subject
     updated_since created_since action_since sort_order sponsor sponsor_classification q
     inc page per_page
   = search_bills_params
       (if jurisdiction = Some [] then None else jurisdiction)
       (if session = Some [] then None else session)
       (if chamber = Some [] then None else chamber)
       identifier
       (if classification = Some [] then None else classification)
       subject
       (if updated_since = Some [] then None else updated_since)
       (if created_since = Some [] then None else created_since)
       (if action_since = Some [] then None else action_since)
       sort_order
       (if sponsor = Some [] then None else sponsor)
       (if sponsor_classification = Some [] then None else sponsor_classification)
       (if q = Some [] then None else q)
       inc page per_page"
  unfolding search_bills_params_eq
  apply (rule arg_cong[where f=Inr])
  apply (rule arg_cong[where f="dict_update _"])
  apply (rule items_if_truthy_alike)
  apply (simp add: opt_str_def)
  done

lemma search_people_empty_as_omitted:
  "search_people_params jurisdiction name id_filter org_classification district inc
     page per_page
   = search_people_params
       (if jurisdiction = Some [] then None else jurisdiction)
       (if name = Some [] then None else name)
       id_filter
       (if org_classification = Some [] then None else org_classification)
       (if district = Some [] then None else district)
       inc page per_page"
  unfolding search_people_params_eq
  apply (rule arg_cong[where f=Inr])
  apply (rule arg_cong[where f="dict_update _"])
  apply (rule items_if_truthy_alike)
  apply (simp add: opt_str_def)
  done

lemma search_committees_empty_as_omitted:
  "search_committees_params jurisdiction classification parent chamber inc page per_page
   = search_committees_params
       (if jurisdiction = Some [] then None else jurisdiction)
       (if classification = Some [] then None else classification)
       (if parent = Some [] then None else parent)
       (if chamber = Some [] then None else chamber)
       inc page per_page"
  unfolding search_committees_params_eq
  apply (rule arg_cong[where f=Inr])
  apply (rule arg_cong[where f="dict_update _"])
  apply (rule items_if_truthy_alike)
  apply (simp add: opt_str_def)
  done

lemma get_jurisdictions_empty_as_omitted:
  "get_jurisdictions_params classification inc page per_page
   = get_jurisdictions_params (if classification = Some [] then None else classification) inc page per_page"
  unfolding get_jurisdictions_params_eq
  apply (rule arg_cong[where f=Inr])
  apply (rule arg_cong[where f="dict_update _"])
  apply (rule items_if_truthy_alike)
  apply (simp add: opt_str_def)
  done

lemma search_events_scalars:
  "\<exists>ps. search_events_params jurisdiction deleted before after require_bills inc
          page per_page = Inr ps
      \<and> map_of ps ''page'' = Some (PInt page)
      \<and> map_of ps ''per_page'' = Some (PInt (min per_page 100))
      \<and> map_of ps ''jurisdiction'' = map_option PStr jurisdiction
      \<and> map_of ps ''before'' = map_option PStr before
      \<and> map_of ps ''after'' = map_option PStr after
      \<and> map_of ps ''deleted'' = Some (PBool deleted)
      \<and> map_of ps ''require_bills'' = Some (PBool require_bills)
      \<and> map_of ps ''include'' = map_of (include_params inc) ''include''"
  by (simp add: search_events_params_eq map_of_update_not_none map_of_include_params
        opt_str_def split: option.splits)

lemma search_events_keeps_empty:
  "\<exists>ps. search_events_params jurisdiction deleted before after require_bills inc
          page per_page = Inr ps
      \<and> (jurisdiction = Some [] \<longrightarrow> map_of ps ''jurisdiction'' = Some (PStr []))
      \<and> (before = Some [] \<longrightarrow> map_of ps ''before'' = Some (PStr []))
      \<and> (after = Some [] \<longrightarrow> map_of ps ''after'' = Some (PStr []))"
  using search_events_scalars [of jurisdiction deleted before after require_bills inc
      page per_page]
  by auto

lemma search_bills_keys:
  "\<exists>ps. search_bills_params jurisdiction session chamber identifier classification subject
          updated_since created_since action_since sort_order sponsor sponsor_classification q
          inc page per_page = Inr ps
      \<and> map_of ps ''page'' = Some (PInt page)
      \<and> map_of ps ''per_page'' = Some (PInt (min per_page 100))
      \<and> map_of ps ''jurisdiction'' = Option.bind jurisdiction (\<lambda>s. if s = [] then None else Some (PStr s))
      \<and> map_of ps ''session'' = Option.bind session (\<lambda>s. if s = [] then None else Some (PStr s))
      \<and> map_of ps ''chamber'' = Option.bind chamber (\<lambda>s. if s = [] then None else Some (PStr s))
      \<and> map_of ps ''classification'' = Option.bind classification (\<lambda>s. if s = [] then None else Some (PStr s))
      \<and> map_of ps ''updated_since'' = Option.bind updated_since (\<lambda>s. if s = [] then None else Some (PStr s))
      \<and> map_of ps ''created_since'' = Option.bind created_since (\<lambda>s. if s = [] then None else Some (PStr s))
      \<and> map_of ps ''action_since'' = Option.bind action_since (\<lambda>s. if s = [] then None else Some (PStr s))
      \<and> map_of ps ''sponsor'' = Option.bind sponsor (\<lambda>s. if s = [] then None else Some (PStr s))
      \<and> map_of ps ''sponsor_classification'' = Option.bind sponsor_classification (\<lambda>s. if s = [] then None else Some (PStr s))
      \<and> map_of ps ''q'' = Option.bind q (\<lambda>s. if s = [] then None else Some (PStr s))
      \<and> map_of ps ''identifier'' = Option.bind identifier (\<lambda>l. if l = [] then None else Some (PList l))
      \<and> map_of ps ''subject'' = Option.bind subject (\<lambda>l. if l = [] then None else Some (PList l))
      \<and> map_of ps ''include'' = Option.bind inc (\<lambda>l. if l = [] then None else Some (PList l))
      \<and> map_of ps ''sort'' = (if sort_order = [] then None else Some (PStr sort_order))"
proof -
  define ps where "ps = dict_update
      ([(''page'', PInt page), (''per_page'', PInt (min per_page 100))]
       @ (case identifier of None \<Rightarrow> [] | Some l \<Rightarrow> if l = [] then [] else [(''identifier'', PList l)])
       @ (case subject of None \<Rightarrow> [] | Some l \<Rightarrow> if l = [] then [] else [(''subject'', PList l)])
       @ include_params inc)
      (items_if_truthy
        [(''jurisdiction'', opt_str jurisdiction),
         (''session'', opt_str session),
         (''chamber'', opt_str chamber),
         (''classification'', opt_str classification),
         (''updated_since'', opt_str updated_since),
         (''created_since'', opt_str created_since),
         (''action_since'', opt_str action_since),
         (''sort'', Some (PStr sort_order)),
         (''sponsor'', opt_str sponsor),
         (''sponsor_classification'', opt_str sponsor_classification),
         (''q'', opt_str q)])"
  have ps: "search_bills_params jurisdiction session chamber identifier classification subject
          updated_since created_since action_since sort_order sponsor sponsor_classification q
          inc page per_page = Inr ps"
    by (simp add: search_bills_params_eq ps_def)
  have m: "map_of ps k =
      (case map_of [(''jurisdiction'', opt_str jurisdiction),
         (''session'', opt_str session),
         (''chamber'', opt_str chamber),
         (''classification'', opt_str classification),
         (''updated_since'', opt_str updated_since),
         (''created_since'', opt_str created_since),
         (''action_since'', opt_str action_since),
         (''sort'', Some (PStr sort_order)),
         (''sponsor'', opt_str sponsor),
         (''sponsor_classification'', opt_str sponsor_classification),
         (''q'', opt_str q)] k of
         Some (Some v) \<Rightarrow> if truthy v then Some v else map_of ([(''page'', PInt page), (''per_page'', PInt (min per_page 100))]
       @ (case identifier of None \<Rightarrow> [] | Some l \<Rightarrow> if l = [] then [] else [(''identifier'', PList l)])
       @ (case subject of None \<Rightarrow> [] | Some l \<Rightarrow> if l = [] then [] else [(''subject'', PList l)])
       @ include_params inc) k
       | _ \<Rightarrow> map_of ([(''page'', PInt page), (''per_page'', PInt (min per_page 100))]
       @ (case identifier of None \<Rightarrow> [] | Some l \<Rightarrow> if l = [] then [] else [(''identifier'', PList l)])
       @ (case subject of None \<Rightarrow> [] | Some l \<Rightarrow> if l = [] then [] else [(''subject'', PList l)])
       @ include_params inc) k)" for k
    unfolding ps_def by (rule map_of_update_truthy) simp
  have c0: "map_of ps ''page'' = Some (PInt page)"
    by (simp add: m map_of_include_params opt_str_def split: option.splits)
  have c1: "map_of ps ''per_page'' = Some (PInt (min per_page 100))"
    by (simp add: m map_of_include_params opt_str_def split: option.splits)
  have c2: "map_of ps ''jurisdiction'' = Option.bind jurisdiction (\<lambda>s. if s = [] then None else Some (PStr s))"
    by (simp add: m map_of_include_params opt_str_def split: option.splits)
  have c3: "map_of ps ''session'' = Option.bind session (\<lambda>s. if s = [] then None else Some (PStr s))"
    by (simp add: m map_of_include_params opt_str_def split: option.splits)
  have c4: "map_of ps ''chamber'' = Option.bind chamber (\<lambda>s. if s = [] then None else Some (PStr s))"
    by (simp add: m map_of_include_params opt_str_def split: option.splits)
  have c5: "map_of ps ''classification'' = Option.bind classification (\<lambda>s. if s = [] then None else Some (PStr s))"
    by (simp add: m map_of_include_params opt_str_def split: option.splits)
  have c6: "map_of ps ''updated_since'' = Option.bind updated_since (\<lambda>s. if s = [] then None else Some (PStr s))"
    by (simp add: m map_of_include_params opt_str_def split: option.splits)
  have c7: "map_of ps ''created_since'' = Option.bind created_since (\<lambda>s. if s = [] then None else Some (PStr s))"
    by (simp add: m map_of_include_params opt_str_def split: option.splits)
  have c8: "map_of ps ''action_since'' = Option.bind action_since (\<lambda>s. if s = [] then None else Some (PStr s))"
    by (simp add: m map_of_include_params opt_str_def split: option.splits)
  have c9: "map_of ps ''sponsor'' = Option.bind sponsor (\<lambda>s. if s = [] then None else Some (PStr s))"
    by (simp add: m map_of_include_params opt_str_def split: option.splits)
  have c10: "map_of ps ''sponsor_classification'' = Option.bind sponsor_classification (\<lambda>s. if s = [] then None else Some (PStr s))"
    by (simp add: m map_of_include_params opt_str_def split: option.splits)
  have c11: "map_of ps ''q'' = Option.bind q (\<lambda>s. if s = [] then None else Some (PStr s))"
    by (simp add: m map_of_include_params opt_str_def split: option.splits)
  have c12: "map_of ps ''identifier'' = Option.bind identifier (\<lambda>l. if l = [] then None else Some (PList l))"
    by (simp add: m map_of_include_params opt_str_def split: option.splits)
  have c13: "map_of ps ''subject'' = Option.bind subject (\<lambda>l. if l = [] then None else Some (PList l))"
    by (simp add: m map_of_include_params opt_str_def split: option.splits)
  have c14: "map_of ps ''include'' = Option.bind inc (\<lambda>l. if l = [] then None else Some (PList l))"
    by (simp add: m map_of_include_params opt_str_def split: option.splits)
  have c15: "map_of ps ''sort'' = (if sort_order = [] then None else Some (PStr sort_order))"
    by (simp add: m map_of_include_params opt_str_def split: option.splits)
  show ?thesis
    using ps c0 c1 c2 c3 c4 c5 c6 c7 c8 c9 c10 c11 c12 c13 c14 c15 by blast
qed

lemma search_people_keys:
  "\<exists>ps. search_people_params jurisdiction name id_filter org_classification district inc
          page per_page = Inr ps
      \<and> map_of ps ''page'' = Some (PInt page)
      \<and> map_of ps ''per_page'' = Some (PInt (min per_page 100))
      \<and> map_of ps ''jurisdiction'' = Option.bind jurisdiction (\<lambda>s. if s = [] then None else Some (PStr s))
      \<and> map_of ps ''name'' = Option.bind name (\<lambda>s. if s = [] then None else Some (PStr s))
      \<and> map_of ps ''org_classification'' = Option.bind org_classification (\<lambda>s. if s = [] then None else Some (PStr s))
      \<and> map_of ps ''district'' = Option.bind district (\<lambda>s. if s = [] then None else Some (PStr s))
      \<and> map_of ps ''id'' = Option.bind id_filter (\<lambda>l. if l = [] then None else Some (PList l))
      \<and> map_of ps ''include'' = Option.bind inc (\<lambda>l. if l = [] then None else Some (PList l))"
proof -
  define ps where "ps = dict_update
      ([(''page'', PInt page), (''per_page'', PInt (min per_page 100))]
       @ (case id_filter of None \<Rightarrow> [] | Some l \<Rightarrow> if l = [] then [] else [(''id'', PList l)])
       @ include_params inc)
      (items_if_truthy
        [(''jurisdiction'', opt_str jurisdiction),
         (''name'', opt_str name),
         (''org_classification'', opt_str org_classification),
         (''district'', opt_str district)])"
  have ps: "search_people_params jurisdiction name id_filter org_classification district inc
          page per_page = Inr ps"
    by (simp add: search_people_params_eq ps_def)
  have m: "map_of ps k =
      (case map_of [(''jurisdiction'', opt_str jurisdiction),
         (''name'', opt_str name),
         (''org_classification'', opt_str org_classification),
         (''district'', opt_str district)] k of
         Some (Some v) \<Rightarrow> if truthy v then Some v else map_of ([(''page'', PInt page), (''per_page'', PInt (min per_page 100))]
       @ (case id_filter of None \<Rightarrow> [] | Some l \<Rightarrow> if l = [] then [] else [(''id'', PList l)])
       @ include_params inc) k
       | _ \<Rightarrow> map_of ([(''page'', PInt page), (''per_page'', PInt (min per_page 100))]
       @ (case id_filter of None \<Rightarrow> [] | Some l \<Rightarrow> if l = [] then [] else [(''id'', PList l)])
       @ include_params inc) k)" for k
    unfolding ps_def by (rule map_of_update_truthy) simp
  have c0: "map_of ps ''page'' = Some (PInt page)"
    by (simp add: m map_of_include_params opt_str_def split: option.splits)
  have c1: "map_of ps ''per_page'' = Some (PInt (min per_page 100))"
    by (simp add: m map_of_include_params opt_str_def split: option.splits)
  have c2: "map_of ps ''jurisdiction'' = Option.bind jurisdiction (\<lambda>s. if s = [] then None else Some (PStr s))"
    by (simp add: m map_of_include_params opt_str_def split: option.splits)
  have c3: "map_of ps ''name'' = Option.bind name (\<lambda>s. if s = [] then None else Some (PStr s))"
    by (simp add: m map_of_include_params opt_str_def split: option.splits)
  have c4: "map_of ps ''org_classification'' = Option.bind org_classification (\<lambda>s. if s = [] then None else Some (PStr s))"
    by (simp add: m map_of_include_params opt_str_def split: option.splits)
  have c5: "map_of ps ''district'' = Option.bind district (\<lambda>s. if s = [] then None else Some (PStr s))"
    by (simp add: m map_of_include_params opt_str_def split: option.splits)
  have c6: "map_of ps ''id'' = Option.bind id_filter (\<lambda>l. if l = [] then None else Some (PList l))"
    by (simp add: m map_of_include_params opt_str_def split: option.splits)
  have c7: "map_of ps ''include'' = Option.bind inc (\<lambda>l. if l = [] then None else Some (PList l))"
    by (simp add: m map_of_include_params opt_str_def split: option.splits)
  show ?thesis
    using ps c0 c1 c2 c3 c4 c5 c6 c7 by blast
qed

lemma search_committees_keys:
  "\<exists>ps. search_committees_params jurisdiction classification parent chamber inc page per_page = Inr ps
      \<and> map_of ps ''page'' = Some (PInt page)
      \<and> map_of ps ''per_page'' = Some (PInt (min per_page 100))
      \<and> map_of ps ''jurisdiction'' = Option.bind jurisdiction (\<lambda>s. if s = [] then None else Some (PStr s))
      \<and> map_of ps ''classification'' = Option.bind classification (\<lambda>s. if s = [] then None else Some (PStr s))
      \<and> map_of ps ''parent'' = Option.bind parent (\<lambda>s. if s = [] then None else Some (PStr s))
      \<and> map_of ps ''chamber'' = Option.bind chamber (\<lambda>s. if s = [] then None else Some (PStr s))
      \<and> map_of ps ''include'' = Option.bind inc (\<lambda>l. if l = [] then None else Some (PList l))"
proof -
  define ps where "ps = dict_update
      ([(''page'', PInt page), (''per_page'', PInt (min per_page 100))]
       @ include_params inc)
      (items_if_truthy
        [(''jurisdiction'', opt_str jurisdiction),
         (''classification'', opt_str classification),
         (''parent'', opt_str parent),
         (''chamber'', opt_str chamber)])"
  have ps: "search_committees_params jurisdiction classification parent chamber inc page per_page = Inr ps"
    by (simp add: search_committees_params_eq ps_def)
  have m: "map_of ps k =
      (case map_of [(''jurisdiction'', opt_str jurisdiction),
         (''classification'', opt_str classification),
         (''parent'', opt_str parent),
         (''chamber'', opt_str chamber)] k of
         Some (Some v) \<Rightarrow> if truthy v then Some v else map_of ([(''page'', PInt page), (''per_page'', PInt (min per_page 100))]
       @ include_params inc) k
       | _ \<Rightarrow> map_of ([(''page'', PInt page), (''per_page'', PInt (min per_page 100))]
       @ include_params inc) k)" for k
    unfolding ps_def by (rule map_of_update_truthy) simp
  have c0: "map_of ps ''page'' = Some (PInt page)"
    by (simp add: m map_of_include_params opt_str_def split: option.splits)
  have c1: "map_of ps ''per_page'' = Some (PInt (min per_page 100))"
    by (simp add: m map_of_include_params opt_str_def split: option.splits)
  have c2: "map_of ps ''jurisdiction'' = Option.bind jurisdiction (\<lambda>s. if s = [] then None else Some (PStr s))"
    by (simp add: m map_of_include_params opt_str_def split: option.splits)
  have c3: "map_of ps ''classification'' = Option.bind classification (\<lambda>s. if s = [] then None else Some (PStr s))"
    by (simp add: m map_of_include_params opt_str_def split: option.splits)
  have c4: "map_of ps ''parent'' = Option.bind parent (\<lambda>s. if s = [] then None else Some (PStr s))"
    by (simp add: m map_of_include_params opt_str_def split: option.splits)
  have c5: "map_of ps ''chamber'' = Option.bind chamber (\<lambda>s. if s = [] then None else Some (PStr s))"
    by (simp add: m map_of_include_params opt_str_def split: option.splits)
  have c6: "map_of ps ''include'' = Option.bind inc (\<lambda>l. if l = [] then None else Some (PList l))"
    by (simp add: m map_of_include_params opt_str_def split: option.splits)
  show ?thesis
    using ps c0 c1 c2 c3 c4 c5 c6 by blast
qed

lemma get_jurisdictions_keys:
  "\<exists>ps. get_jurisdictions_params classification inc page per_page = Inr ps
      \<and> map_of ps ''page'' = Some (PInt page)
      \<and> map_of ps ''per_page'' = Some (PInt (min per_page 100))
      \<and> map_of ps ''classification'' = Option.bind classification (\<lambda>s. if s = [] then None else Some (PStr s))
      \<and> map_of ps ''include'' = Option.bind inc (\<lambda>l. if l = [] then None else Some (PList l))"
proof -
  define ps where "ps = dict_update
      ([(''page'', PInt page), (''per_page'', PInt (min per_page 100))]
       @ include_params inc)
      (items_if_truthy
        [(''classification'', opt_str classification)])"
  have ps: "get_jurisdictions_params classification inc page per_page = Inr ps"
    by (simp add: get_jurisdictions_params_eq ps_def)
  have m: "map_of ps k =
      (case map_of [(''classification'', opt_str classification)] k of
         Some (Some v) \<Rightarrow> if truthy v then Some v else map_of ([(''page'', PInt page), (''per_page'', PInt (min per_page 100))]
       @ include_params inc) k
       | _ \<Rightarrow> map_of ([(''page'', PInt page), (''per_page'', PInt (min per_page 100))]
       @ include_params inc) k)" for k
    unfolding ps_def by (rule map_of_update_truthy) simp
  have c0: "map_of ps ''page'' = Some (PInt page)"
    by (simp add: m map_of_include_params opt_str_def split: option.splits)
  have c1: "map_of ps ''per_page'' = Some (PInt (min per_page 100))"
    by (simp add: m map_of_include_params opt_str_def split: option.splits)
  have c2: "map_of ps ''classification'' = Option.bind classification (\<lambda>s. if s = [] then None else Some (PStr s))"
    by (simp add: m map_of_include_params opt_str_def split: option.splits)
  have c3: "map_of ps ''include'' = Option.bind inc (\<lambda>l. if l = [] then None else Some (PList l))"
    by (simp add: m map_of_include_params opt_str_def split: option.splits)
  show ?thesis
    using ps c0 c1 c2 c3 by blast
qed

text \<open>The keys of the parameters when filters are omitted.\<close>

lemma omitted_filters_in_params:
  "(\<exists>ps. search_bills_params jurisdiction session chamber identifier classification subject
            updated_since created_since action_since sort_order sponsor sponsor_classification q
            inc page per_page = Inr ps
          \<and> (jurisdiction = None \<longrightarrow> map_of ps ''jurisdiction'' = None)
          \<and> (session = None \<longrightarrow> map_of ps ''session'' = None)
          \<and> (chamber = None \<longrightarrow> map_of ps ''chamber'' = None)
          \<and> (identifier = None \<longrightarrow> map_of ps ''identifier'' = None)
          \<and> (classification = None \<longrightarrow> map_of ps ''classification'' = None)
          \<and> (subject = None \<longrightarrow> map_of ps ''subject'' = None)
          \<and> (updated_since = None \<longrightarrow> map_of ps ''updated_since'' = None)
          \<and> (created_since = None \<longrightarrow> map_of ps ''created_since'' = None)
          \<and> (action_since = None \<longrightarrow> map_of ps ''action_since'' = None)
          \<and> (sponsor = None \<longrightarrow> map_of ps ''sponsor'' = None)
          \<and> (sponsor_classification = None \<longrightarrow> map_of ps ''sponsor_classification'' = None)
          \<and> (q = None \<longrightarrow> map_of ps ''q'' = None)
          \<and> (inc = None \<longrightarrow> map_of ps ''include'' = None)
          \<and> map_of ps ''page'' = Some (PInt page)
          \<and> map_of ps ''per_page'' = Some (PInt (min per_page 100))
          \<and> (sort_order = ''updated_desc'' \<longrightarrow> map_of ps ''sort'' = Some (PStr ''updated_desc'')))
   \<and> (\<exists>ps. search_people_params jurisdiction name id_filter org_classification district inc
            page per_page = Inr ps
          \<and> (jurisdiction = None \<longrightarrow> map_of ps ''jurisdiction'' = None)
          \<and> (name = None \<longrightarrow> map_of ps ''name'' = None)
          \<and> (id_filter = None \<longrightarrow> map_of ps ''id'' = None)
          \<and> (org_classification = None \<longrightarrow> map_of ps ''org_classification'' = None)
          \<and> (district = None \<longrightarrow> map_of ps ''district'' = None)
          \<and> (inc = None \<longrightarrow> map_of ps ''include'' = None)
          \<and> map_of ps ''page'' = Some (PInt page)
          \<and> map_of ps ''per_page'' = Some (PInt (min per_page 100)))
   \<and> (\<exists>ps. search_committees_params jurisdiction classification parent chamber inc page per_page = Inr ps
          \<and> (jurisdiction = None \<longrightarrow> map_of ps ''jurisdiction'' = None)
          \<and> (classification = None \<longrightarrow> map_of ps ''classification'' = None)
          \<and> (parent = None \<longrightarrow> map_of ps ''parent'' = None)
          \<and> (chamber = None \<longrightarrow> map_of ps ''chamber'' = None)
          \<and> (inc = None \<longrightarrow> map_of ps ''include'' = None)
          \<and> map_of ps ''page'' = Some (PInt page)
          \<and> map_of ps ''per_page'' = Some (PInt (min per_page 100)))
   \<and> (\<exists>ps. search_events_params jurisdiction deleted before after require_bills inc page per_page = Inr ps
          \<and> (jurisdiction = None \<longrightarrow> map_of ps ''jurisdiction'' = None)
          \<and> (before = None \<longrightarrow> map_of ps ''before'' = None)
          \<and> (after = None \<longrightarrow> map_of ps ''after'' = None)
          \<and> (inc = None \<longrightarrow> map_of ps ''include'' = None)
          \<and> map_of ps ''page'' = Some (PInt page)
          \<and> map_of ps ''per_page'' = Some (PInt (min per_page 100))
          \<and> map_of ps ''deleted'' = Some (PBool deleted)
          \<and> map_of ps ''require_bills'' = Some (PBool require_bills))
   \<and> (\<exists>ps. get_jurisdictions_params classification inc page per_page = Inr ps
          \<and> (classification = None \<longrightarrow> map_of ps ''classification'' = None)
          \<and> (inc = None \<longrightarrow> map_of ps ''include'' = None)
          \<and> map_of ps ''page'' = Some (PInt page)
          \<and> map_of ps ''per_page'' = Some (PInt (min per_page 100)))"
proof -
  have 1: "(\<exists>ps. search_bills_params jurisdiction session chamber identifier classification subject
            updated_since created_since action_since sort_order sponsor sponsor_classification q
            inc page per_page = Inr ps
          \<and> (jurisdiction = None \<longrightarrow> map_of ps ''jurisdiction'' = None)
          \<and> (session = None \<longrightarrow> map_of ps ''session'' = None)
          \<and> (chamber = None \<longrightarrow> map_of ps ''chamber'' = None)
          \<and> (identifier = None \<longrightarrow> map_of ps ''identifier'' = None)
          \<and> (classification = None \<longrightarrow> map_of ps ''classification'' = None)
          \<and> (subject = None \<longrightarrow> map_of ps ''subject'' = None)
          \<and> (updated_since = None \<longrightarrow> map_of ps ''updated_since'' = None)
          \<and> (created_since = None \<longrightarrow> map_of ps ''created_since'' = None)
          \<and> (action_since = None \<longrightarrow> map_of ps ''action_since'' = None)
          \<and> (sponsor = None \<longrightarrow> map_of ps ''sponsor'' = None)
          \<and> (sponsor_classification = None \<longrightarrow> map_of ps ''sponsor_classification'' = None)
          \<and> (q = None \<longrightarrow> map_of ps ''q'' = None)
          \<and> (inc = None \<longrightarrow> map_of ps ''include'' = None)
          \<and> map_of ps ''page'' = Some (PInt page)
          \<and> map_of ps ''per_page'' = Some (PInt (min per_page 100))
          \<and> (sort_order = ''updated_desc'' \<longrightarrow> map_of ps ''sort'' = Some (PStr ''updated_desc'')))"
    using search_bills_keys [of "jurisdiction" "session" "chamber" "identifier" "classification" "subject" "updated_since" "created_since" "action_since" "sort_order" "sponsor" "sponsor_classification" "q" "inc" "page" "per_page"]
    apply (elim exE conjE)
    subgoal for ps by (rule exI [of _ ps]) simp
    done
  have 2: "(\<exists>ps. search_people_params jurisdiction name id_filter org_classification district inc
            page per_page = Inr ps
          \<and> (jurisdiction = None \<longrightarrow> map_of ps ''jurisdiction'' = None)
          \<and> (name = None \<longrightarrow> map_of ps ''name'' = None)
          \<and> (id_filter = None \<longrightarrow> map_of ps ''id'' = None)
          \<and> (org_classification = None \<longrightarrow> map_of ps ''org_classification'' = None)
          \<and> (district = None \<longrightarrow> map_of ps ''district'' = None)
          \<and> (inc = None \<longrightarrow> map_of ps ''include'' = None)
          \<and> map_of ps ''page'' = Some (PInt page)
          \<and> map_of ps ''per_page'' = Some (PInt (min per_page 100)))"
    using search_people_keys [of "jurisdiction" "name" "id_filter" "org_classification" "district" "inc" "page" "per_page"]
    apply (elim exE conjE)
    subgoal for ps by (rule exI [of _ ps]) simp
    done
  have 3: "(\<exists>ps. search_committees_params jurisdiction classification parent chamber inc page per_page = Inr ps
          \<and> (jurisdiction = None \<longrightarrow> map_of ps ''jurisdiction'' = None)
          \<and> (classification = None \<longrightarrow> map_of ps ''classification'' = None)
          \<and> (parent = None \<longrightarrow> map_of ps ''parent'' = None)
          \<and> (chamber = None \<longrightarrow> map_of ps ''chamber'' = None)
          \<and> (inc = None \<longrightarrow> map_of ps ''include'' = None)
          \<and> map_of ps ''page'' = Some (PInt page)
          \<and> map_of ps ''per_page'' = Some (PInt (min per_page 100)))"
    using search_committees_keys [of "jurisdiction" "classification" "parent" "chamber" "inc" "page" "per_page"]
    apply (elim exE conjE)
    subgoal for ps by (rule exI [of _ ps]) simp
    done
  have 4: "(\<exists>ps. search_events_params jurisdiction deleted before after require_bills inc page per_page = Inr ps
          \<and> (jurisdiction = None \<longrightarrow> map_of ps ''jurisdiction'' = None)
          \<and> (before = None \<longrightarrow> map_of ps ''before'' = None)
          \<and> (after = None \<longrightarrow> map_of ps ''after'' = None)
          \<and> (inc = None \<longrightarrow> map_of ps ''include'' = None)
          \<and> map_of ps ''page'' = Some (PInt page)
          \<and> map_of ps ''per_page'' = Some (PInt (min per_page 100))
          \<and> map_of ps ''deleted'' = Some (PBool deleted)
          \<and> map_of ps ''require_bills'' = Some (PBool require_bills))"
    using search_events_scalars [of "jurisdiction" "deleted" "before" "after" "require_bills" "inc" "page" "per_page"]
    apply (elim exE conjE)
    subgoal for ps by (rule exI [of _ ps]) (simp add: map_of_include_params)
    done
  have 5: "(\<exists>ps. get_jurisdictions_params classification inc page per_page = Inr ps
          \<and> (classification = None \<longrightarrow> map_of ps ''classification'' = None)
          \<and> (inc = None \<longrightarrow> map_of ps ''include'' = None)
          \<and> map_of ps ''page'' = Some (PInt page)
          \<and> map_of ps ''per_page'' = Some (PInt (min per_page 100)))"
    using get_jurisdictions_keys [of "classification" "inc" "page" "per_page"]
    apply (elim exE conjE)
    subgoal for ps by (rule exI [of _ ps]) simp
    done
  show ?thesis using 1 2 3 4 5 by blast
qed


lemma default_flags_in_params:
  "search_events_params None False None None False None 1 20
     = Inr [(''page'', PInt 1), (''per_page'', PInt 20), (''deleted'', PBool False),
            (''require_bills'', PBool False)]
   \<and> search_bills_params None None None None None None None None None ''updated_desc'' None
       None None None 1 10
     = Inr [(''page'', PInt 1), (''per_page'', PInt 10), (''sort'', PStr ''updated_desc'')]"
  by (simp add: search_events_params_def search_bills_params_def add_list_param_def
        dict_update_def opt_str_def)

section \<open>Empty filters\<close>

text \<open>An empty string as a filter, in the parameters.\<close>

lemma empty_filters_in_params:
  "search_bills_params jurisdiction session chamber identifier classification subject
     updated_since created_since action_since sort_order sponsor sponsor_classification q
     inc page per_page
   = search_bills_params
       (if jurisdiction = Some [] then None else jurisdiction)
       (if session = Some [] then None else session)
       (if chamber = Some [] then None else chamber)
       identifier
       (if classification = Some [] then None else classification)
       subject
       (if updated_since = Some [] then None else updated_since)
       (if created_since = Some [] then None else created_since)
       (if action_since = Some [] then None else action_since)
       sort_order
       (if sponsor = Some [] then None else sponsor)
       (if sponsor_classification = Some [] then None else sponsor_classification)
       (if q = Some [] then None else q)
       inc page per_page
   \<and> search_people_params jurisdiction name id_filter org_classification district inc
       page per_page
     = search_people_params
         (if jurisdiction = Some [] then None else jurisdiction)
         (if name = Some [] then None else name)
         id_filter
         (if org_classification = Some [] then None else org_classification)
         (if district = Some [] then None else district)
         inc page per_page
   \<and> search_committees_params jurisdiction classification parent chamber inc page per_page
     = search_committees_params
         (if jurisdiction = Some [] then None else jurisdiction)
         (if classification = Some [] then None else classification)
         (if parent = Some [] then None else parent)
         (if chamber = Some [] then None else chamber)
         inc page per_page
   \<and> get_jurisdictions_params classification inc page per_page
     = get_jurisdictions_params (if classification = Some [] then None else classification) inc page per_page
   \<and> (\<exists>ps. search_events_params jurisdiction deleted before after require_bills inc
            page per_page = Inr ps
        \<and> (jurisdiction = Some [] \<longrightarrow> map_of ps ''jurisdiction'' = Some (PStr []))
        \<and> (before = Some [] \<longrightarrow> map_of ps ''before'' = Some (PStr []))
        \<and> (after = Some [] \<longrightarrow> map_of ps ''after'' = Some (PStr [])))"
  by (intro conjI search_bills_empty_as_omitted search_people_empty_as_omitted
        search_committees_empty_as_omitted get_jurisdictions_empty_as_omitted
        search_events_keeps_empty)

lemma search_events_empty_in_params:
  "search_events_params (Some []) False None None False None 1 20
     = Inr [(''page'', PInt 1), (''per_page'', PInt 20), (''jurisdiction'', PStr []),
            (''deleted'', PBool False), (''require_bills'', PBool False)]
   \<and> search_events_params (Some []) False None None False None 1 20
     \<noteq> search_events_params None False None None False None 1 20"
  by (simp add: search_events_params_def add_list_param_def dict_update_def opt_str_def)

section \<open>Requests and log lines of a call\<close>

lemma validate_api_key_missing:
  "openstates_api_key cfg = None \<or> openstates_api_key cfg = Some [] \<Longrightarrow>
   validate_api_key cfg =
     Inl (Exn ValueError ''OPENSTATES_API_KEY not found in environment variables'')"
  by (auto simp: validate_api_key_def)

lemma validate_api_key_present:
  "openstates_api_key cfg = Some k \<Longrightarrow> k \<noteq> [] \<Longrightarrow> validate_api_key cfg = Inr k"
  by (simp add: validate_api_key_def)

lemma get_calls_log [simp]:
  "get_calls (log_info ctx m w) = get_calls w"
  "get_calls (log_error ctx m w) = get_calls w"
  by (simp_all add: log_info_def log_error_def)

lemma get_calls_handle_api_error [simp]:
  "get_calls (snd (handle_api_error ctx e w)) = get_calls w"
  by (simp add: handle_api_error_def Let_def)

lemma get_and_count_calls:
  "get_calls (snd (get_and_count up ctx u ps hs noun w)) =
     get_calls w @ [\<lparr> http_method = ''GET'', url = u, params = ps, headers = hs, timeout = 30 \<rparr>]"
  by (simp add: get_and_count_def client_get_def Let_def
        split: http_outcome.splits sum.splits)

lemma get_and_return_calls:
  "get_calls (snd (get_and_return up ctx u ps hs msg w)) =
     get_calls w @ [\<lparr> http_method = ''GET'', url = u, params = ps, headers = hs, timeout = 30 \<rparr>]"
  by (simp add: get_and_return_def client_get_def Let_def
        split: http_outcome.splits sum.splits)

lemmas handler_defs =
  search_bills_def get_bill_by_id_def get_bill_details_def search_people_def
  get_legislators_by_location_def search_committees_def get_committee_details_def
  search_events_def get_event_details_def get_jurisdictions_def get_jurisdiction_details_def

lemmas params_eqs =
  search_bills_params_eq search_people_params_eq search_committees_params_eq
  search_events_params_eq get_jurisdictions_params_eq

lemma call_tool_without_key:
  assumes "openstates_api_key cfg = None \<or> openstates_api_key cfg = Some []"
    and "c \<noteq> Status"
  shows "\<exists>e m. fst (call_tool fs cfg up env c ctx w) = Inl e
          \<and> class_of e = ValueError
          \<and> str_exn e = ''OPENSTATES_API_KEY not found in environment variables''
          \<and> get_calls (snd (call_tool fs cfg up env c ctx w)) = get_calls w
          \<and> logged (snd (call_tool fs cfg up env c ctx w)) =
              logged w @ [(sink_of ctx, INFO, m), (sink_of ctx, ERROR, str_exn e)]"
  using assms(2)
  by (cases c)
     (simp_all add: handler_defs validate_api_key_missing [OF assms(1)] Let_def
        log_info_def log_error_def)

lemma call_tool_with_key_calls:
  assumes "openstates_api_key cfg = Some k" and "k \<noteq> []" and "c \<noteq> Status"
  shows "\<exists>u ps. get_calls (snd (call_tool fs cfg up env c ctx w)) =
            get_calls w @ [\<lparr> http_method = ''GET'', url = u, params = ps,
                               headers = [(''x-api-key'', k)], timeout = 30 \<rparr>]
          \<and> prefix ''https://v3.openstates.org/'' u"
  using assms(3)
  by (cases c)
     (simp_all add: handler_defs validate_api_key_present [OF assms(1,2)] Let_def params_eqs
        get_and_count_calls get_and_return_calls)

lemma status_calls: "get_calls (snd (status cfg env w)) = get_calls w"
  by (simp add: status_def Let_def split: prod.splits)

section \<open>The missing API key\<close>



section \<open>One request per call\<close>

text \<open>
  Claim C8. A call of any tool makes at most one \<^verbatim>\<open>client.get\<close>, whatever the upstream
  answers or raises: none for \<^verbatim>\<open>status\<close> and when the API key is missing, exactly one
  otherwise (building the request never fails). The one call is a GET with the timeout
  30.
\<close>

theorem one_get_per_call:
  "\<exists>reqs. get_calls (snd (call_tool fs cfg up env c ctx w)) = get_calls w @ reqs
      \<and> length reqs \<le> 1
      \<and> (\<forall>r \<in> set reqs. http_method r = ''GET'' \<and> timeout r = 30)
      \<and> ((\<exists>k. openstates_api_key cfg = Some k \<and> k \<noteq> []) \<and> c \<noteq> Status
            \<longrightarrow> length reqs = 1)
      \<and> (openstates_api_key cfg = None \<or> openstates_api_key cfg = Some [] \<or> c = Status
            \<longrightarrow> reqs = [])"
proof (cases "c = Status")
  case True
  then show ?thesis by (simp add: status_calls)
next
  case False
  show ?thesis
  proof (cases "openstates_api_key cfg = None \<or> openstates_api_key cfg = Some []")
    case True
    then have "get_calls (snd (call_tool fs cfg up env c ctx w)) = get_calls w"
      using call_tool_without_key [OF True False, of fs up env ctx w] by blast
    then show ?thesis using True by auto
  next
    case nokey: False
    then obtain k where k: "openstates_api_key cfg = Some k" "k \<noteq> []" by auto
    obtain u ps where "get_calls (snd (call_tool fs cfg up env c ctx w)) =
            get_calls w @ [\<lparr> http_method = ''GET'', url = u, params = ps,
                               headers = [(''x-api-key'', k)], timeout = 30 \<rparr>]"
      using call_tool_with_key_calls [OF k False, of fs up env ctx w] by blast
    then show ?thesis using k False by auto
  qed
qed

theorem one_get_per_call_witness:
  "((\<exists>k. openstates_api_key keyed_config = Some k \<and> k \<noteq> [])
      \<and> Events_get_event_details ''ocd-event/1'' None \<noteq> Status)
   \<and> (\<exists>reqs. get_calls (snd (call_tool float_str_stub keyed_config
                   (upstream_always (Raises (Exn RequestError ''timed out''))) example_env
                   (Events_get_event_details ''ocd-event/1'' None) None empty_world))
                = get_calls empty_world @ reqs
          \<and> length reqs = 1
          \<and> (\<forall>r \<in> set reqs. http_method r = ''GET'' \<and> timeout r = 30))"
  using one_get_per_call [of float_str_stub keyed_config
      "upstream_always (Raises (Exn RequestError ''timed out''))" example_env
      "Events_get_event_details ''ocd-event/1'' None" None empty_world]
  by (auto simp: keyed_config_def default_config_def)

section \<open>Configuration fields that no handler reads\<close>

text \<open>
  Claim C10. No tool reads \<^verbatim>\<open>openstates_base_url\<close>, \<^verbatim>\<open>openstates_timeout\<close>,
  \<^verbatim>\<open>openstates_connect_timeout\<close> or \<^verbatim>\<open>openstates_read_timeout\<close>: under two
  configurations that differ only there, a call has the same result, log lines and
  requests. Every request a call makes goes to \<^verbatim>\<open>https://v3.openstates.org/\<close> with the
  timeout 30.
\<close>

theorem base_url_and_timeouts_unread:
  "call_tool fs
       (cfg \<lparr> openstates_base_url := u, openstates_timeout := t,
              openstates_connect_timeout := tc, openstates_read_timeout := tr \<rparr>)
       up env c ctx w
     = call_tool fs cfg up env c ctx w
   \<and> (\<forall>r \<in> set (drop (length (get_calls w))
                   (get_calls (snd (call_tool fs cfg up env c ctx w)))).
         prefix ''https://v3.openstates.org/'' (url r) \<and> timeout r = 30)"
proof
  show "call_tool fs
       (cfg \<lparr> openstates_base_url := u, openstates_timeout := t,
              openstates_connect_timeout := tc, openstates_read_timeout := tr \<rparr>)
       up env c ctx w
     = call_tool fs cfg up env c ctx w"
    by (cases c) (simp_all add: handler_defs validate_api_key_def status_def)
next
  show "\<forall>r \<in> set (drop (length (get_calls w))
                   (get_calls (snd (call_tool fs cfg up env c ctx w)))).
         prefix ''https://v3.openstates.org/'' (url r) \<and> timeout r = 30"
  proof (cases "c = Status")
    case True
    then show ?thesis by (simp add: status_calls)
  next
    case False
    show ?thesis
    proof (cases "openstates_api_key cfg = None \<or> openstates_api_key cfg = Some []")
      case True
      then have "get_calls (snd (call_tool fs cfg up env c ctx w)) = get_calls w"
        using call_tool_without_key [OF True False, of fs up env ctx w] by blast
      then show ?thesis by simp
    next
      case nokey: False
      then obtain k where k: "openstates_api_key cfg = Some k" "k \<noteq> []" by auto
      obtain u' ps where "get_calls (snd (call_tool fs cfg up env c ctx w)) =
              get_calls w @ [\<lparr> http_method = ''GET'', url = u', params = ps,
                                 headers = [(''x-api-key'', k)], timeout = 30 \<rparr>]"
        and "prefix ''https://v3.openstates.org/'' u'"
        using call_tool_with_key_calls [OF k False, of fs up env ctx w] by blast
      then show ?thesis by simp
    qed
  qed
qed

theorem base_url_and_timeouts_unread_witness:
  "call_tool float_str_stub
       (keyed_config \<lparr> openstates_base_url := ''http://localhost:1'', openstates_timeout := 1,
              openstates_connect_timeout := 2, openstates_read_timeout := 3 \<rparr>)
       (upstream_always (Raises (Exn RequestError ''timed out''))) example_env
       (People_get_legislators_by_location (389 / 10) (- 77)) None empty_world
     = call_tool float_str_stub keyed_config
       (upstream_always (Raises (Exn RequestError ''timed out''))) example_env
       (People_get_legislators_by_location (389 / 10) (- 77)) None empty_world
   \<and> get_calls (snd (call_tool float_str_stub keyed_config
       (upstream_always (Raises (Exn RequestError ''timed out''))) example_env
       (People_get_legislators_by_location (389 / 10) (- 77)) None empty_world))
     = [\<lparr> http_method = ''GET'', url = ''https://v3.openstates.org/people.geo'',
          params = [(''lat'', PFloat (389 / 10)), (''lng'', PFloat (- 77))],
          headers = [(''x-api-key'', ''secret'')], timeout = 30 \<rparr>]
   \<and> prefix ''https://v3.openstates.org/'' ''https://v3.openstates.org/people.geo''"
  using base_url_and_timeouts_unread [where fs = float_str_stub and cfg = keyed_config
      and u = "''http://localhost:1''" and t = 1 and tc = 2 and tr = 3
      and up = "upstream_always (Raises (Exn RequestError ''timed out''))"
      and env = example_env
      and c = "People_get_legislators_by_location (389 / 10) (- 77)" and ctx = None
      and w = empty_world]
  by (simp add: keyed_config_def default_config_def empty_world_def
        get_legislators_by_location_def validate_api_key_def get_and_return_calls Let_def)

section \<open>Errors\<close>

text \<open>
  Claim C4 at \<^verbatim>\<open>search_committees\<close> without an API key: \<^verbatim>\<open>_validate_api_key\<close> raises
  \<^verbatim>\<open>ValueError("OPENSTATES_API_KEY not found in environment variables")\<close>; the handler
  logs it once and then raises \<^verbatim>\<open>ValueError(e)\<close>, a new exception whose argument is the
  first one. \<^verbatim>\<open>get_committee_details\<close>, in the same module, raises the first one itself.
\<close>

theorem search_committees_wraps_config_error:
  "validate_api_key default_config
     = Inl (Exn ValueError ''OPENSTATES_API_KEY not found in environment variables'')
   \<and> search_committees default_config
        (upstream_always (Raises (Exn RequestError ''unreachable'')))
        None None None None None 1 20 None empty_world
     = (Inl (ExnOf ValueError
               (Exn ValueError ''OPENSTATES_API_KEY not found in environment variables'')),
        \<lparr> logged =
            [(ToLogger, INFO, ''Searching committees for jurisdiction: None''),
             (ToLogger, ERROR, ''OPENSTATES_API_KEY not found in environment variables'')],
          get_calls = [] \<rparr>)
   \<and> get_committee_details default_config
        (upstream_always (Raises (Exn RequestError ''unreachable'')))
        ''ocd-organization/1'' None None empty_world
     = (Inl (Exn ValueError ''OPENSTATES_API_KEY not found in environment variables''),
        \<lparr> logged =
            [(ToLogger, INFO, ''Getting committee details for: ocd-organization/1''),
             (ToLogger, ERROR, ''OPENSTATES_API_KEY not found in environment variables'')],
          get_calls = [] \<rparr>)"
  by (simp add: validate_api_key_def default_config_def search_committees_def
        get_committee_details_def log_info_def log_error_def sink_of_def str_opt_def
        empty_world_def)

text \<open>
  Everywhere else an error is logged once and raised as it is. An error outcome of a call
  adds exactly one line at error level; and the exception raised is the one
  \<^verbatim>\<open>client.get\<close> raised, when it raised one.
\<close>

lemma handle_api_error_logs_once:
  "handle_api_error ctx e w = (r, w') \<Longrightarrow>
   r = Inl e \<and> get_calls w' = get_calls w
   \<and> (\<exists>m. logged w' = logged w @ [(sink_of ctx, ERROR, m)])"
  by (auto simp: handle_api_error_def Let_def log_error_def)

lemma get_and_count_raises:
  "up \<lparr> http_method = ''GET'', url = u, params = ps, headers = hs, timeout = 30 \<rparr> = Raises e
   \<Longrightarrow> fst (get_and_count up ctx u ps hs noun w) = Inl e"
  by (simp add: get_and_count_def client_get_def Let_def handle_api_error_def)

lemma get_and_return_raises:
  "up \<lparr> http_method = ''GET'', url = u, params = ps, headers = hs, timeout = 30 \<rparr> = Raises e
   \<Longrightarrow> fst (get_and_return up ctx u ps hs msg w) = Inl e"
  by (simp add: get_and_return_def client_get_def Let_def handle_api_error_def)

lemma transport_error_reraised:
  assumes "openstates_api_key cfg = Some k" and "k \<noteq> []" and "c \<noteq> Status"
    and "\<forall>req. up req = Raises e"
  shows "fst (call_tool fs cfg up env c ctx w) = Inl e"
  using assms(3)
  by (cases c)
     (simp_all add: handler_defs validate_api_key_present [OF assms(1,2)] Let_def params_eqs
        get_and_count_raises get_and_return_raises assms(4))

section \<open>Successful responses\<close>

lemma get_and_return_success:
  assumes "up \<lparr> http_method = ''GET'', url = u, params = ps, headers = hs, timeout = 30 \<rparr>
             = Responds r"
    and "is_success (status_code r)" and "body r = Inr data"
  shows "fst (get_and_return up ctx u ps hs msg w) = Inr data"
  using assms by (simp add: get_and_return_def client_get_def Let_def)

lemma get_and_count_success:
  assumes "up \<lparr> http_method = ''GET'', url = u, params = ps, headers = hs, timeout = 30 \<rparr>
             = Responds r"
    and "is_success (status_code r)" and "body r = Inr data"
    and "results_of data = Inr rs" and "py_len rs = Inr n"
  shows "fst (get_and_count up ctx u ps hs noun w) = Inr data"
    and "logged (snd (get_and_count up ctx u ps hs noun w)) =
           logged w @ [(sink_of ctx, INFO, ''Found '' @ str_nat n @ '' '' @ noun)]"
  using assms by (simp_all add: get_and_count_def client_get_def Let_def log_info_def)

text \<open>
  Claim C6 as stated fails: a 200 answer whose body is \<^verbatim>\<open>{"results": null}\<close> makes
  \<^verbatim>\<open>search_bills\<close> raise a \<^verbatim>\<open>TypeError\<close> (from \<^verbatim>\<open>len(None)\<close>) instead of returning
  the body.
\<close>

theorem null_results_is_type_error:
  "fst (search_bills keyed_config
          (upstream_always (Responds \<lparr> status_code = 200, status_error_text = [],
               body = Inr (JDict [(''results'', JNull)]) \<rparr>))
          (Some ''ca'') None None None None None None None None ''updated_desc'' None None
          (Some ''budget'') None 1 10 None empty_world)
     = Inl (Exn TypeError (''object of type '' @ quoted ''NoneType'' @ '' has no len()''))"
  by (simp add: search_bills_def search_bills_params_eq validate_api_key_def keyed_config_def
        default_config_def get_and_count_def client_get_def upstream_always_def
        is_success_def results_of_def py_len_def json_type_name_def handle_api_error_def
        Let_def)

section \<open>What a list operation sends\<close>

text \<open>
  With an API key, each list handler makes its one request with the parameters its
  lines before the \<^verbatim>\<open>try\<close> block build.
\<close>

lemma search_bills_sent:
  assumes "openstates_api_key cfg = Some k" and "k \<noteq> []"
  shows "\<exists>ps. search_bills_params jurisdiction session chamber identifier classification subject
          updated_since created_since action_since sort_order sponsor sponsor_classification
          q inc page per_page = Inr ps
      \<and> get_calls (snd (call_tool fs cfg up env
          (Bills_search_bills jurisdiction session chamber identifier classification
             subject updated_since created_since action_since sort_order sponsor
             sponsor_classification q inc page per_page)
          ctx w))
          = get_calls w @ [\<lparr> http_method = ''GET'', url = ''https://v3.openstates.org/bills'',
               params = ps, headers = [(''x-api-key'', k)], timeout = 30 \<rparr>]"
  by (simp add: search_bills_def validate_api_key_present [OF assms] Let_def params_eqs
        get_and_count_calls)

lemma search_people_sent:
  assumes "openstates_api_key cfg = Some k" and "k \<noteq> []"
  shows "\<exists>ps. search_people_params jurisdiction name id_filter org_classification district inc
          page per_page = Inr ps
      \<and> get_calls (snd (call_tool fs cfg up env
          (People_search_people jurisdiction name id_filter org_classification district
             inc page per_page)
          ctx w))
          = get_calls w @ [\<lparr> http_method = ''GET'', url = ''https://v3.openstates.org/people'',
               params = ps, headers = [(''x-api-key'', k)], timeout = 30 \<rparr>]"
  by (simp add: search_people_def validate_api_key_present [OF assms] Let_def params_eqs
        get_and_count_calls)

lemma search_committees_sent:
  assumes "openstates_api_key cfg = Some k" and "k \<noteq> []"
  shows "\<exists>ps. search_committees_params jurisdiction classification parent chamber inc page
          per_page = Inr ps
      \<and> get_calls (snd (call_tool fs cfg up env
          (Committees_search_committees jurisdiction classification parent chamber inc
             page per_page)
          ctx w))
          = get_calls w @ [\<lparr> http_method = ''GET'', url = ''https://v3.openstates.org/committees'',
               params = ps, headers = [(''x-api-key'', k)], timeout = 30 \<rparr>]"
  by (simp add: search_committees_def validate_api_key_present [OF assms] Let_def params_eqs
        get_and_count_calls)

lemma search_events_sent:
  assumes "openstates_api_key cfg = Some k" and "k \<noteq> []"
  shows "\<exists>ps. search_events_params jurisdiction deleted before after require_bills inc page
          per_page = Inr ps
      \<and> get_calls (snd (call_tool fs cfg up env
          (Events_search_events jurisdiction deleted before after require_bills inc page
             per_page)
          ctx w))
          = get_calls w @ [\<lparr> http_method = ''GET'', url = ''https://v3.openstates.org/events'',
               params = ps, headers = [(''x-api-key'', k)], timeout = 30 \<rparr>]"
  by (simp add: search_events_def validate_api_key_present [OF assms] Let_def params_eqs
        get_and_count_calls)

lemma get_jurisdictions_sent:
  assumes "openstates_api_key cfg = Some k" and "k \<noteq> []"
  shows "\<exists>ps. get_jurisdictions_params classification inc page per_page = Inr ps
      \<and> get_calls (snd (call_tool fs cfg up env
          (Jurisdictions_get_jurisdictions classification inc page per_page)
          ctx w))
          = get_calls w @ [\<lparr> http_method = ''GET'', url = ''https://v3.openstates.org/jurisdictions'',
               params = ps, headers = [(''x-api-key'', k)], timeout = 30 \<rparr>]"
  by (simp add: get_jurisdictions_def validate_api_key_present [OF assms] Let_def params_eqs
        get_and_count_calls)

lemma search_bills_sent_keys:
  assumes "openstates_api_key cfg = Some k" and "k \<noteq> []"
  shows "\<exists>ps. get_calls (snd (call_tool fs cfg up env
          (Bills_search_bills jurisdiction session chamber identifier classification
             subject updated_since created_since action_since sort_order sponsor
             sponsor_classification q inc page per_page)
          ctx w))
          = get_calls w @ [\<lparr> http_method = ''GET'', url = ''https://v3.openstates.org/bills'',
               params = ps, headers = [(''x-api-key'', k)], timeout = 30 \<rparr>]
      \<and> map_of ps ''page'' = Some (PInt page)
      \<and> map_of ps ''per_page'' = Some (PInt (min per_page 100))
      \<and> map_of ps ''jurisdiction'' = Option.bind jurisdiction (\<lambda>s. if s = [] then None else Some (PStr s))
      \<and> map_of ps ''session'' = Option.bind session (\<lambda>s. if s = [] then None else Some (PStr s))
      \<and> map_of ps ''chamber'' = Option.bind chamber (\<lambda>s. if s = [] then None else Some (PStr s))
      \<and> map_of ps ''classification'' = Option.bind classification (\<lambda>s. if s = [] then None else Some (PStr s))
      \<and> map_of ps ''updated_since'' = Option.bind updated_since (\<lambda>s. if s = [] then None else Some (PStr s))
      \<and> map_of ps ''created_since'' = Option.bind created_since (\<lambda>s. if s = [] then None else Some (PStr s))
      \<and> map_of ps ''action_since'' = Option.bind action_since (\<lambda>s. if s = [] then None else Some (PStr s))
      \<and> map_of ps ''sponsor'' = Option.bind sponsor (\<lambda>s. if s = [] then None else Some (PStr s))
      \<and> map_of ps ''sponsor_classification'' = Option.bind sponsor_classification (\<lambda>s. if s = [] then None else Some (PStr s))
      \<and> map_of ps ''q'' = Option.bind q (\<lambda>s. if s = [] then None else Some (PStr s))
      \<and> map_of ps ''identifier'' = Option.bind identifier (\<lambda>l. if l = [] then None else Some (PList l))
      \<and> map_of ps ''subject'' = Option.bind subject (\<lambda>l. if l = [] then None else Some (PList l))
      \<and> map_of ps ''include'' = Option.bind inc (\<lambda>l. if l = [] then None else Some (PList l))
      \<and> map_of ps ''sort'' = (if sort_order = [] then None else Some (PStr sort_order))"
  using search_bills_keys [of "jurisdiction" "session" "chamber" "identifier" "classification" "subject" "updated_since" "created_since" "action_since" "sort_order" "sponsor" "sponsor_classification" "q" "inc" "page" "per_page"]
  apply (elim exE conjE)
  subgoal for ps
    by (rule exI [of _ ps])
       (simp add: search_bills_def validate_api_key_present [OF assms] Let_def get_and_count_calls)
  done

lemma search_people_sent_keys:
  assumes "openstates_api_key cfg = Some k" and "k \<noteq> []"
  shows "\<exists>ps. get_calls (snd (call_tool fs cfg up env
          (People_search_people jurisdiction name id_filter org_classification district
             inc page per_page)
          ctx w))
          = get_calls w @ [\<lparr> http_method = ''GET'', url = ''https://v3.openstates.org/people'',
               params = ps, headers = [(''x-api-key'', k)], timeout = 30 \<rparr>]
      \<and> map_of ps ''page'' = Some (PInt page)
      \<and> map_of ps ''per_page'' = Some (PInt (min per_page 100))
      \<and> map_of ps ''jurisdiction'' = Option.bind jurisdiction (\<lambda>s. if s = [] then None else Some (PStr s))
      \<and> map_of ps ''name'' = Option.bind name (\<lambda>s. if s = [] then None else Some (PStr s))
      \<and> map_of ps ''org_classification'' = Option.bind org_classification (\<lambda>s. if s = [] then None else Some (PStr s))
      \<and> map_of ps ''district'' = Option.bind district (\<lambda>s. if s = [] then None else Some (PStr s))
      \<and> map_of ps ''id'' = Option.bind id_filter (\<lambda>l. if l = [] then None else Some (PList l))
      \<and> map_of ps ''include'' = Option.bind inc (\<lambda>l. if l = [] then None else Some (PList l))"
  using search_people_keys [of "jurisdiction" "name" "id_filter" "org_classification" "district" "inc" "page" "per_page"]
  apply (elim exE conjE)
  subgoal for ps
    by (rule exI [of _ ps])
       (simp add: search_people_def validate_api_key_present [OF assms] Let_def get_and_count_calls)
  done

lemma search_committees_sent_keys:
  assumes "openstates_api_key cfg = Some k" and "k \<noteq> []"
  shows "\<exists>ps. get_calls (snd (call_tool fs cfg up env
          (Committees_search_committees jurisdiction classification parent chamber inc
             page per_page)
          ctx w))
          = get_calls w @ [\<lparr> http_method = ''GET'', url = ''https://v3.openstates.org/committees'',
               params = ps, headers = [(''x-api-key'', k)], timeout = 30 \<rparr>]
      \<and> map_of ps ''page'' = Some (PInt page)
      \<and> map_of ps ''per_page'' = Some (PInt (min per_page 100))
      \<and> map_of ps ''jurisdiction'' = Option.bind jurisdiction (\<lambda>s. if s = [] then None else Some (PStr s))
      \<and> map_of ps ''classification'' = Option.bind classification (\<lambda>s. if s = [] then None else Some (PStr s))
      \<and> map_of ps ''parent'' = Option.bind parent (\<lambda>s. if s = [] then None else Some (PStr s))
      \<and> map_of ps ''chamber'' = Option.bind chamber (\<lambda>s. if s = [] then None else Some (PStr s))
      \<and> map_of ps ''include'' = Option.bind inc (\<lambda>l. if l = [] then None else Some (PList l))"
  using search_committees_keys [of "jurisdiction" "classification" "parent" "chamber" "inc" "page" "per_page"]
  apply (elim exE conjE)
  subgoal for ps
    by (rule exI [of _ ps])
       (simp add: search_committees_def validate_api_key_present [OF assms] Let_def get_and_count_calls)
  done

lemma search_events_sent_keys:
  assumes "openstates_api_key cfg = Some k" and "k \<noteq> []"
  shows "\<exists>ps. get_calls (snd (call_tool fs cfg up env
          (Events_search_events jurisdiction deleted before after require_bills inc page
             per_page)
          ctx w))
          = get_calls w @ [\<lparr> http_method = ''GET'', url = ''https://v3.openstates.org/events'',
               params = ps, headers = [(''x-api-key'', k)], timeout = 30 \<rparr>]
      \<and> map_of ps ''page'' = Some (PInt page)
      \<and> map_of ps ''per_page'' = Some (PInt (min per_page 100))
      \<and> map_of ps ''jurisdiction'' = map_option PStr jurisdiction
      \<and> map_of ps ''before'' = map_option PStr before
      \<and> map_of ps ''after'' = map_option PStr after
      \<and> map_of ps ''deleted'' = Some (PBool deleted)
      \<and> map_of ps ''require_bills'' = Some (PBool require_bills)
      \<and> map_of ps ''include'' = map_of (include_params inc) ''include''"
  using search_events_scalars [of "jurisdiction" "deleted" "before" "after" "require_bills" "inc" "page" "per_page"]
  apply (elim exE conjE)
  subgoal for ps
    by (rule exI [of _ ps])
       (simp add: search_events_def validate_api_key_present [OF assms] Let_def get_and_count_calls)
  done

lemma get_jurisdictions_sent_keys:
  assumes "openstates_api_key cfg = Some k" and "k \<noteq> []"
  shows "\<exists>ps. get_calls (snd (call_tool fs cfg up env
          (Jurisdictions_get_jurisdictions classification inc page per_page)
          ctx w))
          = get_calls w @ [\<lparr> http_method = ''GET'', url = ''https://v3.openstates.org/jurisdictions'',
               params = ps, headers = [(''x-api-key'', k)], timeout = 30 \<rparr>]
      \<and> map_of ps ''page'' = Some (PInt page)
      \<and> map_of ps ''per_page'' = Some (PInt (min per_page 100))
      \<and> map_of ps ''classification'' = Option.bind classification (\<lambda>s. if s = [] then None else Some (PStr s))
      \<and> map_of ps ''include'' = Option.bind inc (\<lambda>l. if l = [] then None else Some (PList l))"
  using get_jurisdictions_keys [of "classification" "inc" "page" "per_page"]
  apply (elim exE conjE)
  subgoal for ps
    by (rule exI [of _ ps])
       (simp add: get_jurisdictions_def validate_api_key_present [OF assms] Let_def get_and_count_calls)
  done

section \<open>Pagination, as sent\<close>

text \<open>
  Claim C3. With an API key configured, each of the five list operations
  (\<^verbatim>\<open>search_bills\<close>, \<^verbatim>\<open>search_people\<close>, \<^verbatim>\<open>search_committees\<close>, \<^verbatim>\<open>search_events\<close>,
  \<^verbatim>\<open>get_jurisdictions\<close>) makes one request, and for every integer \<open>per_page\<close> the
  parameters of that request bind \<^verbatim>\<open>per_page\<close> to \<open>min per_page 100\<close>: an input above
  100 is sent as exactly 100, an input of 100 or less as it is, and a call with the
  clamped value makes the same requests as the call with the value itself.
\<close>

theorem per_page_sent_clamped:
  assumes "openstates_api_key cfg = Some k" and "k \<noteq> []"
  shows "(\<exists>ps. get_calls (snd (call_tool fs cfg up env
          (Bills_search_bills jurisdiction session chamber ident classification subject
             updated_since created_since action_since sort_order sponsor
             sponsor_classification q inc page per_page)
          ctx w))
          = get_calls w @ [\<lparr> http_method = ''GET'', url = ''https://v3.openstates.org/bills'',
               params = ps, headers = [(''x-api-key'', k)], timeout = 30 \<rparr>]
        \<and> map_of ps ''per_page'' = Some (PInt (min per_page 100)))
   \<and> (\<exists>ps. get_calls (snd (call_tool fs cfg up env
          (People_search_people jurisdiction name id_filter org_classification district
             inc page per_page)
          ctx w))
          = get_calls w @ [\<lparr> http_method = ''GET'', url = ''https://v3.openstates.org/people'',
               params = ps, headers = [(''x-api-key'', k)], timeout = 30 \<rparr>]
        \<and> map_of ps ''per_page'' = Some (PInt (min per_page 100)))
   \<and> (\<exists>ps. get_calls (snd (call_tool fs cfg up env
          (Committees_search_committees jurisdiction classification parent chamber inc
             page per_page)
          ctx w))
          = get_calls w @ [\<lparr> http_method = ''GET'', url = ''https://v3.openstates.org/committees'',
               params = ps, headers = [(''x-api-key'', k)], timeout = 30 \<rparr>]
        \<and> map_of ps ''per_page'' = Some (PInt (min per_page 100)))
   \<and> (\<exists>ps. get_calls (snd (call_tool fs cfg up env
          (Events_search_events jurisdiction deleted before after require_bills inc page
             per_page)
          ctx w))
          = get_calls w @ [\<lparr> http_method = ''GET'', url = ''https://v3.openstates.org/events'',
               params = ps, headers = [(''x-api-key'', k)], timeout = 30 \<rparr>]
        \<and> map_of ps ''per_page'' = Some (PInt (min per_page 100)))
   \<and> (\<exists>ps. get_calls (snd (call_tool fs cfg up env
          (Jurisdictions_get_jurisdictions classification inc page per_page)
          ctx w))
          = get_calls w @ [\<lparr> http_method = ''GET'', url = ''https://v3.openstates.org/jurisdictions'',
               params = ps, headers = [(''x-api-key'', k)], timeout = 30 \<rparr>]
        \<and> map_of ps ''per_page'' = Some (PInt (min per_page 100)))
   \<and> (100 < per_page \<longrightarrow> min per_page 100 = 100)
   \<and> (per_page \<le> 100 \<longrightarrow> min per_page 100 = per_page)
   \<and> get_calls (snd (call_tool fs cfg up env
          (Bills_search_bills jurisdiction session chamber ident classification subject
             updated_since created_since action_since sort_order sponsor
             sponsor_classification q inc page (min per_page 100))
          ctx w))
       = get_calls (snd (call_tool fs cfg up env
          (Bills_search_bills jurisdiction session chamber ident classification subject
             updated_since created_since action_since sort_order sponsor
             sponsor_classification q inc page per_page)
          ctx w))
   \<and> get_calls (snd (call_tool fs cfg up env
          (People_search_people jurisdiction name id_filter org_classification district
             inc page (min per_page 100))
          ctx w))
       = get_calls (snd (call_tool fs cfg up env
          (People_search_people jurisdiction name id_filter org_classification district
             inc page per_page)
          ctx w))
   \<and> get_calls (snd (call_tool fs cfg up env
          (Committees_search_committees jurisdiction classification parent chamber inc
             page (min per_page 100))
          ctx w))
       = get_calls (snd (call_tool fs cfg up env
          (Committees_search_committees jurisdiction classification parent chamber inc
             page per_page)
          ctx w))
   \<and> get_calls (snd (call_tool fs cfg up env
          (Events_search_events jurisdiction deleted before after require_bills inc page
             (min per_page 100))
          ctx w))
       = get_calls (snd (call_tool fs cfg up env
          (Events_search_events jurisdiction deleted before after require_bills inc page
             per_page)
          ctx w))
   \<and> get_calls (snd (call_tool fs cfg up env
          (Jurisdictions_get_jurisdictions classification inc page (min per_page 100))
          ctx w))
       = get_calls (snd (call_tool fs cfg up env
          (Jurisdictions_get_jurisdictions classification inc page per_page)
          ctx w))"
proof -
  have s0: "(\<exists>ps. get_calls (snd (call_tool fs cfg up env
            (Bills_search_bills jurisdiction session chamber ident classification subject
               updated_since created_since action_since sort_order sponsor
               sponsor_classification q inc page per_page)
            ctx w))
            = get_calls w @ [\<lparr> http_method = ''GET'', url = ''https://v3.openstates.org/bills'',
                 params = ps, headers = [(''x-api-key'', k)], timeout = 30 \<rparr>]
          \<and> map_of ps ''per_page'' = Some (PInt (min per_page 100)))"
    using search_bills_sent_keys [OF assms, of fs up env "jurisdiction" "session" "chamber" "ident" "classification" "subject" "updated_since" "created_since" "action_since" "sort_order" "sponsor" "sponsor_classification" "q" "inc" "page" "per_page" ctx w]
    apply (elim exE conjE)
    subgoal for ps by (rule exI [of _ ps]) simp
    done
  have s1: "(\<exists>ps. get_calls (snd (call_tool fs cfg up env
            (People_search_people jurisdiction name id_filter org_classification district
               inc page per_page)
            ctx w))
            = get_calls w @ [\<lparr> http_method = ''GET'', url = ''https://v3.openstates.org/people'',
                 params = ps, headers = [(''x-api-key'', k)], timeout = 30 \<rparr>]
          \<and> map_of ps ''per_page'' = Some (PInt (min per_page 100)))"
    using search_people_sent_keys [OF assms, of fs up env "jurisdiction" "name" "id_filter" "org_classification" "district" "inc" "page" "per_page" ctx w]
    apply (elim exE conjE)
    subgoal for ps by (rule exI [of _ ps]) simp
    done
  have s2: "(\<exists>ps. get_calls (snd (call_tool fs cfg up env
            (Committees_search_committees jurisdiction classification parent chamber inc
               page per_page)
            ctx w))
            = get_calls w @ [\<lparr> http_method = ''GET'', url = ''https://v3.openstates.org/committees'',
                 params = ps, headers = [(''x-api-key'', k)], timeout = 30 \<rparr>]
          \<and> map_of ps ''per_page'' = Some (PInt (min per_page 100)))"
    using search_committees_sent_keys [OF assms, of fs up env "jurisdiction" "classification" "parent" "chamber" "inc" "page" "per_page" ctx w]
    apply (elim exE conjE)
    subgoal for ps by (rule exI [of _ ps]) simp
    done
  have s3: "(\<exists>ps. get_calls (snd (call_tool fs cfg up env
            (Events_search_events jurisdiction deleted before after require_bills inc page
               per_page)
            ctx w))
            = get_calls w @ [\<lparr> http_method = ''GET'', url = ''https://v3.openstates.org/events'',
                 params = ps, headers = [(''x-api-key'', k)], timeout = 30 \<rparr>]
          \<and> map_of ps ''per_page'' = Some (PInt (min per_page 100)))"
    using search_events_sent_keys [OF assms, of fs up env "jurisdiction" "deleted" "before" "after" "require_bills" "inc" "page" "per_page" ctx w]
    apply (elim exE conjE)
    subgoal for ps by (rule exI [of _ ps]) simp
    done
  have s4: "(\<exists>ps. get_calls (snd (call_tool fs cfg up env
            (Jurisdictions_get_jurisdictions classification inc page per_page)
            ctx w))
            = get_calls w @ [\<lparr> http_method = ''GET'', url = ''https://v3.openstates.org/jurisdictions'',
                 params = ps, headers = [(''x-api-key'', k)], timeout = 30 \<rparr>]
          \<and> map_of ps ''per_page'' = Some (PInt (min per_page 100)))"
    using get_jurisdictions_sent_keys [OF assms, of fs up env "classification" "inc" "page" "per_page" ctx w]
    apply (elim exE conjE)
    subgoal for ps by (rule exI [of _ ps]) simp
    done
  have b0: "search_bills_params jurisdiction session chamber ident classification subject
          updated_since created_since action_since sort_order sponsor sponsor_classification
          q inc page (min per_page 100)
      = search_bills_params jurisdiction session chamber ident classification subject
          updated_since created_since action_since sort_order sponsor sponsor_classification
          q inc page per_page"
    by (simp add: search_bills_params_def)
  have i0: "get_calls (snd (call_tool fs cfg up env
            (Bills_search_bills jurisdiction session chamber ident classification subject
               updated_since created_since action_since sort_order sponsor
               sponsor_classification q inc page (min per_page 100))
            ctx w))
         = get_calls (snd (call_tool fs cfg up env
            (Bills_search_bills jurisdiction session chamber ident classification subject
               updated_since created_since action_since sort_order sponsor
               sponsor_classification q inc page per_page)
            ctx w))"
    by (simp only: call_tool.simps search_bills_def b0)
  have b1: "search_people_params jurisdiction name id_filter org_classification district inc
          page (min per_page 100)
      = search_people_params jurisdiction name id_filter org_classification district inc
          page per_page"
    by (simp add: search_people_params_def)
  have i1: "get_calls (snd (call_tool fs cfg up env
            (People_search_people jurisdiction name id_filter org_classification district
               inc page (min per_page 100))
            ctx w))
         = get_calls (snd (call_tool fs cfg up env
            (People_search_people jurisdiction name id_filter org_classification district
               inc page per_page)
            ctx w))"
    by (simp only: call_tool.simps search_people_def b1)
  have b2: "search_committees_params jurisdiction classification parent chamber inc page
          (min per_page 100)
      = search_committees_params jurisdiction classification parent chamber inc page
          per_page"
    by (simp add: search_committees_params_def)
  have i2: "get_calls (snd (call_tool fs cfg up env
            (Committees_search_committees jurisdiction classification parent chamber inc
               page (min per_page 100))
            ctx w))
         = get_calls (snd (call_tool fs cfg up env
            (Committees_search_committees jurisdiction classification parent chamber inc
               page per_page)
            ctx w))"
    by (simp only: call_tool.simps search_committees_def b2)
  have b3: "search_events_params jurisdiction deleted before after require_bills inc page
          (min per_page 100)
      = search_events_params jurisdiction deleted before after require_bills inc page
          per_page"
    by (simp add: search_events_params_def)
  have i3: "get_calls (snd (call_tool fs cfg up env
            (Events_search_events jurisdiction deleted before after require_bills inc page
               (min per_page 100))
            ctx w))
         = get_calls (snd (call_tool fs cfg up env
            (Events_search_events jurisdiction deleted before after require_bills inc page
               per_page)
            ctx w))"
    by (simp only: call_tool.simps search_events_def b3)
  have b4: "get_jurisdictions_params classification inc page (min per_page 100)
      = get_jurisdictions_params classification inc page per_page"
    by (simp add: get_jurisdictions_params_def)
  have i4: "get_calls (snd (call_tool fs cfg up env
            (Jurisdictions_get_jurisdictions classification inc page (min per_page 100))
            ctx w))
         = get_calls (snd (call_tool fs cfg up env
            (Jurisdictions_get_jurisdictions classification inc page per_page)
            ctx w))"
    by (simp only: call_tool.simps get_jurisdictions_def b4)
  show ?thesis
    using s0 s1 s2 s3 s4 i0 i1 i2 i3 i4 by simp
qed

theorem per_page_sent_clamped_witness:
  "openstates_api_key keyed_config = Some ''secret'' \<and> ''secret'' \<noteq> ([] :: string)
   \<and> (100 :: int) < 250
   \<and> (\<exists>ps. get_calls (snd (call_tool float_str_stub keyed_config (upstream_always (Raises (Exn RequestError ''unreachable''))) example_env
          (Bills_search_bills (Some ''ca'') None None None None None None None None
             ''updated_desc'' None None (Some ''budget'') None 1 250)
          None empty_world))
          = get_calls empty_world @ [\<lparr> http_method = ''GET'', url = ''https://v3.openstates.org/bills'',
               params = ps, headers = [(''x-api-key'', ''secret'')], timeout = 30 \<rparr>]
        \<and> map_of ps ''per_page'' = Some (PInt 100))
   \<and> (\<exists>ps. get_calls (snd (call_tool float_str_stub keyed_config (upstream_always (Raises (Exn RequestError ''unreachable''))) example_env
          (Events_search_events (Some ''ca'') False None None False None 1 250)
          None empty_world))
          = get_calls empty_world @ [\<lparr> http_method = ''GET'', url = ''https://v3.openstates.org/events'',
               params = ps, headers = [(''x-api-key'', ''secret'')], timeout = 30 \<rparr>]
        \<and> map_of ps ''per_page'' = Some (PInt 100))"
proof -
  have key: "openstates_api_key keyed_config = Some ''secret''"
    by (simp add: keyed_config_def)
  have ne: "''secret'' \<noteq> ([] :: string)" by simp
  note main = per_page_sent_clamped [OF key ne, where fs = float_str_stub and up = "upstream_always (Raises (Exn RequestError ''unreachable''))"
      and env = example_env and ctx = None and w = empty_world
      and jurisdiction = "Some ''ca''" and session = "None" and chamber = "None"
      and ident = "None" and classification = "None" and subject = "None"
      and updated_since = "None" and created_since = "None" and action_since = "None"
      and sort_order = "''updated_desc''" and sponsor = "None" and sponsor_classification = "None"
      and q = "Some ''budget''" and inc = "None" and page = "1"
      and per_page = "250" and name = "None" and id_filter = "None"
      and org_classification = "None" and district = "None" and parent = "None"
      and deleted = "False" and before = "None" and after = "None"
      and require_bills = "False"]
  show ?thesis using main key by simp
qed

section \<open>List-valued filters, as sent\<close>

text \<open>
  Claim C5. With an API key configured, in every list operation a non-empty list given
  for a list-valued filter (\<^verbatim>\<open>identifier\<close>, \<^verbatim>\<open>subject\<close> and \<^verbatim>\<open>include\<close> of
  \<^verbatim>\<open>search_bills\<close>; \<^verbatim>\<open>id\<close> and \<^verbatim>\<open>include\<close> of \<^verbatim>\<open>search_people\<close>; \<^verbatim>\<open>include\<close> of
  \<^verbatim>\<open>search_committees\<close>, \<^verbatim>\<open>search_events\<close> and \<^verbatim>\<open>get_jurisdictions\<close>) is bound, in
  the parameters of the request made, under its key, to a list with the same elements
  in the same order and number as the caller's list.
\<close>

theorem list_filters_sent:
  assumes "openstates_api_key cfg = Some k" and "k \<noteq> []" and "xs \<noteq> []"
  shows "(\<exists>ps. get_calls (snd (call_tool fs cfg up env
          (Bills_search_bills jurisdiction session chamber (Some xs) classification
             subject updated_since created_since action_since sort_order sponsor
             sponsor_classification q inc page per_page)
          ctx w))
          = get_calls w @ [\<lparr> http_method = ''GET'', url = ''https://v3.openstates.org/bills'',
               params = ps, headers = [(''x-api-key'', k)], timeout = 30 \<rparr>]
        \<and> map_of ps ''identifier'' = Some (PList xs))
   \<and> (\<exists>ps. get_calls (snd (call_tool fs cfg up env
          (Bills_search_bills jurisdiction session chamber ident classification (Some xs)
             updated_since created_since action_since sort_order sponsor
             sponsor_classification q inc page per_page)
          ctx w))
          = get_calls w @ [\<lparr> http_method = ''GET'', url = ''https://v3.openstates.org/bills'',
               params = ps, headers = [(''x-api-key'', k)], timeout = 30 \<rparr>]
        \<and> map_of ps ''subject'' = Some (PList xs))
   \<and> (\<exists>ps. get_calls (snd (call_tool fs cfg up env
          (Bills_search_bills jurisdiction session chamber ident classification subject
             updated_since created_since action_since sort_order sponsor
             sponsor_classification q (Some xs) page per_page)
          ctx w))
          = get_calls w @ [\<lparr> http_method = ''GET'', url = ''https://v3.openstates.org/bills'',
               params = ps, headers = [(''x-api-key'', k)], timeout = 30 \<rparr>]
        \<and> map_of ps ''include'' = Some (PList xs))
   \<and> (\<exists>ps. get_calls (snd (call_tool fs cfg up env
          (People_search_people jurisdiction name (Some xs) org_classification district
             inc page per_page)
          ctx w))
          = get_calls w @ [\<lparr> http_method = ''GET'', url = ''https://v3.openstates.org/people'',
               params = ps, headers = [(''x-api-key'', k)], timeout = 30 \<rparr>]
        \<and> map_of ps ''id'' = Some (PList xs))
   \<and> (\<exists>ps. get_calls (snd (call_tool fs cfg up env
          (People_search_people jurisdiction name id_filter org_classification district
             (Some xs) page per_page)
          ctx w))
          = get_calls w @ [\<lparr> http_method = ''GET'', url = ''https://v3.openstates.org/people'',
               params = ps, headers = [(''x-api-key'', k)], timeout = 30 \<rparr>]
        \<and> map_of ps ''include'' = Some (PList xs))
   \<and> (\<exists>ps. get_calls (snd (call_tool fs cfg up env
          (Committees_search_committees jurisdiction classification parent chamber
             (Some xs) page per_page)
          ctx w))
          = get_calls w @ [\<lparr> http_method = ''GET'', url = ''https://v3.openstates.org/committees'',
               params = ps, headers = [(''x-api-key'', k)], timeout = 30 \<rparr>]
        \<and> map_of ps ''include'' = Some (PList xs))
   \<and> (\<exists>ps. get_calls (snd (call_tool fs cfg up env
          (Events_search_events jurisdiction deleted before after require_bills (Some xs)
             page per_page)
          ctx w))
          = get_calls w @ [\<lparr> http_method = ''GET'', url = ''https://v3.openstates.org/events'',
               params = ps, headers = [(''x-api-key'', k)], timeout = 30 \<rparr>]
        \<and> map_of ps ''include'' = Some (PList xs))
   \<and> (\<exists>ps. get_calls (snd (call_tool fs cfg up env
          (Jurisdictions_get_jurisdictions classification (Some xs) page per_page)
          ctx w))
          = get_calls w @ [\<lparr> http_method = ''GET'', url = ''https://v3.openstates.org/jurisdictions'',
               params = ps, headers = [(''x-api-key'', k)], timeout = 30 \<rparr>]
        \<and> map_of ps ''include'' = Some (PList xs))"
proof -
  have s0: "(\<exists>ps. get_calls (snd (call_tool fs cfg up env
            (Bills_search_bills jurisdiction session chamber (Some xs) classification
               subject updated_since created_since action_since sort_order sponsor
               sponsor_classification q inc page per_page)
            ctx w))
            = get_calls w @ [\<lparr> http_method = ''GET'', url = ''https://v3.openstates.org/bills'',
                 params = ps, headers = [(''x-api-key'', k)], timeout = 30 \<rparr>]
          \<and> map_of ps ''identifier'' = Some (PList xs))"
    using search_bills_sent_keys [OF assms(1,2), of fs up env "jurisdiction" "session" "chamber" "Some xs" "classification" "subject" "updated_since" "created_since" "action_since" "sort_order" "sponsor" "sponsor_classification" "q" "inc" "page" "per_page" ctx w] assms(3)
    apply (elim exE conjE)
    subgoal for ps by (rule exI [of _ ps]) (simp)
    done
  have s1: "(\<exists>ps. get_calls (snd (call_tool fs cfg up env
            (Bills_search_bills jurisdiction session chamber ident classification (Some xs)
               updated_since created_since action_since sort_order sponsor
               sponsor_classification q inc page per_page)
            ctx w))
            = get_calls w @ [\<lparr> http_method = ''GET'', url = ''https://v3.openstates.org/bills'',
                 params = ps, headers = [(''x-api-key'', k)], timeout = 30 \<rparr>]
          \<and> map_of ps ''subject'' = Some (PList xs))"
    using search_bills_sent_keys [OF assms(1,2), of fs up env "jurisdiction" "session" "chamber" "ident" "classification" "Some xs" "updated_since" "created_since" "action_since" "sort_order" "sponsor" "sponsor_classification" "q" "inc" "page" "per_page" ctx w] assms(3)
    apply (elim exE conjE)
    subgoal for ps by (rule exI [of _ ps]) (simp)
    done
  have s2: "(\<exists>ps. get_calls (snd (call_tool fs cfg up env
            (Bills_search_bills jurisdiction session chamber ident classification subject
               updated_since created_since action_since sort_order sponsor
               sponsor_classification q (Some xs) page per_page)
            ctx w))
            = get_calls w @ [\<lparr> http_method = ''GET'', url = ''https://v3.openstates.org/bills'',
                 params = ps, headers = [(''x-api-key'', k)], timeout = 30 \<rparr>]
          \<and> map_of ps ''include'' = Some (PList xs))"
    using search_bills_sent_keys [OF assms(1,2), of fs up env "jurisdiction" "session" "chamber" "ident" "classification" "subject" "updated_since" "created_since" "action_since" "sort_order" "sponsor" "sponsor_classification" "q" "Some xs" "page" "per_page" ctx w] assms(3)
    apply (elim exE conjE)
    subgoal for ps by (rule exI [of _ ps]) (simp)
    done
  have s3: "(\<exists>ps. get_calls (snd (call_tool fs cfg up env
            (People_search_people jurisdiction name (Some xs) org_classification district
               inc page per_page)
            ctx w))
            = get_calls w @ [\<lparr> http_method = ''GET'', url = ''https://v3.openstates.org/people'',
                 params = ps, headers = [(''x-api-key'', k)], timeout = 30 \<rparr>]
          \<and> map_of ps ''id'' = Some (PList xs))"
    using search_people_sent_keys [OF assms(1,2), of fs up env "jurisdiction" "name" "Some xs" "org_classification" "district" "inc" "page" "per_page" ctx w] assms(3)
    apply (elim exE conjE)
    subgoal for ps by (rule exI [of _ ps]) (simp)
    done
  have s4: "(\<exists>ps. get_calls (snd (call_tool fs cfg up env
            (People_search_people jurisdiction name id_filter org_classification district
               (Some xs) page per_page)
            ctx w))
            = get_calls w @ [\<lparr> http_method = ''GET'', url = ''https://v3.openstates.org/people'',
                 params = ps, headers = [(''x-api-key'', k)], timeout = 30 \<rparr>]
          \<and> map_of ps ''include'' = Some (PList xs))"
    using search_people_sent_keys [OF assms(1,2), of fs up env "jurisdiction" "name" "id_filter" "org_classification" "district" "Some xs" "page" "per_page" ctx w] assms(3)
    apply (elim exE conjE)
    subgoal for ps by (rule exI [of _ ps]) (simp)
    done
  have s5: "(\<exists>ps. get_calls (snd (call_tool fs cfg up env
            (Committees_search_committees jurisdiction classification parent chamber
               (Some xs) page per_page)
            ctx w))
            = get_calls w @ [\<lparr> http_method = ''GET'', url = ''https://v3.openstates.org/committees'',
                 params = ps, headers = [(''x-api-key'', k)], timeout = 30 \<rparr>]
          \<and> map_of ps ''include'' = Some (PList xs))"
    using search_committees_sent_keys [OF assms(1,2), of fs up env "jurisdiction" "classification" "parent" "chamber" "Some xs" "page" "per_page" ctx w] assms(3)
    apply (elim exE conjE)
    subgoal for ps by (rule exI [of _ ps]) (simp)
    done
  have s6: "(\<exists>ps. get_calls (snd (call_tool fs cfg up env
            (Events_search_events jurisdiction deleted before after require_bills (Some xs)
               page per_page)
            ctx w))
            = get_calls w @ [\<lparr> http_method = ''GET'', url = ''https://v3.openstates.org/events'',
                 params = ps, headers = [(''x-api-key'', k)], timeout = 30 \<rparr>]
          \<and> map_of ps ''include'' = Some (PList xs))"
    using search_events_sent_keys [OF assms(1,2), of fs up env "jurisdiction" "deleted" "before" "after" "require_bills" "Some xs" "page" "per_page" ctx w] assms(3)
    apply (elim exE conjE)
    subgoal for ps by (rule exI [of _ ps]) (simp add: map_of_include_params)
    done
  have s7: "(\<exists>ps. get_calls (snd (call_tool fs cfg up env
            (Jurisdictions_get_jurisdictions classification (Some xs) page per_page)
            ctx w))
            = get_calls w @ [\<lparr> http_method = ''GET'', url = ''https://v3.openstates.org/jurisdictions'',
                 params = ps, headers = [(''x-api-key'', k)], timeout = 30 \<rparr>]
          \<and> map_of ps ''include'' = Some (PList xs))"
    using get_jurisdictions_sent_keys [OF assms(1,2), of fs up env "classification" "Some xs" "page" "per_page" ctx w] assms(3)
    apply (elim exE conjE)
    subgoal for ps by (rule exI [of _ ps]) (simp)
    done
  show ?thesis
    using s0 s1 s2 s3 s4 s5 s6 s7 by simp
qed

theorem list_filters_sent_witness:
  "openstates_api_key keyed_config = Some ''secret'' \<and> ''secret'' \<noteq> ([] :: string)
   \<and> [''HB 1'', ''SB 2'', ''HB 1''] \<noteq> ([] :: string list)
   \<and> (\<exists>ps. get_calls (snd (call_tool float_str_stub keyed_config (upstream_always (Raises (Exn RequestError ''unreachable''))) example_env
          (Bills_search_bills (Some ''ca'') None None
             (Some [''HB 1'', ''SB 2'', ''HB 1'']) None None None None None ''updated_desc''
             None None None None 1 10)
          None empty_world))
          = get_calls empty_world @ [\<lparr> http_method = ''GET'', url = ''https://v3.openstates.org/bills'',
               params = ps, headers = [(''x-api-key'', ''secret'')], timeout = 30 \<rparr>]
        \<and> map_of ps ''identifier'' = Some (PList [''HB 1'', ''SB 2'', ''HB 1'']))
   \<and> (\<exists>ps. get_calls (snd (call_tool float_str_stub keyed_config (upstream_always (Raises (Exn RequestError ''unreachable''))) example_env
          (People_search_people (Some ''ca'') None (Some [''HB 1'', ''SB 2'', ''HB 1''])
             None None None 1 10)
          None empty_world))
          = get_calls empty_world @ [\<lparr> http_method = ''GET'', url = ''https://v3.openstates.org/people'',
               params = ps, headers = [(''x-api-key'', ''secret'')], timeout = 30 \<rparr>]
        \<and> map_of ps ''id'' = Some (PList [''HB 1'', ''SB 2'', ''HB 1'']))"
proof -
  have key: "openstates_api_key keyed_config = Some ''secret''"
    by (simp add: keyed_config_def)
  have ne: "''secret'' \<noteq> ([] :: string)" by simp
  have xs: "[''HB 1'', ''SB 2'', ''HB 1''] \<noteq> ([] :: string list)" by simp
  note main = list_filters_sent [OF key ne xs, where fs = float_str_stub and up = "upstream_always (Raises (Exn RequestError ''unreachable''))"
      and env = example_env and ctx = None and w = empty_world
      and jurisdiction = "Some ''ca''" and session = "None" and chamber = "None"
      and ident = "None" and classification = "None" and subject = "None"
      and updated_since = "None" and created_since = "None" and action_since = "None"
      and sort_order = "''updated_desc''" and sponsor = "None" and sponsor_classification = "None"
      and q = "None" and inc = "None" and page = "1"
      and per_page = "10" and name = "None" and id_filter = "None"
      and org_classification = "None" and district = "None" and parent = "None"
      and deleted = "False" and before = "None" and after = "None"
      and require_bills = "False"]
  show ?thesis using main key by simp
qed

section \<open>Omitted filters, as sent\<close>

text \<open>
  Claim C2, as the code has it. With an API key configured, in every list operation a
  filter argument whose default is \<^verbatim>\<open>None\<close> is not a key of the parameters of the
  request made when it is omitted; the keys \<^verbatim>\<open>page\<close> and \<^verbatim>\<open>per_page\<close> are always
  there. The arguments whose default is not \<^verbatim>\<open>None\<close> are sent even when omitted:
  \<^verbatim>\<open>sort\<close> of \<^verbatim>\<open>search_bills\<close> with its default \<^verbatim>\<open>"updated_desc"\<close>, and the flags
  \<^verbatim>\<open>deleted\<close> and \<^verbatim>\<open>require_bills\<close> of \<^verbatim>\<open>search_events\<close> with their value, \<^verbatim>\<open>False\<close>
  by default.
\<close>

theorem omitted_filters_not_sent:
  assumes "openstates_api_key cfg = Some k" and "k \<noteq> []"
  shows "(\<exists>ps. get_calls (snd (call_tool fs cfg up env
          (Bills_search_bills jurisdiction session chamber ident classification subject
             updated_since created_since action_since sort_order sponsor
             sponsor_classification q inc page per_page)
          ctx w))
          = get_calls w @ [\<lparr> http_method = ''GET'', url = ''https://v3.openstates.org/bills'',
               params = ps, headers = [(''x-api-key'', k)], timeout = 30 \<rparr>]
        \<and> (jurisdiction = None \<longrightarrow> map_of ps ''jurisdiction'' = None)
        \<and> (session = None \<longrightarrow> map_of ps ''session'' = None)
        \<and> (chamber = None \<longrightarrow> map_of ps ''chamber'' = None)
        \<and> (ident = None \<longrightarrow> map_of ps ''identifier'' = None)
        \<and> (classification = None \<longrightarrow> map_of ps ''classification'' = None)
        \<and> (subject = None \<longrightarrow> map_of ps ''subject'' = None)
        \<and> (updated_since = None \<longrightarrow> map_of ps ''updated_since'' = None)
        \<and> (created_since = None \<longrightarrow> map_of ps ''created_since'' = None)
        \<and> (action_since = None \<longrightarrow> map_of ps ''action_since'' = None)
        \<and> (sponsor = None \<longrightarrow> map_of ps ''sponsor'' = None)
        \<and> (sponsor_classification = None \<longrightarrow> map_of ps ''sponsor_classification'' = None)
        \<and> (q = None \<longrightarrow> map_of ps ''q'' = None)
        \<and> (inc = None \<longrightarrow> map_of ps ''include'' = None)
        \<and> map_of ps ''page'' = Some (PInt page)
        \<and> map_of ps ''per_page'' = Some (PInt (min per_page 100))
        \<and> (sort_order = ''updated_desc'' \<longrightarrow> map_of ps ''sort'' = Some (PStr ''updated_desc'')))
   \<and> (\<exists>ps. get_calls (snd (call_tool fs cfg up env
          (People_search_people jurisdiction name id_filter org_classification district
             inc page per_page)
          ctx w))
          = get_calls w @ [\<lparr> http_method = ''GET'', url = ''https://v3.openstates.org/people'',
               params = ps, headers = [(''x-api-key'', k)], timeout = 30 \<rparr>]
        \<and> (jurisdiction = None \<longrightarrow> map_of ps ''jurisdiction'' = None)
        \<and> (name = None \<longrightarrow> map_of ps ''name'' = None)
        \<and> (id_filter = None \<longrightarrow> map_of ps ''id'' = None)
        \<and> (org_classification = None \<longrightarrow> map_of ps ''org_classification'' = None)
        \<and> (district = None \<longrightarrow> map_of ps ''district'' = None)
        \<and> (inc = None \<longrightarrow> map_of ps ''include'' = None)
        \<and> map_of ps ''page'' = Some (PInt page)
        \<and> map_of ps ''per_page'' = Some (PInt (min per_page 100)))
   \<and> (\<exists>ps. get_calls (snd (call_tool fs cfg up env
          (Committees_search_committees jurisdiction classification parent chamber inc
             page per_page)
          ctx w))
          = get_calls w @ [\<lparr> http_method = ''GET'', url = ''https://v3.openstates.org/committees'',
               params = ps, headers = [(''x-api-key'', k)], timeout = 30 \<rparr>]
        \<and> (jurisdiction = None \<longrightarrow> map_of ps ''jurisdiction'' = None)
        \<and> (classification = None \<longrightarrow> map_of ps ''classification'' = None)
        \<and> (parent = None \<longrightarrow> map_of ps ''parent'' = None)
        \<and> (chamber = None \<longrightarrow> map_of ps ''chamber'' = None)
        \<and> (inc = None \<longrightarrow> map_of ps ''include'' = None)
        \<and> map_of ps ''page'' = Some (PInt page)
        \<and> map_of ps ''per_page'' = Some (PInt (min per_page 100)))
   \<and> (\<exists>ps. get_calls (snd (call_tool fs cfg up env
          (Events_search_events jurisdiction deleted before after require_bills inc page
             per_page)
          ctx w))
          = get_calls w @ [\<lparr> http_method = ''GET'', url = ''https://v3.openstates.org/events'',
               params = ps, headers = [(''x-api-key'', k)], timeout = 30 \<rparr>]
        \<and> (jurisdiction = None \<longrightarrow> map_of ps ''jurisdiction'' = None)
        \<and> (before = None \<longrightarrow> map_of ps ''before'' = None)
        \<and> (after = None \<longrightarrow> map_of ps ''after'' = None)
        \<and> (inc = None \<longrightarrow> map_of ps ''include'' = None)
        \<and> map_of ps ''page'' = Some (PInt page)
        \<and> map_of ps ''per_page'' = Some (PInt (min per_page 100))
        \<and> map_of ps ''deleted'' = Some (PBool deleted)
        \<and> map_of ps ''require_bills'' = Some (PBool require_bills))
   \<and> (\<exists>ps. get_calls (snd (call_tool fs cfg up env
          (Jurisdictions_get_jurisdictions classification inc page per_page)
          ctx w))
          = get_calls w @ [\<lparr> http_method = ''GET'', url = ''https://v3.openstates.org/jurisdictions'',
               params = ps, headers = [(''x-api-key'', k)], timeout = 30 \<rparr>]
        \<and> (classification = None \<longrightarrow> map_of ps ''classification'' = None)
        \<and> (inc = None \<longrightarrow> map_of ps ''include'' = None)
        \<and> map_of ps ''page'' = Some (PInt page)
        \<and> map_of ps ''per_page'' = Some (PInt (min per_page 100)))"
proof -
  have s0: "(\<exists>ps. get_calls (snd (call_tool fs cfg up env
            (Bills_search_bills jurisdiction session chamber ident classification subject
               updated_since created_since action_since sort_order sponsor
               sponsor_classification q inc page per_page)
            ctx w))
            = get_calls w @ [\<lparr> http_method = ''GET'', url = ''https://v3.openstates.org/bills'',
                 params = ps, headers = [(''x-api-key'', k)], timeout = 30 \<rparr>]
          \<and> (jurisdiction = None \<longrightarrow> map_of ps ''jurisdiction'' = None)
          \<and> (session = None \<longrightarrow> map_of ps ''session'' = None)
          \<and> (chamber = None \<longrightarrow> map_of ps ''chamber'' = None)
          \<and> (ident = None \<longrightarrow> map_of ps ''identifier'' = None)
          \<and> (classification = None \<longrightarrow> map_of ps ''classification'' = None)
          \<and> (subject = None \<longrightarrow> map_of ps ''subject'' = None)
          \<and> (updated_since = None \<longrightarrow> map_of ps ''updated_since'' = None)
          \<and> (created_since = None \<longrightarrow> map_of ps ''created_since'' = None)
          \<and> (action_since = None \<longrightarrow> map_of ps ''action_since'' = None)
          \<and> (sponsor = None \<longrightarrow> map_of ps ''sponsor'' = None)
          \<and> (sponsor_classification = None \<longrightarrow> map_of ps ''sponsor_classification'' = None)
          \<and> (q = None \<longrightarrow> map_of ps ''q'' = None)
          \<and> (inc = None \<longrightarrow> map_of ps ''include'' = None)
          \<and> map_of ps ''page'' = Some (PInt page)
          \<and> map_of ps ''per_page'' = Some (PInt (min per_page 100))
          \<and> (sort_order = ''updated_desc'' \<longrightarrow> map_of ps ''sort'' = Some (PStr ''updated_desc'')))"
    using search_bills_sent_keys [OF assms, of fs up env "jurisdiction" "session" "chamber" "ident" "classification" "subject" "updated_since" "created_since" "action_since" "sort_order" "sponsor" "sponsor_classification" "q" "inc" "page" "per_page" ctx w]
    apply (elim exE conjE)
    subgoal for ps by (rule exI [of _ ps]) (simp)
    done
  have s1: "(\<exists>ps. get_calls (snd (call_tool fs cfg up env
            (People_search_people jurisdiction name id_filter org_classification district
               inc page per_page)
            ctx w))
            = get_calls w @ [\<lparr> http_method = ''GET'', url = ''https://v3.openstates.org/people'',
                 params = ps, headers = [(''x-api-key'', k)], timeout = 30 \<rparr>]
          \<and> (jurisdiction = None \<longrightarrow> map_of ps ''jurisdiction'' = None)
          \<and> (name = None \<longrightarrow> map_of ps ''name'' = None)
          \<and> (id_filter = None \<longrightarrow> map_of ps ''id'' = None)
          \<and> (org_classification = None \<longrightarrow> map_of ps ''org_classification'' = None)
          \<and> (district = None \<longrightarrow> map_of ps ''district'' = None)
          \<and> (inc = None \<longrightarrow> map_of ps ''include'' = None)
          \<and> map_of ps ''page'' = Some (PInt page)
          \<and> map_of ps ''per_page'' = Some (PInt (min per_page 100)))"
    using search_people_sent_keys [OF assms, of fs up env "jurisdiction" "name" "id_filter" "org_classification" "district" "inc" "page" "per_page" ctx w]
    apply (elim exE conjE)
    subgoal for ps by (rule exI [of _ ps]) (simp)
    done
  have s2: "(\<exists>ps. get_calls (snd (call_tool fs cfg up env
            (Committees_search_committees jurisdiction classification parent chamber inc
               page per_page)
            ctx w))
            = get_calls w @ [\<lparr> http_method = ''GET'', url = ''https://v3.openstates.org/committees'',
                 params = ps, headers = [(''x-api-key'', k)], timeout = 30 \<rparr>]
          \<and> (jurisdiction = None \<longrightarrow> map_of ps ''jurisdiction'' = None)
          \<and> (classification = None \<longrightarrow> map_of ps ''classification'' = None)
          \<and> (parent = None \<longrightarrow> map_of ps ''parent'' = None)
          \<and> (chamber = None \<longrightarrow> map_of ps ''chamber'' = None)
          \<and> (inc = None \<longrightarrow> map_of ps ''include'' = None)
          \<and> map_of ps ''page'' = Some (PInt page)
          \<and> map_of ps ''per_page'' = Some (PInt (min per_page 100)))"
    using search_committees_sent_keys [OF assms, of fs up env "jurisdiction" "classification" "parent" "chamber" "inc" "page" "per_page" ctx w]
    apply (elim exE conjE)
    subgoal for ps by (rule exI [of _ ps]) (simp)
    done
  have s3: "(\<exists>ps. get_calls (snd (call_tool fs cfg up env
            (Events_search_events jurisdiction deleted before after require_bills inc page
               per_page)
            ctx w))
            = get_calls w @ [\<lparr> http_method = ''GET'', url = ''https://v3.openstates.org/events'',
                 params = ps, headers = [(''x-api-key'', k)], timeout = 30 \<rparr>]
          \<and> (jurisdiction = None \<longrightarrow> map_of ps ''jurisdiction'' = None)
          \<and> (before = None \<longrightarrow> map_of ps ''before'' = None)
          \<and> (after = None \<longrightarrow> map_of ps ''after'' = None)
          \<and> (inc = None \<longrightarrow> map_of ps ''include'' = None)
          \<and> map_of ps ''page'' = Some (PInt page)
          \<and> map_of ps ''per_page'' = Some (PInt (min per_page 100))
          \<and> map_of ps ''deleted'' = Some (PBool deleted)
          \<and> map_of ps ''require_bills'' = Some (PBool require_bills))"
    using search_events_sent_keys [OF assms, of fs up env "jurisdiction" "deleted" "before" "after" "require_bills" "inc" "page" "per_page" ctx w]
    apply (elim exE conjE)
    subgoal for ps by (rule exI [of _ ps]) (simp add: map_of_include_params)
    done
  have s4: "(\<exists>ps. get_calls (snd (call_tool fs cfg up env
            (Jurisdictions_get_jurisdictions classification inc page per_page)
            ctx w))
            = get_calls w @ [\<lparr> http_method = ''GET'', url = ''https://v3.openstates.org/jurisdictions'',
                 params = ps, headers = [(''x-api-key'', k)], timeout = 30 \<rparr>]
          \<and> (classification = None \<longrightarrow> map_of ps ''classification'' = None)
          \<and> (inc = None \<longrightarrow> map_of ps ''include'' = None)
          \<and> map_of ps ''page'' = Some (PInt page)
          \<and> map_of ps ''per_page'' = Some (PInt (min per_page 100)))"
    using get_jurisdictions_sent_keys [OF assms, of fs up env "classification" "inc" "page" "per_page" ctx w]
    apply (elim exE conjE)
    subgoal for ps by (rule exI [of _ ps]) (simp)
    done
  show ?thesis
    using s0 s1 s2 s3 s4 by blast
qed

theorem omitted_filters_not_sent_witness:
  "openstates_api_key keyed_config = Some ''secret'' \<and> ''secret'' \<noteq> ([] :: string)
   \<and> (None :: string option) = None
   \<and> (\<exists>ps. get_calls (snd (call_tool float_str_stub keyed_config (upstream_always (Raises (Exn RequestError ''unreachable''))) example_env
          (Bills_search_bills None None None None None None None None None
             ''updated_desc'' None None None None 1 10)
          None empty_world))
          = get_calls empty_world @ [\<lparr> http_method = ''GET'', url = ''https://v3.openstates.org/bills'',
               params = ps, headers = [(''x-api-key'', ''secret'')], timeout = 30 \<rparr>]
        \<and> map_of ps ''jurisdiction'' = None
        \<and> map_of ps ''identifier'' = None
        \<and> map_of ps ''q'' = None
        \<and> map_of ps ''include'' = None
        \<and> map_of ps ''sort'' = Some (PStr ''updated_desc''))
   \<and> (\<exists>ps. get_calls (snd (call_tool float_str_stub keyed_config (upstream_always (Raises (Exn RequestError ''unreachable''))) example_env
          (Events_search_events None False None None False None 1 10)
          None empty_world))
          = get_calls empty_world @ [\<lparr> http_method = ''GET'', url = ''https://v3.openstates.org/events'',
               params = ps, headers = [(''x-api-key'', ''secret'')], timeout = 30 \<rparr>]
        \<and> map_of ps ''jurisdiction'' = None
        \<and> map_of ps ''deleted'' = Some (PBool False))"
proof -
  have key: "openstates_api_key keyed_config = Some ''secret''"
    by (simp add: keyed_config_def)
  have ne: "''secret'' \<noteq> ([] :: string)" by simp
  note main = omitted_filters_not_sent [OF key ne, where fs = float_str_stub and up = "upstream_always (Raises (Exn RequestError ''unreachable''))"
      and env = example_env and ctx = None and w = empty_world
      and jurisdiction = "None" and session = "None" and chamber = "None"
      and ident = "None" and classification = "None" and subject = "None"
      and updated_since = "None" and created_since = "None" and action_since = "None"
      and sort_order = "''updated_desc''" and sponsor = "None" and sponsor_classification = "None"
      and q = "None" and inc = "None" and page = "1"
      and per_page = "10" and name = "None" and id_filter = "None"
      and org_classification = "None" and district = "None" and parent = "None"
      and deleted = "False" and before = "None" and after = "None"
      and require_bills = "False"]
  show ?thesis using main key by auto
qed

text \<open>
  Claim C2 as stated fails: with every argument omitted, the request of \<^verbatim>\<open>search_events\<close>
  has the keys \<^verbatim>\<open>deleted\<close> and \<^verbatim>\<open>require_bills\<close>, and that of \<^verbatim>\<open>search_bills\<close> has
  \<^verbatim>\<open>sort\<close>.
\<close>

theorem omitted_flags_are_sent:
  "get_calls (snd (call_tool float_str_stub keyed_config (upstream_always (Raises (Exn RequestError ''unreachable''))) example_env
          (Events_search_events None False None None False None 1 20)
          None empty_world))
     = [\<lparr> http_method = ''GET'', url = ''https://v3.openstates.org/events'',
               params = [(''page'', PInt 1), (''per_page'', PInt 20), (''deleted'', PBool False),
                (''require_bills'', PBool False)], headers = [(''x-api-key'', ''secret'')], timeout = 30 \<rparr>]
   \<and> get_calls (snd (call_tool float_str_stub keyed_config (upstream_always (Raises (Exn RequestError ''unreachable''))) example_env
          (Bills_search_bills None None None None None None None None None
             ''updated_desc'' None None None None 1 10)
          None empty_world))
     = [\<lparr> http_method = ''GET'', url = ''https://v3.openstates.org/bills'',
               params = [(''page'', PInt 1), (''per_page'', PInt 10), (''sort'', PStr ''updated_desc'')], headers = [(''x-api-key'', ''secret'')], timeout = 30 \<rparr>]"
  by (simp add: search_events_def search_bills_def keyed_config_def default_config_def
        validate_api_key_def get_and_count_calls default_flags_in_params empty_world_def
        Let_def)

section \<open>Empty filters, as sent\<close>

text \<open>
  Claim C9, as the code has it. With an API key configured, in \<^verbatim>\<open>search_bills\<close>,
  \<^verbatim>\<open>search_people\<close>, \<^verbatim>\<open>search_committees\<close> and \<^verbatim>\<open>get_jurisdictions\<close>, which keep a
  field \<^verbatim>\<open>if value\<close>, a \<^verbatim>\<open>str | None\<close> filter given as the empty string leads to the
  same request as the same filter omitted, whatever the other arguments are.
  \<^verbatim>\<open>sort\<close> of \<^verbatim>\<open>search_bills\<close> is dropped too when it is empty; this differs from its
  omission, which sends the default \<^verbatim>\<open>"updated_desc"\<close>. \<^verbatim>\<open>search_events\<close> keeps a field
  that \<^verbatim>\<open>is not None\<close>: there an empty string is sent, bound to its key.
\<close>

theorem empty_filters_not_sent:
  assumes "openstates_api_key cfg = Some k" and "k \<noteq> []"
  shows "(\<exists>ps. get_calls (snd (call_tool fs cfg up env
          (Bills_search_bills jurisdiction session chamber ident classification subject
             updated_since created_since action_since sort_order sponsor
             sponsor_classification q inc page per_page)
          ctx w))
          = get_calls w @ [\<lparr> http_method = ''GET'', url = ''https://v3.openstates.org/bills'',
               params = ps, headers = [(''x-api-key'', k)], timeout = 30 \<rparr>]
        \<and> get_calls (snd (call_tool fs cfg up env
          (Bills_search_bills (if jurisdiction = Some [] then None else jurisdiction)
             (if session = Some [] then None else session)
             (if chamber = Some [] then None else chamber) ident
             (if classification = Some [] then None else classification) subject
             (if updated_since = Some [] then None else updated_since)
             (if created_since = Some [] then None else created_since)
             (if action_since = Some [] then None else action_since) sort_order
             (if sponsor = Some [] then None else sponsor)
             (if sponsor_classification = Some [] then None else sponsor_classification)
             (if q = Some [] then None else q) inc page per_page)
          ctx w))
          = get_calls w @ [\<lparr> http_method = ''GET'', url = ''https://v3.openstates.org/bills'',
               params = ps, headers = [(''x-api-key'', k)], timeout = 30 \<rparr>]
        \<and> (sort_order = [] \<longrightarrow> map_of ps ''sort'' = None)
        \<and> (sort_order = ''updated_desc'' \<longrightarrow> map_of ps ''sort'' = Some (PStr ''updated_desc'')))
   \<and> (\<exists>ps. get_calls (snd (call_tool fs cfg up env
          (People_search_people jurisdiction name id_filter org_classification district
             inc page per_page)
          ctx w))
          = get_calls w @ [\<lparr> http_method = ''GET'', url = ''https://v3.openstates.org/people'',
               params = ps, headers = [(''x-api-key'', k)], timeout = 30 \<rparr>]
        \<and> get_calls (snd (call_tool fs cfg up env
          (People_search_people (if jurisdiction = Some [] then None else jurisdiction)
             (if name = Some [] then None else name) id_filter
             (if org_classification = Some [] then None else org_classification)
             (if district = Some [] then None else district) inc page per_page)
          ctx w))
          = get_calls w @ [\<lparr> http_method = ''GET'', url = ''https://v3.openstates.org/people'',
               params = ps, headers = [(''x-api-key'', k)], timeout = 30 \<rparr>])
   \<and> (\<exists>ps. get_calls (snd (call_tool fs cfg up env
          (Committees_search_committees jurisdiction classification parent chamber inc
             page per_page)
          ctx w))
          = get_calls w @ [\<lparr> http_method = ''GET'', url = ''https://v3.openstates.org/committees'',
               params = ps, headers = [(''x-api-key'', k)], timeout = 30 \<rparr>]
        \<and> get_calls (snd (call_tool fs cfg up env
          (Committees_search_committees
             (if jurisdiction = Some [] then None else jurisdiction)
             (if classification = Some [] then None else classification)
             (if parent = Some [] then None else parent)
             (if chamber = Some [] then None else chamber) inc page per_page)
          ctx w))
          = get_calls w @ [\<lparr> http_method = ''GET'', url = ''https://v3.openstates.org/committees'',
               params = ps, headers = [(''x-api-key'', k)], timeout = 30 \<rparr>])
   \<and> (\<exists>ps. get_calls (snd (call_tool fs cfg up env
          (Jurisdictions_get_jurisdictions classification inc page per_page)
          ctx w))
          = get_calls w @ [\<lparr> http_method = ''GET'', url = ''https://v3.openstates.org/jurisdictions'',
               params = ps, headers = [(''x-api-key'', k)], timeout = 30 \<rparr>]
        \<and> get_calls (snd (call_tool fs cfg up env
          (Jurisdictions_get_jurisdictions
             (if classification = Some [] then None else classification) inc page per_page)
          ctx w))
          = get_calls w @ [\<lparr> http_method = ''GET'', url = ''https://v3.openstates.org/jurisdictions'',
               params = ps, headers = [(''x-api-key'', k)], timeout = 30 \<rparr>])
   \<and> (\<exists>ps. get_calls (snd (call_tool fs cfg up env
          (Events_search_events jurisdiction deleted before after require_bills inc page
             per_page)
          ctx w))
          = get_calls w @ [\<lparr> http_method = ''GET'', url = ''https://v3.openstates.org/events'',
               params = ps, headers = [(''x-api-key'', k)], timeout = 30 \<rparr>]
        \<and> (jurisdiction = Some [] \<longrightarrow> map_of ps ''jurisdiction'' = Some (PStr []))
        \<and> (before = Some [] \<longrightarrow> map_of ps ''before'' = Some (PStr []))
        \<and> (after = Some [] \<longrightarrow> map_of ps ''after'' = Some (PStr [])))"
proof -
  have s0: "(\<exists>ps. get_calls (snd (call_tool fs cfg up env
            (Bills_search_bills jurisdiction session chamber ident classification subject
               updated_since created_since action_since sort_order sponsor
               sponsor_classification q inc page per_page)
            ctx w))
            = get_calls w @ [\<lparr> http_method = ''GET'', url = ''https://v3.openstates.org/bills'',
                 params = ps, headers = [(''x-api-key'', k)], timeout = 30 \<rparr>]
          \<and> get_calls (snd (call_tool fs cfg up env
            (Bills_search_bills (if jurisdiction = Some [] then None else jurisdiction)
               (if session = Some [] then None else session)
               (if chamber = Some [] then None else chamber) ident
               (if classification = Some [] then None else classification) subject
               (if updated_since = Some [] then None else updated_since)
               (if created_since = Some [] then None else created_since)
               (if action_since = Some [] then None else action_since) sort_order
               (if sponsor = Some [] then None else sponsor)
               (if sponsor_classification = Some [] then None else sponsor_classification)
               (if q = Some [] then None else q) inc page per_page)
            ctx w))
            = get_calls w @ [\<lparr> http_method = ''GET'', url = ''https://v3.openstates.org/bills'',
                 params = ps, headers = [(''x-api-key'', k)], timeout = 30 \<rparr>]
          \<and> (sort_order = [] \<longrightarrow> map_of ps ''sort'' = None)
          \<and> (sort_order = ''updated_desc'' \<longrightarrow> map_of ps ''sort'' = Some (PStr ''updated_desc'')))"
    using search_bills_sent [OF assms, of "jurisdiction" "session" "chamber" "ident" "classification" "subject" "updated_since" "created_since" "action_since" "sort_order" "sponsor" "sponsor_classification" "q" "inc" "page" "per_page" fs up env ctx w]
      search_bills_sent [OF assms, of "(if jurisdiction = Some [] then None else jurisdiction)" "(if session = Some [] then None else session)" "(if chamber = Some [] then None else chamber)" "ident" "(if classification = Some [] then None else classification)" "subject" "(if updated_since = Some [] then None else updated_since)" "(if created_since = Some [] then None else created_since)" "(if action_since = Some [] then None else action_since)" "sort_order" "(if sponsor = Some [] then None else sponsor)" "(if sponsor_classification = Some [] then None else sponsor_classification)" "(if q = Some [] then None else q)" "inc" "page" "per_page" fs up env ctx w]
      search_bills_empty_as_omitted [of "jurisdiction" "session" "chamber" "ident" "classification" "subject" "updated_since" "created_since" "action_since" "sort_order" "sponsor" "sponsor_classification" "q" "inc" "page" "per_page"]
      search_bills_sent_keys [OF assms, of fs up env "jurisdiction" "session" "chamber" "ident" "classification" "subject" "updated_since" "created_since" "action_since" "sort_order" "sponsor" "sponsor_classification" "q" "inc" "page" "per_page" ctx w]
    apply (elim exE conjE)
    subgoal for ps ps' ps'' by (rule exI [of _ ps]) simp
    done
  have s1: "(\<exists>ps. get_calls (snd (call_tool fs cfg up env
            (People_search_people jurisdiction name id_filter org_classification district
               inc page per_page)
            ctx w))
            = get_calls w @ [\<lparr> http_method = ''GET'', url = ''https://v3.openstates.org/people'',
                 params = ps, headers = [(''x-api-key'', k)], timeout = 30 \<rparr>]
          \<and> get_calls (snd (call_tool fs cfg up env
            (People_search_people (if jurisdiction = Some [] then None else jurisdiction)
               (if name = Some [] then None else name) id_filter
               (if org_classification = Some [] then None else org_classification)
               (if district = Some [] then None else district) inc page per_page)
            ctx w))
            = get_calls w @ [\<lparr> http_method = ''GET'', url = ''https://v3.openstates.org/people'',
                 params = ps, headers = [(''x-api-key'', k)], timeout = 30 \<rparr>])"
    using search_people_sent [OF assms, of "jurisdiction" "name" "id_filter" "org_classification" "district" "inc" "page" "per_page" fs up env ctx w]
      search_people_sent [OF assms, of "(if jurisdiction = Some [] then None else jurisdiction)" "(if name = Some [] then None else name)" "id_filter" "(if org_classification = Some [] then None else org_classification)" "(if district = Some [] then None else district)" "inc" "page" "per_page" fs up env ctx w]
      search_people_empty_as_omitted [of "jurisdiction" "name" "id_filter" "org_classification" "district" "inc" "page" "per_page"]
      search_people_sent_keys [OF assms, of fs up env "jurisdiction" "name" "id_filter" "org_classification" "district" "inc" "page" "per_page" ctx w]
    apply (elim exE conjE)
    subgoal for ps ps' ps'' by (rule exI [of _ ps]) simp
    done
  have s2: "(\<exists>ps. get_calls (snd (call_tool fs cfg up env
            (Committees_search_committees jurisdiction classification parent chamber inc
               page per_page)
            ctx w))
            = get_calls w @ [\<lparr> http_method = ''GET'', url = ''https://v3.openstates.org/committees'',
                 params = ps, headers = [(''x-api-key'', k)], timeout = 30 \<rparr>]
          \<and> get_calls (snd (call_tool fs cfg up env
            (Committees_search_committees
               (if jurisdiction = Some [] then None else jurisdiction)
               (if classification = Some [] then None else classification)
               (if parent = Some [] then None else parent)
               (if chamber = Some [] then None else chamber) inc page per_page)
            ctx w))
            = get_calls w @ [\<lparr> http_method = ''GET'', url = ''https://v3.openstates.org/committees'',
                 params = ps, headers = [(''x-api-key'', k)], timeout = 30 \<rparr>])"
    using search_committees_sent [OF assms, of "jurisdiction" "classification" "parent" "chamber" "inc" "page" "per_page" fs up env ctx w]
      search_committees_sent [OF assms, of "(if jurisdiction = Some [] then None else jurisdiction)" "(if classification = Some [] then None else classification)" "(if parent = Some [] then None else parent)" "(if chamber = Some [] then None else chamber)" "inc" "page" "per_page" fs up env ctx w]
      search_committees_empty_as_omitted [of "jurisdiction" "classification" "parent" "chamber" "inc" "page" "per_page"]
      search_committees_sent_keys [OF assms, of fs up env "jurisdiction" "classification" "parent" "chamber" "inc" "page" "per_page" ctx w]
    apply (elim exE conjE)
    subgoal for ps ps' ps'' by (rule exI [of _ ps]) simp
    done
  have s3: "(\<exists>ps. get_calls (snd (call_tool fs cfg up env
            (Jurisdictions_get_jurisdictions classification inc page per_page)
            ctx w))
            = get_calls w @ [\<lparr> http_method = ''GET'', url = ''https://v3.openstates.org/jurisdictions'',
                 params = ps, headers = [(''x-api-key'', k)], timeout = 30 \<rparr>]
          \<and> get_calls (snd (call_tool fs cfg up env
            (Jurisdictions_get_jurisdictions
               (if classification = Some [] then None else classification) inc page per_page)
            ctx w))
            = get_calls w @ [\<lparr> http_method = ''GET'', url = ''https://v3.openstates.org/jurisdictions'',
                 params = ps, headers = [(''x-api-key'', k)], timeout = 30 \<rparr>])"
    using get_jurisdictions_sent [OF assms, of "classification" "inc" "page" "per_page" fs up env ctx w]
      get_jurisdictions_sent [OF assms, of "(if classification = Some [] then None else classification)" "inc" "page" "per_page" fs up env ctx w]
      get_jurisdictions_empty_as_omitted [of "classification" "inc" "page" "per_page"]
      get_jurisdictions_sent_keys [OF assms, of fs up env "classification" "inc" "page" "per_page" ctx w]
    apply (elim exE conjE)
    subgoal for ps ps' ps'' by (rule exI [of _ ps]) simp
    done
  have s4: "(\<exists>ps. get_calls (snd (call_tool fs cfg up env
            (Events_search_events jurisdiction deleted before after require_bills inc page
               per_page)
            ctx w))
            = get_calls w @ [\<lparr> http_method = ''GET'', url = ''https://v3.openstates.org/events'',
                 params = ps, headers = [(''x-api-key'', k)], timeout = 30 \<rparr>]
          \<and> (jurisdiction = Some [] \<longrightarrow> map_of ps ''jurisdiction'' = Some (PStr []))
          \<and> (before = Some [] \<longrightarrow> map_of ps ''before'' = Some (PStr []))
          \<and> (after = Some [] \<longrightarrow> map_of ps ''after'' = Some (PStr [])))"
    using search_events_sent_keys [OF assms, of fs up env "jurisdiction" "deleted" "before" "after" "require_bills" "inc" "page" "per_page" ctx w]
    apply (elim exE conjE)
    subgoal for ps by (rule exI [of _ ps]) simp
    done
  show ?thesis
    using s0 s1 s2 s3 s4 by blast
qed

theorem empty_filters_not_sent_witness:
  "openstates_api_key keyed_config = Some ''secret'' \<and> ''secret'' \<noteq> ([] :: string)
   \<and> (\<exists>ps. get_calls (snd (call_tool float_str_stub keyed_config (upstream_always (Raises (Exn RequestError ''unreachable''))) example_env
          (Bills_search_bills (Some []) None None None None None None None None
             ''updated_desc'' None None (Some []) None 1 10)
          None empty_world))
          = get_calls empty_world @ [\<lparr> http_method = ''GET'', url = ''https://v3.openstates.org/bills'',
               params = ps, headers = [(''x-api-key'', ''secret'')], timeout = 30 \<rparr>]
        \<and> get_calls (snd (call_tool float_str_stub keyed_config (upstream_always (Raises (Exn RequestError ''unreachable''))) example_env
          (Bills_search_bills None None None None None None None None None
             ''updated_desc'' None None None None 1 10)
          None empty_world))
          = get_calls empty_world @ [\<lparr> http_method = ''GET'', url = ''https://v3.openstates.org/bills'',
               params = ps, headers = [(''x-api-key'', ''secret'')], timeout = 30 \<rparr>])
   \<and> (\<exists>ps. get_calls (snd (call_tool float_str_stub keyed_config (upstream_always (Raises (Exn RequestError ''unreachable''))) example_env
          (Events_search_events (Some []) False None None False None 1 10)
          None empty_world))
          = get_calls empty_world @ [\<lparr> http_method = ''GET'', url = ''https://v3.openstates.org/events'',
               params = ps, headers = [(''x-api-key'', ''secret'')], timeout = 30 \<rparr>]
        \<and> map_of ps ''jurisdiction'' = Some (PStr []))"
proof -
  have key: "openstates_api_key keyed_config = Some ''secret''"
    by (simp add: keyed_config_def)
  have ne: "''secret'' \<noteq> ([] :: string)" by simp
  note main = empty_filters_not_sent [OF key ne, where fs = float_str_stub and up = "upstream_always (Raises (Exn RequestError ''unreachable''))"
      and env = example_env and ctx = None and w = empty_world
      and jurisdiction = "Some []" and session = "None" and chamber = "None"
      and ident = "None" and classification = "None" and subject = "None"
      and updated_since = "None" and created_since = "None" and action_since = "None"
      and sort_order = "''updated_desc''" and sponsor = "None" and sponsor_classification = "None"
      and q = "Some []" and inc = "None" and page = "1"
      and per_page = "10" and name = "None" and id_filter = "None"
      and org_classification = "None" and district = "None" and parent = "None"
      and deleted = "False" and before = "None" and after = "None"
      and require_bills = "False"]
  show ?thesis using main key by auto
qed

text \<open>
  Claim C9 as stated fails for \<^verbatim>\<open>search_events\<close>: the empty jurisdiction is sent, and
  the request differs from that of the call without it.
\<close>

theorem search_events_sends_empty_filter:
  "get_calls (snd (call_tool float_str_stub keyed_config (upstream_always (Raises (Exn RequestError ''unreachable''))) example_env
          (Events_search_events (Some []) False None None False None 1 20)
          None empty_world))
     = [\<lparr> http_method = ''GET'', url = ''https://v3.openstates.org/events'',
               params = [(''page'', PInt 1), (''per_page'', PInt 20), (''jurisdiction'', PStr []),
                (''deleted'', PBool False), (''require_bills'', PBool False)], headers = [(''x-api-key'', ''secret'')], timeout = 30 \<rparr>]
   \<and> get_calls (snd (call_tool float_str_stub keyed_config (upstream_always (Raises (Exn RequestError ''unreachable''))) example_env
          (Events_search_events (Some []) False None None False None 1 20)
          None empty_world))
     \<noteq> get_calls (snd (call_tool float_str_stub keyed_config (upstream_always (Raises (Exn RequestError ''unreachable''))) example_env
          (Events_search_events None False None None False None 1 20)
          None empty_world))"
  by (simp add: search_events_def keyed_config_def default_config_def validate_api_key_def
        get_and_count_calls default_flags_in_params search_events_empty_in_params
        empty_world_def Let_def)

section \<open>Successful responses, at the request made\<close>

lemma shape_has_length:
  assumes "(\<exists>kvs. data = JDict kvs
                \<and> (map_of kvs ''results'' = None \<and> n = 0
                   \<or> (\<exists>xs. map_of kvs ''results'' = Some (JList xs) \<and> n = length xs)
                   \<or> (\<exists>ys. map_of kvs ''results'' = Some (JDict ys) \<and> n = length ys)
                   \<or> (\<exists>s. map_of kvs ''results'' = Some (JStr s)
                          \<and> n = length (filter (\<lambda>c. \<not> (128 \<le> (of_char c :: nat) \<and> (of_char c :: nat) < 192)) s))))"
  shows "\<exists>rs. results_of data = Inr rs \<and> py_len rs = Inr n"
  using assms by (auto simp: results_of_def py_len_def code_points_def)

lemma get_bill_by_id_success:
  assumes "openstates_api_key cfg = Some k" and "k \<noteq> []"
    and "get_calls (snd (call_tool fs cfg up env
          (Bills_get_bill_by_id bill_uuid inc)
          ctx w)) = get_calls w @ [req]"
    and "up req = Responds r" and "is_success (status_code r)" and "body r = Inr data"
  shows "fst (call_tool fs cfg up env
          (Bills_get_bill_by_id bill_uuid inc)
          ctx w) = Inr data"
proof -
  have "get_calls (snd (call_tool fs cfg up env
          (Bills_get_bill_by_id bill_uuid inc)
          ctx w))
          = get_calls w @ [\<lparr> http_method = ''GET'', url = ''https://v3.openstates.org/bills/ocd-bill/'' @ bill_uuid,
               params = include_params inc,
               headers = [(''x-api-key'', k)], timeout = 30 \<rparr>]"
    by (simp add: get_bill_by_id_def validate_api_key_present [OF assms(1,2)] Let_def
          get_and_return_calls)
  with assms(3) have req: "req = \<lparr> http_method = ''GET'', url = ''https://v3.openstates.org/bills/ocd-bill/'' @ bill_uuid,
               params = include_params inc,
               headers = [(''x-api-key'', k)], timeout = 30 \<rparr>"
    by simp
  have up_req: "up \<lparr> http_method = ''GET'', url = ''https://v3.openstates.org/bills/ocd-bill/'' @ bill_uuid,
               params = include_params inc,
               headers = [(''x-api-key'', k)], timeout = 30 \<rparr> = Responds r"
    using assms(4) req by simp
  show ?thesis
    unfolding call_tool.simps get_bill_by_id_def Let_def validate_api_key_present [OF assms(1,2)]
      sum.case
    by (rule get_and_return_success [where up = up, OF up_req assms(5,6)])
qed

lemma get_bill_details_success:
  assumes "openstates_api_key cfg = Some k" and "k \<noteq> []"
    and "get_calls (snd (call_tool fs cfg up env
          (Bills_get_bill_details jurisdiction_id session_id bill_id inc)
          ctx w)) = get_calls w @ [req]"
    and "up req = Responds r" and "is_success (status_code r)" and "body r = Inr data"
  shows "fst (call_tool fs cfg up env
          (Bills_get_bill_details jurisdiction_id session_id bill_id inc)
          ctx w) = Inr data"
proof -
  have "get_calls (snd (call_tool fs cfg up env
          (Bills_get_bill_details jurisdiction_id session_id bill_id inc)
          ctx w))
          = get_calls w @ [\<lparr> http_method = ''GET'', url = ''https://v3.openstates.org/bills/'' @ jurisdiction_id @ ''/'' @ session_id @ ''/'' @ bill_id,
               params = include_params inc,
               headers = [(''x-api-key'', k)], timeout = 30 \<rparr>]"
    by (simp add: get_bill_details_def validate_api_key_present [OF assms(1,2)] Let_def
          get_and_return_calls)
  with assms(3) have req: "req = \<lparr> http_method = ''GET'', url = ''https://v3.openstates.org/bills/'' @ jurisdiction_id @ ''/'' @ session_id @ ''/'' @ bill_id,
               params = include_params inc,
               headers = [(''x-api-key'', k)], timeout = 30 \<rparr>"
    by simp
  have up_req: "up \<lparr> http_method = ''GET'', url = ''https://v3.openstates.org/bills/'' @ jurisdiction_id @ ''/'' @ session_id @ ''/'' @ bill_id,
               params = include_params inc,
               headers = [(''x-api-key'', k)], timeout = 30 \<rparr> = Responds r"
    using assms(4) req by simp
  show ?thesis
    unfolding call_tool.simps get_bill_details_def Let_def validate_api_key_present [OF assms(1,2)]
      sum.case
    by (rule get_and_return_success [where up = up, OF up_req assms(5,6)])
qed

lemma get_legislators_by_location_success:
  assumes "openstates_api_key cfg = Some k" and "k \<noteq> []"
    and "get_calls (snd (call_tool fs cfg up env
          (People_get_legislators_by_location latitude longitude)
          ctx w)) = get_calls w @ [req]"
    and "up req = Responds r" and "is_success (status_code r)" and "body r = Inr data"
  shows "fst (call_tool fs cfg up env
          (People_get_legislators_by_location latitude longitude)
          ctx w) = Inr data"
proof -
  have "get_calls (snd (call_tool fs cfg up env
          (People_get_legislators_by_location latitude longitude)
          ctx w))
          = get_calls w @ [\<lparr> http_method = ''GET'', url = ''https://v3.openstates.org/people.geo'',
               params = [(''lat'', PFloat latitude), (''lng'', PFloat longitude)],
               headers = [(''x-api-key'', k)], timeout = 30 \<rparr>]"
    by (simp add: get_legislators_by_location_def validate_api_key_present [OF assms(1,2)] Let_def
          get_and_return_calls)
  with assms(3) have req: "req = \<lparr> http_method = ''GET'', url = ''https://v3.openstates.org/people.geo'',
               params = [(''lat'', PFloat latitude), (''lng'', PFloat longitude)],
               headers = [(''x-api-key'', k)], timeout = 30 \<rparr>"
    by simp
  have up_req: "up \<lparr> http_method = ''GET'', url = ''https://v3.openstates.org/people.geo'',
               params = [(''lat'', PFloat latitude), (''lng'', PFloat longitude)],
               headers = [(''x-api-key'', k)], timeout = 30 \<rparr> = Responds r"
    using assms(4) req by simp
  show ?thesis
    unfolding call_tool.simps get_legislators_by_location_def Let_def validate_api_key_present [OF assms(1,2)]
      sum.case
    by (rule get_and_return_success [where up = up, OF up_req assms(5,6)])
qed

lemma get_committee_details_success:
  assumes "openstates_api_key cfg = Some k" and "k \<noteq> []"
    and "get_calls (snd (call_tool fs cfg up env
          (Committees_get_committee_details committee_id inc)
          ctx w)) = get_calls w @ [req]"
    and "up req = Responds r" and "is_success (status_code r)" and "body r = Inr data"
  shows "fst (call_tool fs cfg up env
          (Committees_get_committee_details committee_id inc)
          ctx w) = Inr data"
proof -
  have "get_calls (snd (call_tool fs cfg up env
          (Committees_get_committee_details committee_id inc)
          ctx w))
          = get_calls w @ [\<lparr> http_method = ''GET'', url = ''https://v3.openstates.org/committees/'' @ committee_id,
               params = include_params inc,
               headers = [(''x-api-key'', k)], timeout = 30 \<rparr>]"
    by (simp add: get_committee_details_def validate_api_key_present [OF assms(1,2)] Let_def
          get_and_return_calls)
  with assms(3) have req: "req = \<lparr> http_method = ''GET'', url = ''https://v3.openstates.org/committees/'' @ committee_id,
               params = include_params inc,
               headers = [(''x-api-key'', k)], timeout = 30 \<rparr>"
    by simp
  have up_req: "up \<lparr> http_method = ''GET'', url = ''https://v3.openstates.org/committees/'' @ committee_id,
               params = include_params inc,
               headers = [(''x-api-key'', k)], timeout = 30 \<rparr> = Responds r"
    using assms(4) req by simp
  show ?thesis
    unfolding call_tool.simps get_committee_details_def Let_def validate_api_key_present [OF assms(1,2)]
      sum.case
    by (rule get_and_return_success [where up = up, OF up_req assms(5,6)])
qed

lemma get_event_details_success:
  assumes "openstates_api_key cfg = Some k" and "k \<noteq> []"
    and "get_calls (snd (call_tool fs cfg up env
          (Events_get_event_details event_id inc)
          ctx w)) = get_calls w @ [req]"
    and "up req = Responds r" and "is_success (status_code r)" and "body r = Inr data"
  shows "fst (call_tool fs cfg up env
          (Events_get_event_details event_id inc)
          ctx w) = Inr data"
proof -
  have "get_calls (snd (call_tool fs cfg up env
          (Events_get_event_details event_id inc)
          ctx w))
          = get_calls w @ [\<lparr> http_method = ''GET'', url = ''https://v3.openstates.org/events/'' @ event_id,
               params = include_params inc,
               headers = [(''x-api-key'', k)], timeout = 30 \<rparr>]"
    by (simp add: get_event_details_def validate_api_key_present [OF assms(1,2)] Let_def
          get_and_return_calls)
  with assms(3) have req: "req = \<lparr> http_method = ''GET'', url = ''https://v3.openstates.org/events/'' @ event_id,
               params = include_params inc,
               headers = [(''x-api-key'', k)], timeout = 30 \<rparr>"
    by simp
  have up_req: "up \<lparr> http_method = ''GET'', url = ''https://v3.openstates.org/events/'' @ event_id,
               params = include_params inc,
               headers = [(''x-api-key'', k)], timeout = 30 \<rparr> = Responds r"
    using assms(4) req by simp
  show ?thesis
    unfolding call_tool.simps get_event_details_def Let_def validate_api_key_present [OF assms(1,2)]
      sum.case
    by (rule get_and_return_success [where up = up, OF up_req assms(5,6)])
qed

lemma get_jurisdiction_details_success:
  assumes "openstates_api_key cfg = Some k" and "k \<noteq> []"
    and "get_calls (snd (call_tool fs cfg up env
          (Jurisdictions_get_jurisdiction_details jurisdiction_id inc)
          ctx w)) = get_calls w @ [req]"
    and "up req = Responds r" and "is_success (status_code r)" and "body r = Inr data"
  shows "fst (call_tool fs cfg up env
          (Jurisdictions_get_jurisdiction_details jurisdiction_id inc)
          ctx w) = Inr data"
proof -
  have "get_calls (snd (call_tool fs cfg up env
          (Jurisdictions_get_jurisdiction_details jurisdiction_id inc)
          ctx w))
          = get_calls w @ [\<lparr> http_method = ''GET'', url = ''https://v3.openstates.org/jurisdictions/'' @ jurisdiction_id,
               params = include_params inc,
               headers = [(''x-api-key'', k)], timeout = 30 \<rparr>]"
    by (simp add: get_jurisdiction_details_def validate_api_key_present [OF assms(1,2)] Let_def
          get_and_return_calls)
  with assms(3) have req: "req = \<lparr> http_method = ''GET'', url = ''https://v3.openstates.org/jurisdictions/'' @ jurisdiction_id,
               params = include_params inc,
               headers = [(''x-api-key'', k)], timeout = 30 \<rparr>"
    by simp
  have up_req: "up \<lparr> http_method = ''GET'', url = ''https://v3.openstates.org/jurisdictions/'' @ jurisdiction_id,
               params = include_params inc,
               headers = [(''x-api-key'', k)], timeout = 30 \<rparr> = Responds r"
    using assms(4) req by simp
  show ?thesis
    unfolding call_tool.simps get_jurisdiction_details_def Let_def validate_api_key_present [OF assms(1,2)]
      sum.case
    by (rule get_and_return_success [where up = up, OF up_req assms(5,6)])
qed

lemma search_bills_success:
  assumes "openstates_api_key cfg = Some k" and "k \<noteq> []"
    and "get_calls (snd (call_tool fs cfg up env
          (Bills_search_bills jurisdiction session chamber identifier classification
             subject updated_since created_since action_since sort_order sponsor
             sponsor_classification q inc page per_page)
          ctx w)) = get_calls w @ [req]"
    and "up req = Responds r" and "is_success (status_code r)" and "body r = Inr data"
    and "results_of data = Inr rs" and "py_len rs = Inr n"
  shows "fst (call_tool fs cfg up env
          (Bills_search_bills jurisdiction session chamber identifier classification
             subject updated_since created_since action_since sort_order sponsor
             sponsor_classification q inc page per_page)
          ctx w) = Inr data"
    and "\<exists>m. logged (snd (call_tool fs cfg up env
          (Bills_search_bills jurisdiction session chamber identifier classification
             subject updated_since created_since action_since sort_order sponsor
             sponsor_classification q inc page per_page)
          ctx w))
          = logged w @ [(sink_of ctx, INFO, m),
                        (sink_of ctx, INFO, ''Found '' @ str_nat n @ '' bills'')]"
proof -
  obtain ps where b: "search_bills_params jurisdiction session chamber identifier classification subject
          updated_since created_since action_since sort_order sponsor sponsor_classification
          q inc page per_page = Inr ps"
    and s: "get_calls (snd (call_tool fs cfg up env
          (Bills_search_bills jurisdiction session chamber identifier classification
             subject updated_since created_since action_since sort_order sponsor
             sponsor_classification q inc page per_page)
          ctx w))
          = get_calls w @ [\<lparr> http_method = ''GET'', url = ''https://v3.openstates.org/bills'',
               params = ps, headers = [(''x-api-key'', k)], timeout = 30 \<rparr>]"
    using search_bills_sent [OF assms(1,2), of "jurisdiction" "session" "chamber" "identifier" "classification" "subject" "updated_since" "created_since" "action_since" "sort_order" "sponsor" "sponsor_classification" "q" "inc" "page" "per_page" fs up env ctx w] by blast
  from assms(3) s have req: "req = \<lparr> http_method = ''GET'', url = ''https://v3.openstates.org/bills'',
               params = ps, headers = [(''x-api-key'', k)], timeout = 30 \<rparr>"
    by simp
  have up_req: "up \<lparr> http_method = ''GET'', url = ''https://v3.openstates.org/bills'',
               params = ps, headers = [(''x-api-key'', k)], timeout = 30 \<rparr> = Responds r"
    using assms(4) req by simp
  note ok = get_and_count_success [where up = up, OF up_req assms(5,6,7,8)]
  show "fst (call_tool fs cfg up env
          (Bills_search_bills jurisdiction session chamber identifier classification
             subject updated_since created_since action_since sort_order sponsor
             sponsor_classification q inc page per_page)
          ctx w) = Inr data"
    by (simp add: search_bills_def validate_api_key_present [OF assms(1,2)] Let_def b ok)
  show "\<exists>m. logged (snd (call_tool fs cfg up env
          (Bills_search_bills jurisdiction session chamber identifier classification
             subject updated_since created_since action_since sort_order sponsor
             sponsor_classification q inc page per_page)
          ctx w))
          = logged w @ [(sink_of ctx, INFO, m),
                        (sink_of ctx, INFO, ''Found '' @ str_nat n @ '' bills'')]"
    by (simp add: search_bills_def validate_api_key_present [OF assms(1,2)] Let_def b ok log_info_def)
qed

lemma search_people_success:
  assumes "openstates_api_key cfg = Some k" and "k \<noteq> []"
    and "get_calls (snd (call_tool fs cfg up env
          (People_search_people jurisdiction name id_filter org_classification district
             inc page per_page)
          ctx w)) = get_calls w @ [req]"
    and "up req = Responds r" and "is_success (status_code r)" and "body r = Inr data"
    and "results_of data = Inr rs" and "py_len rs = Inr n"
  shows "fst (call_tool fs cfg up env
          (People_search_people jurisdiction name id_filter org_classification district
             inc page per_page)
          ctx w) = Inr data"
    and "\<exists>m. logged (snd (call_tool fs cfg up env
          (People_search_people jurisdiction name id_filter org_classification district
             inc page per_page)
          ctx w))
          = logged w @ [(sink_of ctx, INFO, m),
                        (sink_of ctx, INFO, ''Found '' @ str_nat n @ '' people'')]"
proof -
  obtain ps where b: "search_people_params jurisdiction name id_filter org_classification district inc
          page per_page = Inr ps"
    and s: "get_calls (snd (call_tool fs cfg up env
          (People_search_people jurisdiction name id_filter org_classification district
             inc page per_page)
          ctx w))
          = get_calls w @ [\<lparr> http_method = ''GET'', url = ''https://v3.openstates.org/people'',
               params = ps, headers = [(''x-api-key'', k)], timeout = 30 \<rparr>]"
    using search_people_sent [OF assms(1,2), of "jurisdiction" "name" "id_filter" "org_classification" "district" "inc" "page" "per_page" fs up env ctx w] by blast
  from assms(3) s have req: "req = \<lparr> http_method = ''GET'', url = ''https://v3.openstates.org/people'',
               params = ps, headers = [(''x-api-key'', k)], timeout = 30 \<rparr>"
    by simp
  have up_req: "up \<lparr> http_method = ''GET'', url = ''https://v3.openstates.org/people'',
               params = ps, headers = [(''x-api-key'', k)], timeout = 30 \<rparr> = Responds r"
    using assms(4) req by simp
  note ok = get_and_count_success [where up = up, OF up_req assms(5,6,7,8)]
  show "fst (call_tool fs cfg up env
          (People_search_people jurisdiction name id_filter org_classification district
             inc page per_page)
          ctx w) = Inr data"
    by (simp add: search_people_def validate_api_key_present [OF assms(1,2)] Let_def b ok)
  show "\<exists>m. logged (snd (call_tool fs cfg up env
          (People_search_people jurisdiction name id_filter org_classification district
             inc page per_page)
          ctx w))
          = logged w @ [(sink_of ctx, INFO, m),
                        (sink_of ctx, INFO, ''Found '' @ str_nat n @ '' people'')]"
    by (simp add: search_people_def validate_api_key_present [OF assms(1,2)] Let_def b ok log_info_def)
qed

lemma search_committees_success:
  assumes "openstates_api_key cfg = Some k" and "k \<noteq> []"
    and "get_calls (snd (call_tool fs cfg up env
          (Committees_search_committees jurisdiction classification parent chamber inc
             page per_page)
          ctx w)) = get_calls w @ [req]"
    and "up req = Responds r" and "is_success (status_code r)" and "body r = Inr data"
    and "results_of data = Inr rs" and "py_len rs = Inr n"
  shows "fst (call_tool fs cfg up env
          (Committees_search_committees jurisdiction classification parent chamber inc
             page per_page)
          ctx w) = Inr data"
    and "\<exists>m. logged (snd (call_tool fs cfg up env
          (Committees_search_committees jurisdiction classification parent chamber inc
             page per_page)
          ctx w))
          = logged w @ [(sink_of ctx, INFO, m),
                        (sink_of ctx, INFO, ''Found '' @ str_nat n @ '' committees'')]"
proof -
  obtain ps where b: "search_committees_params jurisdiction classification parent chamber inc page
          per_page = Inr ps"
    and s: "get_calls (snd (call_tool fs cfg up env
          (Committees_search_committees jurisdiction classification parent chamber inc
             page per_page)
          ctx w))
          = get_calls w @ [\<lparr> http_method = ''GET'', url = ''https://v3.openstates.org/committees'',
               params = ps, headers = [(''x-api-key'', k)], timeout = 30 \<rparr>]"
    using search_committees_sent [OF assms(1,2), of "jurisdiction" "classification" "parent" "chamber" "inc" "page" "per_page" fs up env ctx w] by blast
  from assms(3) s have req: "req = \<lparr> http_method = ''GET'', url = ''https://v3.openstates.org/committees'',
               params = ps, headers = [(''x-api-key'', k)], timeout = 30 \<rparr>"
    by simp
  have up_req: "up \<lparr> http_method = ''GET'', url = ''https://v3.openstates.org/committees'',
               params = ps, headers = [(''x-api-key'', k)], timeout = 30 \<rparr> = Responds r"
    using assms(4) req by simp
  note ok = get_and_count_success [where up = up, OF up_req assms(5,6,7,8)]
  show "fst (call_tool fs cfg up env
          (Committees_search_committees jurisdiction classification parent chamber inc
             page per_page)
          ctx w) = Inr data"
    by (simp add: search_committees_def validate_api_key_present [OF assms(1,2)] Let_def b ok)
  show "\<exists>m. logged (snd (call_tool fs cfg up env
          (Committees_search_committees jurisdiction classification parent chamber inc
             page per_page)
          ctx w))
          = logged w @ [(sink_of ctx, INFO, m),
                        (sink_of ctx, INFO, ''Found '' @ str_nat n @ '' committees'')]"
    by (simp add: search_committees_def validate_api_key_present [OF assms(1,2)] Let_def b ok log_info_def)
qed

lemma search_events_success:
  assumes "openstates_api_key cfg = Some k" and "k \<noteq> []"
    and "get_calls (snd (call_tool fs cfg up env
          (Events_search_events jurisdiction deleted before after require_bills inc page
             per_page)
          ctx w)) = get_calls w @ [req]"
    and "up req = Responds r" and "is_success (status_code r)" and "body r = Inr data"
    and "results_of data = Inr rs" and "py_len rs = Inr n"
  shows "fst (call_tool fs cfg up env
          (Events_search_events jurisdiction deleted before after require_bills inc page
             per_page)
          ctx w) = Inr data"
    and "\<exists>m. logged (snd (call_tool fs cfg up env
          (Events_search_events jurisdiction deleted before after require_bills inc page
             per_page)
          ctx w))
          = logged w @ [(sink_of ctx, INFO, m),
                        (sink_of ctx, INFO, ''Found '' @ str_nat n @ '' events'')]"
proof -
  obtain ps where b: "search_events_params jurisdiction deleted before after require_bills inc page
          per_page = Inr ps"
    and s: "get_calls (snd (call_tool fs cfg up env
          (Events_search_events jurisdiction deleted before after require_bills inc page
             per_page)
          ctx w))
          = get_calls w @ [\<lparr> http_method = ''GET'', url = ''https://v3.openstates.org/events'',
               params = ps, headers = [(''x-api-key'', k)], timeout = 30 \<rparr>]"
    using search_events_sent [OF assms(1,2), of "jurisdiction" "deleted" "before" "after" "require_bills" "inc" "page" "per_page" fs up env ctx w] by blast
  from assms(3) s have req: "req = \<lparr> http_method = ''GET'', url = ''https://v3.openstates.org/events'',
               params = ps, headers = [(''x-api-key'', k)], timeout = 30 \<rparr>"
    by simp
  have up_req: "up \<lparr> http_method = ''GET'', url = ''https://v3.openstates.org/events'',
               params = ps, headers = [(''x-api-key'', k)], timeout = 30 \<rparr> = Responds r"
    using assms(4) req by simp
  note ok = get_and_count_success [where up = up, OF up_req assms(5,6,7,8)]
  show "fst (call_tool fs cfg up env
          (Events_search_events jurisdiction deleted before after require_bills inc page
             per_page)
          ctx w) = Inr data"
    by (simp add: search_events_def validate_api_key_present [OF assms(1,2)] Let_def b ok)
  show "\<exists>m. logged (snd (call_tool fs cfg up env
          (Events_search_events jurisdiction deleted before after require_bills inc page
             per_page)
          ctx w))
          = logged w @ [(sink_of ctx, INFO, m),
                        (sink_of ctx, INFO, ''Found '' @ str_nat n @ '' events'')]"
    by (simp add: search_events_def validate_api_key_present [OF assms(1,2)] Let_def b ok log_info_def)
qed

lemma get_jurisdictions_success:
  assumes "openstates_api_key cfg = Some k" and "k \<noteq> []"
    and "get_calls (snd (call_tool fs cfg up env
          (Jurisdictions_get_jurisdictions classification inc page per_page)
          ctx w)) = get_calls w @ [req]"
    and "up req = Responds r" and "is_success (status_code r)" and "body r = Inr data"
    and "results_of data = Inr rs" and "py_len rs = Inr n"
  shows "fst (call_tool fs cfg up env
          (Jurisdictions_get_jurisdictions classification inc page per_page)
          ctx w) = Inr data"
    and "\<exists>m. logged (snd (call_tool fs cfg up env
          (Jurisdictions_get_jurisdictions classification inc page per_page)
          ctx w))
          = logged w @ [(sink_of ctx, INFO, m),
                        (sink_of ctx, INFO, ''Found '' @ str_nat n @ '' jurisdictions'')]"
proof -
  obtain ps where b: "get_jurisdictions_params classification inc page per_page = Inr ps"
    and s: "get_calls (snd (call_tool fs cfg up env
          (Jurisdictions_get_jurisdictions classification inc page per_page)
          ctx w))
          = get_calls w @ [\<lparr> http_method = ''GET'', url = ''https://v3.openstates.org/jurisdictions'',
               params = ps, headers = [(''x-api-key'', k)], timeout = 30 \<rparr>]"
    using get_jurisdictions_sent [OF assms(1,2), of "classification" "inc" "page" "per_page" fs up env ctx w] by blast
  from assms(3) s have req: "req = \<lparr> http_method = ''GET'', url = ''https://v3.openstates.org/jurisdictions'',
               params = ps, headers = [(''x-api-key'', k)], timeout = 30 \<rparr>"
    by simp
  have up_req: "up \<lparr> http_method = ''GET'', url = ''https://v3.openstates.org/jurisdictions'',
               params = ps, headers = [(''x-api-key'', k)], timeout = 30 \<rparr> = Responds r"
    using assms(4) req by simp
  note ok = get_and_count_success [where up = up, OF up_req assms(5,6,7,8)]
  show "fst (call_tool fs cfg up env
          (Jurisdictions_get_jurisdictions classification inc page per_page)
          ctx w) = Inr data"
    by (simp add: get_jurisdictions_def validate_api_key_present [OF assms(1,2)] Let_def b ok)
  show "\<exists>m. logged (snd (call_tool fs cfg up env
          (Jurisdictions_get_jurisdictions classification inc page per_page)
          ctx w))
          = logged w @ [(sink_of ctx, INFO, m),
                        (sink_of ctx, INFO, ''Found '' @ str_nat n @ '' jurisdictions'')]"
    by (simp add: get_jurisdictions_def validate_api_key_present [OF assms(1,2)] Let_def b ok log_info_def)
qed

text \<open>
  Claim C6, as the code has it. With an API key configured, let the upstream answer the
  request the call makes with a 2xx status and a body that decodes as JSON. Each of the
  six get operations then returns the decoded body as it is. Each of the five list
  operations does so when the body is an object whose \<^verbatim>\<open>results\<close> member, if there is
  one, has a length (an array, an object or a string), and its last log line is then
  \<^verbatim>\<open>Found n ...\<close> with \<open>n\<close> that length: 0 without the member, the number of elements
  of an array, of members of an object, of code points of a string.
\<close>

theorem success_returns_body:
  assumes "openstates_api_key cfg = Some k" and "k \<noteq> []" and "c \<noteq> Status"
    and "get_calls (snd (call_tool fs cfg up env c ctx w)) = get_calls w @ [req]"
    and "up req = Responds r"
    and "is_success (status_code r)" and "body r = Inr data"
    and "is_list_operation c \<longrightarrow>
           (\<exists>kvs. data = JDict kvs
              \<and> (map_of kvs ''results'' = None \<and> n = 0
                 \<or> (\<exists>xs. map_of kvs ''results'' = Some (JList xs) \<and> n = length xs)
                 \<or> (\<exists>ys. map_of kvs ''results'' = Some (JDict ys) \<and> n = length ys)
                 \<or> (\<exists>s. map_of kvs ''results'' = Some (JStr s)
                        \<and> n = length (filter (\<lambda>c. \<not> (128 \<le> (of_char c :: nat) \<and> (of_char c :: nat) < 192)) s))))"
  shows "fst (call_tool fs cfg up env c ctx w) = Inr data
       \<and> (is_list_operation c \<longrightarrow>
            (\<exists>m noun. logged (snd (call_tool fs cfg up env c ctx w)) =
               logged w @ [(sink_of ctx, INFO, m),
                           (sink_of ctx, INFO, ''Found '' @ str_nat n @ '' '' @ noun)]))"
proof (cases c)
  case (Bills_search_bills a1 a2 a3 a4 a5 a6 a7 a8 a9 a10 a11 a12 a13 a14 a15 a16)
  then have "is_list_operation c" by simp
  then obtain rs where rs: "results_of data = Inr rs" "py_len rs = Inr n"
    using assms(8) shape_has_length [of data n] by blast
  note made = assms(4) [unfolded Bills_search_bills]
  note ok = search_bills_success [OF assms(1,2) made assms(5,6,7) rs]
  show ?thesis unfolding Bills_search_bills using ok by auto
next
  case (Bills_get_bill_by_id a1 a2)
  note made = assms(4) [unfolded Bills_get_bill_by_id]
  note ok = get_bill_by_id_success [OF assms(1,2) made assms(5,6,7)]
  show ?thesis unfolding Bills_get_bill_by_id using ok by simp
next
  case (Bills_get_bill_details a1 a2 a3 a4)
  note made = assms(4) [unfolded Bills_get_bill_details]
  note ok = get_bill_details_success [OF assms(1,2) made assms(5,6,7)]
  show ?thesis unfolding Bills_get_bill_details using ok by simp
next
  case (People_search_people a1 a2 a3 a4 a5 a6 a7 a8)
  then have "is_list_operation c" by simp
  then obtain rs where rs: "results_of data = Inr rs" "py_len rs = Inr n"
    using assms(8) shape_has_length [of data n] by blast
  note made = assms(4) [unfolded People_search_people]
  note ok = search_people_success [OF assms(1,2) made assms(5,6,7) rs]
  show ?thesis unfolding People_search_people using ok by auto
next
  case (People_get_legislators_by_location a1 a2)
  note made = assms(4) [unfolded People_get_legislators_by_location]
  note ok = get_legislators_by_location_success [OF assms(1,2) made assms(5,6,7)]
  show ?thesis unfolding People_get_legislators_by_location using ok by simp
next
  case (Committees_search_committees a1 a2 a3 a4 a5 a6 a7)
  then have "is_list_operation c" by simp
  then obtain rs where rs: "results_of data = Inr rs" "py_len rs = Inr n"
    using assms(8) shape_has_length [of data n] by blast
  note made = assms(4) [unfolded Committees_search_committees]
  note ok = search_committees_success [OF assms(1,2) made assms(5,6,7) rs]
  show ?thesis unfolding Committees_search_committees using ok by auto
next
  case (Committees_get_committee_details a1 a2)
  note made = assms(4) [unfolded Committees_get_committee_details]
  note ok = get_committee_details_success [OF assms(1,2) made assms(5,6,7)]
  show ?thesis unfolding Committees_get_committee_details using ok by simp
next
  case (Events_search_events a1 a2 a3 a4 a5 a6 a7 a8)
  then have "is_list_operation c" by simp
  then obtain rs where rs: "results_of data = Inr rs" "py_len rs = Inr n"
    using assms(8) shape_has_length [of data n] by blast
  note made = assms(4) [unfolded Events_search_events]
  note ok = search_events_success [OF assms(1,2) made assms(5,6,7) rs]
  show ?thesis unfolding Events_search_events using ok by auto
next
  case (Events_get_event_details a1 a2)
  note made = assms(4) [unfolded Events_get_event_details]
  note ok = get_event_details_success [OF assms(1,2) made assms(5,6,7)]
  show ?thesis unfolding Events_get_event_details using ok by simp
next
  case (Jurisdictions_get_jurisdictions a1 a2 a3 a4)
  then have "is_list_operation c" by simp
  then obtain rs where rs: "results_of data = Inr rs" "py_len rs = Inr n"
    using assms(8) shape_has_length [of data n] by blast
  note made = assms(4) [unfolded Jurisdictions_get_jurisdictions]
  note ok = get_jurisdictions_success [OF assms(1,2) made assms(5,6,7) rs]
  show ?thesis unfolding Jurisdictions_get_jurisdictions using ok by auto
next
  case (Jurisdictions_get_jurisdiction_details a1 a2)
  note made = assms(4) [unfolded Jurisdictions_get_jurisdiction_details]
  note ok = get_jurisdiction_details_success [OF assms(1,2) made assms(5,6,7)]
  show ?thesis unfolding Jurisdictions_get_jurisdiction_details using ok by simp
next
  case Status
  then show ?thesis using assms(3) by simp
qed

theorem success_returns_body_witness:
  "openstates_api_key keyed_config = Some ''secret'' \<and> ''secret'' \<noteq> ([] :: string)
   \<and> Bills_search_bills (Some ''ca'') None None None None None None None None
          ''updated_desc'' None None (Some ''budget'') None 1 10 \<noteq> Status
   \<and> get_calls (snd (call_tool float_str_stub keyed_config (upstream_always (Responds \<lparr> status_code = 200, status_error_text = [],
          body = Inr (JDict [(''results'', JList [JInt 1, JInt 2, JInt 3, JInt 4, JInt 5, JInt 6, JInt 7, JInt 8]),
              (''pagination'', JDict [(''page'', JInt 1)])]) \<rparr>))
        example_env (Bills_search_bills (Some ''ca'') None None None None None None None None
          ''updated_desc'' None None (Some ''budget'') None 1 10) None empty_world))
     = get_calls empty_world @ [\<lparr> http_method = ''GET'', url = ''https://v3.openstates.org/bills'',
          params = [(''page'', PInt 1), (''per_page'', PInt 10), (''jurisdiction'', PStr ''ca''),
                    (''sort'', PStr ''updated_desc''), (''q'', PStr ''budget'')],
          headers = [(''x-api-key'', ''secret'')], timeout = 30 \<rparr>]
   \<and> upstream_always (Responds \<lparr> status_code = 200, status_error_text = [],
          body = Inr (JDict [(''results'', JList [JInt 1, JInt 2, JInt 3, JInt 4, JInt 5, JInt 6, JInt 7, JInt 8]),
              (''pagination'', JDict [(''page'', JInt 1)])]) \<rparr>) (\<lparr> http_method = ''GET'', url = ''https://v3.openstates.org/bills'',
          params = [(''page'', PInt 1), (''per_page'', PInt 10), (''jurisdiction'', PStr ''ca''),
                    (''sort'', PStr ''updated_desc''), (''q'', PStr ''budget'')],
          headers = [(''x-api-key'', ''secret'')], timeout = 30 \<rparr>)
     = Responds \<lparr> status_code = 200, status_error_text = [],
          body = Inr (JDict [(''results'', JList [JInt 1, JInt 2, JInt 3, JInt 4, JInt 5, JInt 6, JInt 7, JInt 8]),
              (''pagination'', JDict [(''page'', JInt 1)])]) \<rparr>
   \<and> is_success 200
   \<and> is_list_operation (Bills_search_bills (Some ''ca'') None None None None None None None None
          ''updated_desc'' None None (Some ''budget'') None 1 10)
   \<and> fst (call_tool float_str_stub keyed_config (upstream_always (Responds \<lparr> status_code = 200, status_error_text = [],
          body = Inr (JDict [(''results'', JList [JInt 1, JInt 2, JInt 3, JInt 4, JInt 5, JInt 6, JInt 7, JInt 8]),
              (''pagination'', JDict [(''page'', JInt 1)])]) \<rparr>))
        example_env (Bills_search_bills (Some ''ca'') None None None None None None None None
          ''updated_desc'' None None (Some ''budget'') None 1 10) None empty_world)
     = Inr (JDict [(''results'', JList [JInt 1, JInt 2, JInt 3, JInt 4, JInt 5, JInt 6, JInt 7, JInt 8]),
              (''pagination'', JDict [(''page'', JInt 1)])])
   \<and> logged (snd (call_tool float_str_stub keyed_config (upstream_always (Responds \<lparr> status_code = 200, status_error_text = [],
          body = Inr (JDict [(''results'', JList [JInt 1, JInt 2, JInt 3, JInt 4, JInt 5, JInt 6, JInt 7, JInt 8]),
              (''pagination'', JDict [(''page'', JInt 1)])]) \<rparr>))
        example_env (Bills_search_bills (Some ''ca'') None None None None None None None None
          ''updated_desc'' None None (Some ''budget'') None 1 10) None empty_world))
     = [(ToLogger, INFO, ''Searching bills with jurisdiction: ca, query: budget''),
        (ToLogger, INFO, ''Found 8 bills'')]"
proof -
  have eight: "str_nat 8 = ''8''" by code_simp
  have eight_suc: "str_nat (Suc (Suc (Suc (Suc (Suc (Suc (Suc (Suc 0)))))))) = ''8''"
    by code_simp
  have key: "openstates_api_key keyed_config = Some ''secret''"
    by (simp add: keyed_config_def)
  have ne: "''secret'' \<noteq> ([] :: string)" by simp
  have cne: "Bills_search_bills (Some ''ca'') None None None None None None None None
          ''updated_desc'' None None (Some ''budget'') None 1 10 \<noteq> Status" by simp
  have ps: "search_bills_params (Some ''ca'') None None None None None None None None
          ''updated_desc'' None None (Some ''budget'') None 1 10
      = Inr [(''page'', PInt 1), (''per_page'', PInt 10), (''jurisdiction'', PStr ''ca''),
             (''sort'', PStr ''updated_desc''), (''q'', PStr ''budget'')]"
    by (simp add: search_bills_params_def add_list_param_def dict_update_def opt_str_def)
  have made: "get_calls (snd (call_tool float_str_stub keyed_config (upstream_always (Responds \<lparr> status_code = 200, status_error_text = [],
          body = Inr (JDict [(''results'', JList [JInt 1, JInt 2, JInt 3, JInt 4, JInt 5, JInt 6, JInt 7, JInt 8]),
              (''pagination'', JDict [(''page'', JInt 1)])]) \<rparr>))
        example_env (Bills_search_bills (Some ''ca'') None None None None None None None None
          ''updated_desc'' None None (Some ''budget'') None 1 10) None empty_world))
     = get_calls empty_world @ [\<lparr> http_method = ''GET'', url = ''https://v3.openstates.org/bills'',
          params = [(''page'', PInt 1), (''per_page'', PInt 10), (''jurisdiction'', PStr ''ca''),
                    (''sort'', PStr ''updated_desc''), (''q'', PStr ''budget'')],
          headers = [(''x-api-key'', ''secret'')], timeout = 30 \<rparr>]"
    by (simp add: search_bills_def validate_api_key_present [OF key ne] Let_def ps
          get_and_count_calls)
  have up: "upstream_always (Responds \<lparr> status_code = 200, status_error_text = [],
          body = Inr (JDict [(''results'', JList [JInt 1, JInt 2, JInt 3, JInt 4, JInt 5, JInt 6, JInt 7, JInt 8]),
              (''pagination'', JDict [(''page'', JInt 1)])]) \<rparr>) (\<lparr> http_method = ''GET'', url = ''https://v3.openstates.org/bills'',
          params = [(''page'', PInt 1), (''per_page'', PInt 10), (''jurisdiction'', PStr ''ca''),
                    (''sort'', PStr ''updated_desc''), (''q'', PStr ''budget'')],
          headers = [(''x-api-key'', ''secret'')], timeout = 30 \<rparr>)
     = Responds \<lparr> status_code = 200, status_error_text = [],
          body = Inr (JDict [(''results'', JList [JInt 1, JInt 2, JInt 3, JInt 4, JInt 5, JInt 6, JInt 7, JInt 8]),
              (''pagination'', JDict [(''page'', JInt 1)])]) \<rparr>"
    by (simp add: upstream_always_def)
  have shape: "is_list_operation (Bills_search_bills (Some ''ca'') None None None None None None None None
          ''updated_desc'' None None (Some ''budget'') None 1 10) \<longrightarrow>
      (\<exists>kvs. JDict [(''results'', JList [JInt 1, JInt 2, JInt 3, JInt 4, JInt 5, JInt 6, JInt 7, JInt 8]),
              (''pagination'', JDict [(''page'', JInt 1)])] = JDict kvs
         \<and> (map_of kvs ''results'' = None \<and> (8 :: nat) = 0
            \<or> (\<exists>xs. map_of kvs ''results'' = Some (JList xs) \<and> 8 = length xs)
            \<or> (\<exists>ys. map_of kvs ''results'' = Some (JDict ys) \<and> 8 = length ys)
            \<or> (\<exists>s. map_of kvs ''results'' = Some (JStr s)
                   \<and> 8 = length (filter (\<lambda>c. \<not> (128 \<le> (of_char c :: nat) \<and> (of_char c :: nat) < 192)) s))))"
    by simp
  have main: "fst (call_tool float_str_stub keyed_config (upstream_always (Responds \<lparr> status_code = 200, status_error_text = [],
          body = Inr (JDict [(''results'', JList [JInt 1, JInt 2, JInt 3, JInt 4, JInt 5, JInt 6, JInt 7, JInt 8]),
              (''pagination'', JDict [(''page'', JInt 1)])]) \<rparr>))
        example_env (Bills_search_bills (Some ''ca'') None None None None None None None None
          ''updated_desc'' None None (Some ''budget'') None 1 10) None empty_world)
     = Inr (JDict [(''results'', JList [JInt 1, JInt 2, JInt 3, JInt 4, JInt 5, JInt 6, JInt 7, JInt 8]),
              (''pagination'', JDict [(''page'', JInt 1)])])
    \<and> (is_list_operation (Bills_search_bills (Some ''ca'') None None None None None None None None
          ''updated_desc'' None None (Some ''budget'') None 1 10) \<longrightarrow>
        (\<exists>m noun. logged (snd (call_tool float_str_stub keyed_config (upstream_always (Responds \<lparr> status_code = 200, status_error_text = [],
          body = Inr (JDict [(''results'', JList [JInt 1, JInt 2, JInt 3, JInt 4, JInt 5, JInt 6, JInt 7, JInt 8]),
              (''pagination'', JDict [(''page'', JInt 1)])]) \<rparr>))
        example_env (Bills_search_bills (Some ''ca'') None None None None None None None None
          ''updated_desc'' None None (Some ''budget'') None 1 10) None empty_world)) =
           logged empty_world @ [(sink_of None, INFO, m),
                       (sink_of None, INFO, ''Found '' @ str_nat 8 @ '' '' @ noun)]))"
    by (rule success_returns_body [OF key ne cne made up _ _ shape]) (simp_all add: is_success_def)
  have lines: "logged (snd (call_tool float_str_stub keyed_config (upstream_always (Responds \<lparr> status_code = 200, status_error_text = [],
          body = Inr (JDict [(''results'', JList [JInt 1, JInt 2, JInt 3, JInt 4, JInt 5, JInt 6, JInt 7, JInt 8]),
              (''pagination'', JDict [(''page'', JInt 1)])]) \<rparr>))
        example_env (Bills_search_bills (Some ''ca'') None None None None None None None None
          ''updated_desc'' None None (Some ''budget'') None 1 10) None empty_world))
     = [(ToLogger, INFO, ''Searching bills with jurisdiction: ca, query: budget''),
        (ToLogger, INFO, ''Found 8 bills'')]"
    by (simp add: search_bills_def validate_api_key_present [OF key ne] ps
          get_and_count_def client_get_def upstream_always_def is_success_def
          results_of_def py_len_def log_info_def sink_of_def str_opt_def empty_world_def
          eight eight_suc Let_def)
  show ?thesis using main lines key made up by (simp add: is_success_def)
qed

section \<open>The status operation\<close>

lemma digit_char_not_minus: "d < 10 \<Longrightarrow> digit_char d \<noteq> CHR ''-''"
proof
  assume d: "d < 10" and eq: "digit_char d = CHR ''-''"
  have "of_char (digit_char d) = (48 + d) mod 256"
    by (simp add: digit_char_def)
  then have "(of_char (CHR ''-'') :: nat) = 48 + d"
    using d eq by simp
  then show False by simp
qed

lemma str_nat_no_minus: "CHR ''-'' \<notin> set (str_nat n)"
proof (induction n rule: str_nat.induct)
  case (1 n)
  show ?case
  proof (cases "n < 10")
    case True
    then show ?thesis using digit_char_not_minus [of n] by (simp add: str_nat.simps [of n])
  next
    case False
    have "n mod 10 < 10" by simp
    then have "digit_char (n mod 10) \<noteq> CHR ''-''" by (rule digit_char_not_minus)
    then show ?thesis using False 1 by (simp add: str_nat.simps [of n])
  qed
qed

lemma fmt_02d_no_minus: "0 \<le> i \<Longrightarrow> CHR ''-'' \<notin> set (fmt_02d i)"
  by (simp add: fmt_02d_def str_int_def Let_def str_nat_no_minus)

lemma py_int_seconds:
  "0 \<le> d \<Longrightarrow> py_int (of_int d / 1000000) = d div 1000000"
proof -
  assume d: "0 \<le> d"
  have "(of_int d / 1000000 :: rat) = of_int d / of_int 1000000" by simp
  then have "\<lfloor>of_int d / 1000000 :: rat\<rfloor> = d div 1000000"
    by (simp only: floor_divide_of_int_eq)
  then show ?thesis using d by (simp add: py_int_def)
qed

lemma round_half_even_nonneg: "0 \<le> x \<Longrightarrow> 0 \<le> round_half_even x"
proof -
  assume "0 \<le> x"
  then have "0 \<le> \<lfloor>x\<rfloor>" by simp
  then show ?thesis by (simp add: round_half_even_def Let_def)
qed

lemma py_round1_nonneg: "0 \<le> x \<Longrightarrow> 0 \<le> py_round1 x"
  by (simp add: py_round1_def round_half_even_nonneg)

lemma example_parts:
  "py_round1 (of_nat (memory_rss example_env) / 1048576) = 50"
  "py_round1 (cpu_percent_reading example_env) = 0"
  "is_docker example_env = False"
  "get_version example_env = JStr ''0.1.0''"
  "python_version example_env = ''3.12.3''"
  by (simp_all add: py_round1_def round_half_even_def example_env_def Let_def is_docker_def
        get_version_def)

lemma skewed_parts:
  "py_round1 (of_nat (memory_rss skewed_env) / 1048576) = 50"
  "py_round1 (cpu_percent_reading skewed_env) = 0"
  "is_docker skewed_env = False"
  "get_version skewed_env = JStr ''0.1.0''"
  "python_version skewed_env = ''3.12.3''"
  "clock_now_iso skewed_env = ''1970-01-01T00:00:05+00:00''"
  by (simp_all add: py_round1_def round_half_even_def example_env_def skewed_env_def Let_def
        is_docker_def get_version_def)

text \<open>
  Claim C7, as the code has it. \<^verbatim>\<open>status\<close> takes no argument of the caller and makes no
  request: its outcome is the same for every upstream, and it leaves the recorded
  \<^verbatim>\<open>client.get\<close> calls as they were. It returns a snapshot whose \<^verbatim>\<open>status\<close> is
  \<^verbatim>\<open>"healthy"\<close> and whose \<^verbatim>\<open>memory_mb\<close> is not negative. Its uptime is \<^verbatim>\<open>HH:MM:SS\<close>
  with minutes and seconds from 0 to 59; when the clock reading is not earlier than the
  creation time of the process, the hours are not negative either, the three add up to
  the whole seconds elapsed, and the text has no minus sign.
\<close>

theorem status_healthy:
  "call_tool fs cfg up env Status ctx w = call_tool fs' cfg up' env Status ctx' w
   \<and> get_calls (snd (call_tool fs cfg up env Status ctx w)) = get_calls w
   \<and> (\<exists>snap system mem h m s.
        fst (call_tool fs cfg up env Status ctx w) = Inr (JDict snap)
      \<and> map_of snap ''status'' = Some (JStr ''healthy'')
      \<and> map_of snap ''system'' = Some (JDict system)
      \<and> map_of system ''memory_mb'' = Some (JFloat mem) \<and> 0 \<le> mem
      \<and> map_of system ''process_uptime''
           = Some (JStr (fmt_02d h @ '':'' @ fmt_02d m @ '':'' @ fmt_02d s))
      \<and> 0 \<le> m \<and> m < 60 \<and> 0 \<le> s \<and> s < 60
      \<and> (process_create_time env \<le> clock_now env \<longrightarrow>
            0 \<le> h
          \<and> 3600 * h + 60 * m + s = (clock_now env - process_create_time env) div 1000000
          \<and> CHR ''-'' \<notin> set (fmt_02d h @ '':'' @ fmt_02d m @ '':'' @ fmt_02d s)))"
proof -
  define n where "n = py_int (of_int (clock_now env - process_create_time env) / 1000000)"
  define h where "h = n div 3600"
  define m where "m = (n mod 3600) div 60"
  define s where "s = (n mod 3600) mod 60"
  define mem where "mem = py_round1 (of_nat (memory_rss env) / 1024 / 1024)"
  have m0: "0 \<le> m" "m < 60" unfolding m_def by (simp_all add: pos_imp_zdiv_nonneg_iff)
  have s0: "0 \<le> s" "s < 60" unfolding s_def by simp_all
  have total: "3600 * h + 60 * m + s = n"
    unfolding h_def m_def s_def by presburger
  have mem0: "0 \<le> mem" unfolding mem_def by (rule py_round1_nonneg) simp
  have later: "0 \<le> h
      \<and> 3600 * h + 60 * m + s = (clock_now env - process_create_time env) div 1000000
      \<and> CHR ''-'' \<notin> set (fmt_02d h @ '':'' @ fmt_02d m @ '':'' @ fmt_02d s)"
    if le: "process_create_time env \<le> clock_now env"
  proof -
    have d: "0 \<le> clock_now env - process_create_time env" using le by simp
    have n: "n = (clock_now env - process_create_time env) div 1000000"
      unfolding n_def by (rule py_int_seconds [OF d])
    have n0: "0 \<le> n" unfolding n using d by (simp add: pos_imp_zdiv_nonneg_iff)
    have h0: "0 \<le> h" unfolding h_def using n0 by (simp add: pos_imp_zdiv_nonneg_iff)
    have "CHR ''-'' \<notin> set (fmt_02d h @ '':'' @ fmt_02d m @ '':'' @ fmt_02d s)"
      using fmt_02d_no_minus [OF h0] fmt_02d_no_minus [OF m0(1)] fmt_02d_no_minus [OF s0(1)]
      by simp
    then show ?thesis using h0 total n by simp
  qed
  have "\<exists>snap system.
          fst (status cfg env w) = Inr (JDict snap)
        \<and> map_of snap ''status'' = Some (JStr ''healthy'')
        \<and> map_of snap ''system'' = Some (JDict system)
        \<and> map_of system ''memory_mb'' = Some (JFloat mem)
        \<and> map_of system ''process_uptime''
               = Some (JStr (fmt_02d h @ '':'' @ fmt_02d m @ '':'' @ fmt_02d s))"
    by (simp add: status_def Let_def py_divmod_def n_def h_def m_def s_def mem_def
          del: of_int_diff)
  then obtain snap system where
        1: "fst (status cfg env w) = Inr (JDict snap)"
    and 2: "map_of snap ''status'' = Some (JStr ''healthy'')"
    and 3: "map_of snap ''system'' = Some (JDict system)"
    and 4: "map_of system ''memory_mb'' = Some (JFloat mem)"
    and 5: "map_of system ''process_uptime''
               = Some (JStr (fmt_02d h @ '':'' @ fmt_02d m @ '':'' @ fmt_02d s))"
    by blast
  have calls: "get_calls (snd (status cfg env w)) = get_calls w"
    by (rule status_calls)
  show ?thesis
    unfolding call_tool.simps
    using 1 2 3 4 5 calls m0 s0 mem0 later by blast
qed

theorem status_healthy_witness:
  "process_create_time example_env \<le> clock_now example_env
   \<and> get_calls (snd (call_tool float_str_stub default_config
         (upstream_always (Raises (Exn RequestError ''unreachable''))) example_env Status
         None empty_world)) = []
   \<and> fst (call_tool float_str_stub default_config
         (upstream_always (Raises (Exn RequestError ''unreachable''))) example_env Status
         None empty_world)
     = Inr (JDict
          [(''status'', JStr ''healthy''),
           (''service'', JStr ''OpenStates MCP Server''),
           (''version'', JStr ''0.1.0''),
           (''timestamp'', JStr ''1970-01-01T01:18:45.500000+00:00''),
           (''environment'', JDict
              [(''runtime'', JStr ''native''),
               (''docker'', JBool False),
               (''python_version'', JStr ''3.12.3'')]),
           (''system'', JDict
              [(''process_uptime'', JStr ''01:02:05''),
               (''memory_mb'', JFloat 50),
               (''cpu_percent'', JFloat 0)]),
           (''server'', JDict
              [(''tools_available'',
                  JList [JStr ''bills'', JStr ''people'', JStr ''committees'',
                         JStr ''events'', JStr ''jurisdictions'']),
               (''transport'', JStr ''streamable-http''),
               (''api_base'', JStr ''https://v3.openstates.org''),
               (''host'', JStr ''0.0.0.0''),
               (''port'', JInt 8795),
               (''api_configured'', JBool False)])])"
proof -
  have le: "process_create_time example_env \<le> clock_now example_env"
    by (simp add: example_env_def)
  note main = status_healthy [of float_str_stub default_config
      "upstream_always (Raises (Exn RequestError ''unreachable''))" example_env None
      empty_world float_str_stub
      "upstream_always (Raises (Exn RequestError ''unreachable''))" None]
  have "py_int (of_int (clock_now example_env - process_create_time example_env) / 1000000)
          = (clock_now example_env - process_create_time example_env) div 1000000"
    by (rule py_int_seconds) (simp add: example_env_def)
  also have "\<dots> = 3725" by (simp add: example_env_def)
  finally have secs:
    "py_int (of_int (clock_now example_env - process_create_time example_env) / 1000000)
       = 3725" .
  have fmt: "fmt_02d 1 = ''01''" "fmt_02d 2 = ''02''" "fmt_02d 5 = ''05''"
    by code_simp+
  have stamp: "clock_now_iso example_env = ''1970-01-01T01:18:45.500000+00:00''"
    by (simp add: example_env_def)
  have run: "fst (status default_config example_env empty_world)
     = Inr (JDict
          [(''status'', JStr ''healthy''),
           (''service'', JStr ''OpenStates MCP Server''),
           (''version'', JStr ''0.1.0''),
           (''timestamp'', JStr ''1970-01-01T01:18:45.500000+00:00''),
           (''environment'', JDict
              [(''runtime'', JStr ''native''),
               (''docker'', JBool False),
               (''python_version'', JStr ''3.12.3'')]),
           (''system'', JDict
              [(''process_uptime'', JStr ''01:02:05''),
               (''memory_mb'', JFloat 50),
               (''cpu_percent'', JFloat 0)]),
           (''server'', JDict
              [(''tools_available'',
                  JList [JStr ''bills'', JStr ''people'', JStr ''committees'',
                         JStr ''events'', JStr ''jurisdictions'']),
               (''transport'', JStr ''streamable-http''),
               (''api_base'', JStr ''https://v3.openstates.org''),
               (''host'', JStr ''0.0.0.0''),
               (''port'', JInt 8795),
               (''api_configured'', JBool False)])])"
    by (simp add: status_def Let_def py_divmod_def secs fmt example_parts stamp
          default_config_def del: of_int_diff)
  show ?thesis using main le run by (simp add: empty_world_def)
qed

text \<open>
  Claim C7 as stated fails: nothing in \<^verbatim>\<open>status\<close> keeps the uptime from being negative.
  When the clock reads an instant before the creation time of the process (it was set
  back), \<^verbatim>\<open>int(uptime_seconds)\<close> is negative and the uptime is reported as
  \<^verbatim>\<open>-1:59:55\<close>.
\<close>

theorem status_uptime_before_creation:
  "fst (call_tool float_str_stub default_config
         (upstream_always (Raises (Exn RequestError ''unreachable''))) skewed_env Status
         None empty_world)
     = Inr (JDict
          [(''status'', JStr ''healthy''),
           (''service'', JStr ''OpenStates MCP Server''),
           (''version'', JStr ''0.1.0''),
           (''timestamp'', JStr ''1970-01-01T00:00:05+00:00''),
           (''environment'', JDict
              [(''runtime'', JStr ''native''),
               (''docker'', JBool False),
               (''python_version'', JStr ''3.12.3'')]),
           (''system'', JDict
              [(''process_uptime'', JStr ''-1:59:55''),
               (''memory_mb'', JFloat 50),
               (''cpu_percent'', JFloat 0)]),
           (''server'', JDict
              [(''tools_available'',
                  JList [JStr ''bills'', JStr ''people'', JStr ''committees'',
                         JStr ''events'', JStr ''jurisdictions'']),
               (''transport'', JStr ''streamable-http''),
               (''api_base'', JStr ''https://v3.openstates.org''),
               (''host'', JStr ''0.0.0.0''),
               (''port'', JInt 8795),
               (''api_configured'', JBool False)])])"
proof -
  have secs:
    "py_int (of_int (clock_now skewed_env - process_create_time skewed_env) / 1000000) = - 5"
    by (simp add: py_int_def skewed_env_def example_env_def)
  have fmt: "fmt_02d (- 1) = ''-1''" "fmt_02d 59 = ''59''" "fmt_02d 55 = ''55''"
    by code_simp+
  show ?thesis
    by (simp add: status_def Let_def py_divmod_def secs fmt skewed_parts default_config_def
          del: of_int_diff)
qed

end
